(* ===== verification/Ledger_Prelude.thy ===== *)
theory Ledger_Prelude
  imports Main "HOL-Library.AList"
begin

text \<open>
  Shared vocabulary of the development. A database table of the Django backend is an
  association list from primary keys to rows, in insertion order (the storage's natural
  order, which is the order of an unordered queryset). \<open>AList.update\<close> is Django's
  \<open>Model.save()\<close> on an object with a primary key (UPDATE the row, or INSERT it when
  there is none); a fresh key comes from a sequence counter (the AutoField sequence, or
  a \<open>uuid4\<close> assumed never to collide). Money is a Python \<open>Decimal\<close> with two
  decimal places, so it is an \<open>int\<close> counting cents; dates are \<open>int\<close> day numbers.
  The generic facts below are the sums over tables that the ledger invariants use and
  the freshness of keys, shared by every component theory.
\<close>

type_synonym money = int
type_synonym day = int
type_synonym ('k, 'v) table = "('k \<times> 'v) list"

named_theorems table_simps "rewrite rules for sums and keys of tables"

definition sum_where :: "('v \<Rightarrow> bool) \<Rightarrow> ('v \<Rightarrow> int) \<Rightarrow> ('k, 'v) table \<Rightarrow> int" where
  "sum_where P f t = sum_list (map (f \<circ> snd) (filter (P \<circ> snd) t))"

definition fresh_keys :: "(nat, 'v) table \<Rightarrow> nat \<Rightarrow> bool" where
  "fresh_keys t n \<longleftrightarrow> distinct (map fst t) \<and> list_all (\<lambda>k. k < n) (map fst t)"

definition keys :: "('k, 'v) table \<Rightarrow> 'k set" where
  "keys t = fst ` set t"

text \<open>
  \<open>QuerySet.first()\<close> of a filtered table: an unordered queryset is ordered by
  primary key, so the matching row of least key.
\<close>

definition first_by_pk :: "('v \<Rightarrow> bool) \<Rightarrow> (nat, 'v) table \<Rightarrow> (nat \<times> 'v) option" where
  "first_by_pk P t = (case sort_key fst (filter (P \<circ> snd) t) of [] \<Rightarrow> None | r # _ \<Rightarrow> Some r)"

lemma sum_where_Nil [simp, table_simps]: "sum_where P f [] = 0"
  by (simp add: sum_where_def)

lemma sum_where_Cons [simp, table_simps]:
  "sum_where P f ((k, v) # t) = (if P v then f v else 0) + sum_where P f t"
  by (simp add: sum_where_def)

lemma sum_where_append [table_simps]:
  "sum_where P f (t @ u) = sum_where P f t + sum_where P f u"
  by (simp add: sum_where_def)

lemma sum_where_update_Some [table_simps]:
  assumes "distinct (map fst t)" and "map_of t k = Some v0"
  shows "sum_where P f (AList.update k v t) =
           sum_where P f t - (if P v0 then f v0 else 0) + (if P v then f v else 0)"
  using assms
proof (induction t)
  case Nil
  then show ?case by simp
next
  case (Cons p t)
  obtain k' v' where p: "p = (k', v')" by (cases p)
  show ?case
  proof (cases "k' = k")
    case True
    with Cons.prems p show ?thesis by simp
  next
    case False
    with Cons.prems p have "sum_where P f (AList.update k v t) =
           sum_where P f t - (if P v0 then f v0 else 0) + (if P v then f v else 0)"
      by (intro Cons.IH) auto
    with False p show ?thesis by simp
  qed
qed

lemma sum_where_update_None [table_simps]:
  assumes "map_of t k = None"
  shows "sum_where P f (AList.update k v t) = sum_where P f t + (if P v then f v else 0)"
  using assms by (induction t) (auto split: if_splits)

lemma sum_where_cong:
  assumes "\<And>k v. (k, v) \<in> set t \<Longrightarrow> P v = Q v"
    and "\<And>k v. (k, v) \<in> set t \<Longrightarrow> P v \<Longrightarrow> f v = g v"
  shows "sum_where P f t = sum_where Q g t"
  using assms
proof (induction t)
  case Nil
  then show ?case by simp
next
  case (Cons p t)
  then have "sum_where P f t = sum_where Q g t" by (intro Cons.IH) auto
  with Cons.prems show ?case by (cases p) auto
qed

lemma sum_where_nonneg:
  assumes "\<And>k v. (k, v) \<in> set t \<Longrightarrow> P v \<Longrightarrow> 0 \<le> f v"
  shows "0 \<le> sum_where P f t"
  using assms
proof (induction t)
  case Nil
  then show ?case by simp
next
  case (Cons p t)
  obtain k v where p: "p = (k, v)" by (cases p)
  from Cons.prems have "0 \<le> sum_where P f t" by (intro Cons.IH) auto
  moreover from Cons.prems p have "P v \<Longrightarrow> 0 \<le> f v" by auto
  ultimately show ?case using p by simp
qed

lemma sum_where_all_false:
  assumes "\<And>k v. (k, v) \<in> set t \<Longrightarrow> \<not> P v"
  shows "sum_where P f t = 0"
  using assms
proof (induction t)
  case Nil
  then show ?case by simp
next
  case (Cons p t)
  then have "sum_where P f t = 0" by (intro Cons.IH) auto
  with Cons.prems show ?case by (cases p) auto
qed

lemma map_of_update_same [simp, table_simps]: "map_of (AList.update k v t) k = Some v"
  by (simp add: update_conv')

lemma map_of_update_other [simp, table_simps]:
  "k' \<noteq> k \<Longrightarrow> map_of (AList.update k v t) k' = map_of t k'"
  by (simp add: update_conv')

lemma map_of_update_eq_Some [table_simps]:
  "map_of (AList.update k v t) i = Some x \<longleftrightarrow> (i = k \<and> x = v) \<or> (i \<noteq> k \<and> map_of t i = Some x)"
  by (cases "i = k") auto

lemma keys_update [simp, table_simps]: "keys (AList.update k v t) = insert k (keys t)"
  by (simp add: keys_def dom_update)

lemma map_of_Some_keys [intro]: "map_of t k = Some v \<Longrightarrow> k \<in> keys t"
  unfolding keys_def by (drule map_of_SomeD) force

lemma keys_map_of: "k \<in> keys t \<longleftrightarrow> (\<exists>v. map_of t k = Some v)"
  by (metis keys_def map_of_eq_None_iff not_None_eq)

lemma in_set_map_of:
  "distinct (map fst t) \<Longrightarrow> (k, v) \<in> set t \<longleftrightarrow> map_of t k = Some v"
  by (auto simp: map_of_is_SomeI dest: map_of_SomeD)

lemma set_update_distinct:
  assumes "distinct (map fst t)"
  shows "set (AList.update k v t) = insert (k, v) {p \<in> set t. fst p \<noteq> k}"
  using assms by (induction t) (auto simp: image_iff)

lemma fresh_keys_distinct [intro]: "fresh_keys t n \<Longrightarrow> distinct (map fst t)"
  by (simp add: fresh_keys_def)

lemma fresh_keys_less: "fresh_keys t n \<Longrightarrow> k \<in> keys t \<Longrightarrow> k < n"
  by (auto simp: fresh_keys_def keys_def list_all_iff)

lemma fresh_keys_new [simp, table_simps]: "fresh_keys t n \<Longrightarrow> map_of t n = None"
  by (auto simp: fresh_keys_def list_all_iff map_of_eq_None_iff)

lemma fresh_keys_insert [intro]:
  "fresh_keys t n \<Longrightarrow> fresh_keys (AList.update n v t) (Suc n)"
  by (auto simp: fresh_keys_def list_all_iff distinct_update dom_update)

lemma fresh_keys_update [intro]:
  "fresh_keys t n \<Longrightarrow> k \<in> keys t \<Longrightarrow> fresh_keys (AList.update k v t) n"
  by (auto simp: fresh_keys_def keys_def list_all_iff distinct_update dom_update)

lemma fresh_keys_filter [intro]: "fresh_keys t n \<Longrightarrow> fresh_keys (filter P t) n"
  by (auto simp: fresh_keys_def list_all_iff distinct_map_filter)

lemma fresh_keys_delete [intro]: "fresh_keys t n \<Longrightarrow> fresh_keys (AList.delete k t) n"
  by (simp add: AList.delete_eq fresh_keys_filter)

lemma ball_set_table:
  "distinct (map fst t) \<Longrightarrow>
     (\<forall>(k, v) \<in> set t. P k v) \<longleftrightarrow> (\<forall>k v. map_of t k = Some v \<longrightarrow> P k v)"
proof -
  assume d: "distinct (map fst t)"
  have "(\<forall>(k, v) \<in> set t. P k v) \<longleftrightarrow> (\<forall>k v. (k, v) \<in> set t \<longrightarrow> P k v)"
    by blast
  also have "\<dots> \<longleftrightarrow> (\<forall>k v. map_of t k = Some v \<longrightarrow> P k v)"
    using in_set_map_of [OF d] by simp
  finally show ?thesis .
qed

lemma fresh_keys_mono: "fresh_keys t n \<Longrightarrow> n \<le> m \<Longrightarrow> fresh_keys t m"
  by (auto simp: fresh_keys_def list_all_iff)

lemma fresh_keys_update_less:
  "fresh_keys t n \<Longrightarrow> k < n \<Longrightarrow> fresh_keys (AList.update k v t) n"
  by (auto simp: fresh_keys_def list_all_iff distinct_update dom_update)

lemma first_by_pk_unique:
  assumes d: "distinct (map fst t)" and kv: "map_of t k = Some v" and P: "P v"
    and only: "\<forall>(k', v') \<in> set t. P v' \<longrightarrow> k' = k"
  shows "first_by_pk P t = Some (k, v)"
proof -
  let ?f = "filter (P \<circ> snd) t"
  have mem: "(k, v) \<in> set ?f"
    using kv P by (simp add: map_of_SomeD)
  have df: "distinct (map fst ?f)"
    using d by (simp add: distinct_map_filter)
  have keys_f: "set (map fst ?f) \<subseteq> {k}"
    using only by auto
  then have "length (map fst ?f) \<le> 1"
    using df by (metis card_mono distinct_card finite.emptyI finite_insert card_1_singleton_iff
        is_singletonI is_singleton_altdef)
  then obtain x where "?f = [x]"
    using mem by (cases ?f) auto
  with mem have "?f = [(k, v)]"
    by simp
  then show ?thesis
    by (simp add: first_by_pk_def)
qed


lemma update_new: "map_of t k = None \<Longrightarrow> AList.update k v t = t @ [(k, v)]"
  by (induction t) auto

lemma set_update_subset: "set (AList.update k v t) \<subseteq> insert (k, v) (set t)"
  by (induction t) auto

lemma those_map_Some:
  "\<forall>x \<in> set xs. f x \<noteq> None \<Longrightarrow> those (map f xs) = Some (map (the \<circ> f) xs)"
  by (induction xs) auto

lemma sum_where_filter:
  "sum_list (map (f \<circ> snd) (filter (\<lambda>(k, v). P v) t)) = sum_where P f t"
  by (simp add: sum_where_def comp_def case_prod_beta')

lemma sum_where_filter_keep:
  "\<forall>(k, v) \<in> set t. P v \<longrightarrow> Q v \<Longrightarrow> sum_where P f (filter (\<lambda>(k, v). Q v) t) = sum_where P f t"
  by (induction t) (auto simp: sum_where_def)

lemma map_of_filter_value:
  "distinct (map fst t) \<Longrightarrow>
     map_of (filter (\<lambda>(k, v). Q v) t) k = (case map_of t k of None \<Rightarrow> None | Some v \<Rightarrow> if Q v then Some v else None)"
  by (induction t) (auto simp: map_of_eq_None_iff split: option.splits)

end
