(* ===== verification/Models.thy ===== *)
theory Models
  imports Ledger_Prelude
begin

text \<open>
  The Django models of \<open>src/backend\<close> as records, the database as a record of tables,
  and the outcomes of a request as an error datatype. Primary keys are \<open>nat\<close>:
  \<open>Debt\<close> has Django's integer AutoField, the other models a \<open>uuid4\<close> default
  (\<open>shared/models.py\<close>), modelled as a fresh counter. The timestamps \<open>created_at\<close>
  and \<open>updated_at\<close> are not modelled; a company is a row of its own table, which only
  the Django admin writes (\<open>Companies\<close>).
  A foreign key is the key of the referenced row; Django loads the row when the
  attribute is read, which the operations do explicitly with \<open>map_of\<close>.
\<close>

type_synonym company_id = nat
type_synonym user_id = nat
type_synonym client_id = nat
type_synonym debt_id = nat
type_synonym payment_id = nat

text \<open>\<open>users/models.py\<close>: the two role choices of \<open>User.USER_ROLES\<close>.\<close>

datatype role = SELLER | MANAGER

text \<open>
  \<open>users/models.py\<close> \<open>User\<close>: the fields the backend reads, with
  \<open>first_name\<close> and \<open>last_name\<close> of Django's \<open>AbstractUser\<close>. The password is
  Django's stored hash; hashing is modelled as the identity (a collision-free hash),
  so \<open>check_password\<close> is equality. The photo and the flags of \<open>AbstractUser\<close>
  (\<open>is_staff\<close>, \<open>is_active\<close>, \<open>last_login\<close>) are not read by the backend.
\<close>

record user =
  username :: string
  first_name :: string
  last_name :: string
  email :: "string option"
  phone_number :: "string option"
  user_company :: "company_id option"
  user_roles :: role
  password :: string

text \<open>\<open>clients/models.py\<close> \<open>Client\<close> (the source spells the balance \<open>balanse\<close>).\<close>

record client =
  name :: string
  phone :: string
  balanse :: money
  client_company :: "company_id option"

text \<open>\<open>debts/models.py\<close> \<open>Debt\<close>.\<close>

record debt =
  client :: client_id
  total_amount :: money
  remaining_amount :: money
  due_date :: day
  is_paid :: bool

text \<open>\<open>payments/models.py\<close> \<open>Payment\<close>.\<close>

record payment =
  debt :: debt_id
  amount :: money
  user :: user_id

text \<open>\<open>companies/models.py\<close> \<open>Company\<close>: a unique name of at most 255 characters.\<close>

record company =
  company_name :: string

text \<open>
  The database: one table per model and one key sequence per table. Every write of a
  model's \<open>save()\<close> is one of the \<open>write_\<close> functions below.
\<close>

record db =
  companies :: "(company_id, company) table"
  users :: "(user_id, user) table"
  clients :: "(client_id, client) table"
  debts :: "(debt_id, debt) table"
  payments :: "(payment_id, payment) table"
  user_seq :: nat
  client_seq :: nat
  debt_seq :: nat
  payment_seq :: nat
  company_seq :: nat

definition empty_db :: db where
  "empty_db = \<lparr>companies = [], users = [], clients = [], debts = [], payments = [],
               user_seq = 0, client_seq = 0, debt_seq = 0, payment_seq = 0, company_seq = 0\<rparr>"

text \<open>
  Outcomes of a request. \<open>ValidationError\<close> is DRF's HTTP 400, \<open>NotFound\<close> a 404 of
  a scoped queryset or \<open>get_object_or_404\<close>, \<open>PermissionDenied\<close> a 403, and
  \<open>NotAuthenticated\<close> the 401 of \<open>IsAuthenticated\<close> for an anonymous caller, and
  \<open>ServerError\<close> an exception the views do not catch (HTTP 500): the \<open>ValueError\<close>
  of \<open>Payment.save\<close>, a \<open>TypeError\<close>, an \<open>IntegrityError\<close> of a unique constraint,
  a \<open>KeyError\<close> and the \<open>AttributeError\<close> of a method called on \<open>None\<close>.
\<close>

datatype verr = NoCompany | InvalidPk | MaxDigits | NegativeDebt | DueDateNotFuture
  | FieldRequired | BlankField | MaxLength | PasswordMismatch | BadCredentials
  | NullField | NullCharacter | InvalidChoice | InvalidEmail | InvalidUsername | NotUnique
  | InvalidToken

datatype crash = PaymentExceedsRemaining | NoneComparison | UserWithoutCompany
  | IntegrityError | KeyMissing | NoneAttribute | UsernameNotSet

datatype error = ValidationError verr | NotFound | PermissionDenied | NotAuthenticated
  | ServerError crash

text \<open>
  \<open>DecimalField(max_digits=10, decimal_places=2)\<close>: DRF rejects an input with more
  than ten digits, i.e. (in cents) one whose absolute value reaches \<open>10^10\<close>.
\<close>

definition decimal_ok :: "money \<Rightarrow> bool" where
  "decimal_ok m \<longleftrightarrow> \<bar>m\<bar> < 10 ^ 10"

text \<open>\<open>debts/models.py\<close> \<open>default_due_date\<close>: today plus 30 days.\<close>

definition default_due_date :: "day \<Rightarrow> day" where
  "default_due_date today = today + 30"

definition write_client :: "client_id \<Rightarrow> client \<Rightarrow> db \<Rightarrow> db" where
  "write_client c cl s = s\<lparr>clients := AList.update c cl (clients s)\<rparr>"

definition write_debt :: "debt_id \<Rightarrow> debt \<Rightarrow> db \<Rightarrow> db" where
  "write_debt i d s = s\<lparr>debts := AList.update i d (debts s)\<rparr>"

definition write_payment :: "payment_id \<Rightarrow> payment \<Rightarrow> db \<Rightarrow> db" where
  "write_payment i p s = s\<lparr>payments := AList.update i p (payments s)\<rparr>"

definition insert_debt :: "debt \<Rightarrow> db \<Rightarrow> db \<times> debt_id" where
  "insert_debt d s = (write_debt (debt_seq s) d (s\<lparr>debt_seq := Suc (debt_seq s)\<rparr>), debt_seq s)"

text \<open>
  Loading a debt together with its client, as reading \<open>debt.client\<close> does. The
  foreign-key constraint of the database makes the client row exist; a dangling key
  would raise \<open>DoesNotExist\<close>, modelled as \<open>None\<close> (the invariant of
  \<open>Ledger_Inv\<close> rules it out).
\<close>

definition load_debt :: "db \<Rightarrow> debt_id \<Rightarrow> (debt \<times> client) option" where
  "load_debt s i =
     (case map_of (debts s) i of
        None \<Rightarrow> None
      | Some d \<Rightarrow> (case map_of (clients s) (client d) of
                    None \<Rightarrow> None
                  | Some cl \<Rightarrow> Some (d, cl)))"

lemma write_client_simps [simp]:
  "clients (write_client c cl s) = AList.update c cl (clients s)"
  "debts (write_client c cl s) = debts s"
  "payments (write_client c cl s) = payments s"
  "users (write_client c cl s) = users s"
  "debt_seq (write_client c cl s) = debt_seq s"
  "payment_seq (write_client c cl s) = payment_seq s"
  "client_seq (write_client c cl s) = client_seq s"
  by (simp_all add: write_client_def)

lemma write_debt_simps [simp]:
  "debts (write_debt i d s) = AList.update i d (debts s)"
  "clients (write_debt i d s) = clients s"
  "payments (write_debt i d s) = payments s"
  "users (write_debt i d s) = users s"
  "debt_seq (write_debt i d s) = debt_seq s"
  "payment_seq (write_debt i d s) = payment_seq s"
  "client_seq (write_debt i d s) = client_seq s"
  by (simp_all add: write_debt_def)

lemma write_payment_simps [simp]:
  "payments (write_payment i p s) = AList.update i p (payments s)"
  "clients (write_payment i p s) = clients s"
  "debts (write_payment i p s) = debts s"
  "users (write_payment i p s) = users s"
  "debt_seq (write_payment i p s) = debt_seq s"
  "payment_seq (write_payment i p s) = payment_seq s"
  "client_seq (write_payment i p s) = client_seq s"
  by (simp_all add: write_payment_def)

lemma load_debt_Some:
  "load_debt s i = Some (d, cl) \<longleftrightarrow> map_of (debts s) i = Some d \<and> map_of (clients s) (client d) = Some cl"
  by (auto simp: load_debt_def split: option.splits)

end
