(* ===== verification/Ledger_Inv.thy ===== *)
theory Ledger_Inv
  imports Models
begin

text \<open>
  The invariants of the balance-consistency engine (spec sections 3 and 8), stated
  over the whole database and executable (bounded quantifiers over the tables):
  \<^item> \<open>balance_inv\<close>: each client's \<open>balanse\<close> is the sum of the
    \<open>remaining_amount\<close>s of its debts;
  \<^item> \<open>bounds_inv\<close>: \<open>0 \<le> remaining_amount \<le> total_amount\<close> for each debt;
  \<^item> \<open>paid_flag_inv\<close>: \<open>is_paid\<close> holds exactly when nothing remains;
  \<^item> \<open>payments_inv\<close>: the payments recorded on a debt add up to what was paid off;
  \<^item> \<open>refs_inv\<close>: foreign keys point to existing rows;
  \<^item> \<open>keys_inv\<close>: primary keys are distinct and below their sequence counter.
  The lemmas restate each over \<open>map_of\<close> (for the proofs) and say how the sums
  change under one write of a row.
\<close>

definition client_debt_total :: "db \<Rightarrow> client_id \<Rightarrow> money" where
  "client_debt_total s c = sum_where (\<lambda>d. client d = c) remaining_amount (debts s)"

definition debt_paid_total :: "db \<Rightarrow> debt_id \<Rightarrow> money" where
  "debt_paid_total s i = sum_where (\<lambda>p. debt p = i) amount (payments s)"

definition balance_inv :: "db \<Rightarrow> bool" where
  "balance_inv s \<longleftrightarrow> (\<forall>(c, cl) \<in> set (clients s). balanse cl = client_debt_total s c)"

definition bounds_inv :: "db \<Rightarrow> bool" where
  "bounds_inv s \<longleftrightarrow>
     (\<forall>(i, d) \<in> set (debts s). 0 \<le> remaining_amount d \<and> remaining_amount d \<le> total_amount d)"

definition paid_flag_inv :: "db \<Rightarrow> bool" where
  "paid_flag_inv s \<longleftrightarrow> (\<forall>(i, d) \<in> set (debts s). is_paid d = (remaining_amount d = 0))"

definition payments_inv :: "db \<Rightarrow> bool" where
  "payments_inv s \<longleftrightarrow>
     (\<forall>(i, d) \<in> set (debts s). debt_paid_total s i = total_amount d - remaining_amount d)"

definition refs_inv :: "db \<Rightarrow> bool" where
  "refs_inv s \<longleftrightarrow>
     (\<forall>(i, d) \<in> set (debts s). map_of (clients s) (client d) \<noteq> None) \<and>
     (\<forall>(j, p) \<in> set (payments s). map_of (debts s) (debt p) \<noteq> None)"

definition keys_inv :: "db \<Rightarrow> bool" where
  "keys_inv s \<longleftrightarrow>
     fresh_keys (clients s) (client_seq s) \<and> fresh_keys (debts s) (debt_seq s) \<and>
     fresh_keys (payments s) (payment_seq s)"

definition ledger_inv :: "db \<Rightarrow> bool" where
  "ledger_inv s \<longleftrightarrow> balance_inv s \<and> bounds_inv s \<and> paid_flag_inv s \<and> payments_inv s \<and>
     refs_inv s \<and> keys_inv s"

text \<open>
  Sample data for the witnesses: a seller of company 1 and a database with one client of
  that company and nothing owed.
\<close>

definition sample_user :: user where
  "sample_user = \<lparr>username = ''seller'', first_name = '''', last_name = '''',
                   email = Some ''seller@shop.uz'', phone_number = None, user_company = Some 1,
                   user_roles = SELLER, password = ''secret''\<rparr>"

definition sample_db :: db where
  "sample_db = empty_db\<lparr>clients := [(0, \<lparr>name = ''Ali'', phone = ''+998901234567'', balanse = 0,
                                         client_company = Some 1\<rparr>)],
                        client_seq := 1\<rparr>"

lemmas ledger_inv_defs = ledger_inv_def balance_inv_def bounds_inv_def paid_flag_inv_def
  payments_inv_def refs_inv_def keys_inv_def

subsection \<open>The invariants over \<open>map_of\<close>\<close>




lemma keys_inv_distinct [intro]:
  assumes "keys_inv s"
  shows "distinct (map fst (clients s))" "distinct (map fst (debts s))"
    "distinct (map fst (payments s))"
  using assms by (auto simp: keys_inv_def)

lemma balance_inv_map:
  "keys_inv s \<Longrightarrow> balance_inv s \<longleftrightarrow>
     (\<forall>c cl. map_of (clients s) c = Some cl \<longrightarrow> balanse cl = client_debt_total s c)"
  unfolding balance_inv_def by (simp add: ball_set_table keys_inv_distinct)

lemma bounds_inv_map:
  "keys_inv s \<Longrightarrow> bounds_inv s \<longleftrightarrow>
     (\<forall>i d. map_of (debts s) i = Some d \<longrightarrow>
        0 \<le> remaining_amount d \<and> remaining_amount d \<le> total_amount d)"
  unfolding bounds_inv_def by (simp add: ball_set_table keys_inv_distinct)

lemma paid_flag_inv_map:
  "keys_inv s \<Longrightarrow> paid_flag_inv s \<longleftrightarrow>
     (\<forall>i d. map_of (debts s) i = Some d \<longrightarrow> is_paid d = (remaining_amount d = 0))"
  unfolding paid_flag_inv_def by (simp add: ball_set_table keys_inv_distinct)

lemma payments_inv_map:
  "keys_inv s \<Longrightarrow> payments_inv s \<longleftrightarrow>
     (\<forall>i d. map_of (debts s) i = Some d \<longrightarrow>
        debt_paid_total s i = total_amount d - remaining_amount d)"
  unfolding payments_inv_def by (simp add: ball_set_table keys_inv_distinct)

lemma refs_inv_map:
  "keys_inv s \<Longrightarrow> refs_inv s \<longleftrightarrow>
     (\<forall>i d. map_of (debts s) i = Some d \<longrightarrow> map_of (clients s) (client d) \<noteq> None) \<and>
     (\<forall>j p. map_of (payments s) j = Some p \<longrightarrow> map_of (debts s) (debt p) \<noteq> None)"
  unfolding refs_inv_def by (simp add: ball_set_table keys_inv_distinct)

lemmas ledger_inv_map = balance_inv_map bounds_inv_map paid_flag_inv_map payments_inv_map
  refs_inv_map

subsection \<open>How one write changes the sums\<close>

lemma client_debt_total_write_client [simp]:
  "client_debt_total (write_client c cl s) = client_debt_total s"
  by (simp add: client_debt_total_def fun_eq_iff)

lemma client_debt_total_write_payment [simp]:
  "client_debt_total (write_payment j p s) = client_debt_total s"
  by (simp add: client_debt_total_def fun_eq_iff)

lemma debt_paid_total_write_client [simp]:
  "debt_paid_total (write_client c cl s) = debt_paid_total s"
  by (simp add: debt_paid_total_def fun_eq_iff)

lemma debt_paid_total_write_debt [simp]:
  "debt_paid_total (write_debt i d s) = debt_paid_total s"
  by (simp add: debt_paid_total_def fun_eq_iff)

lemma client_debt_total_write_debt_new:
  "map_of (debts s) i = None \<Longrightarrow>
     client_debt_total (write_debt i d s) c =
       client_debt_total s c + (if client d = c then remaining_amount d else 0)"
  by (simp add: client_debt_total_def sum_where_update_None)

lemma client_debt_total_write_debt_old:
  "distinct (map fst (debts s)) \<Longrightarrow> map_of (debts s) i = Some d0 \<Longrightarrow>
     client_debt_total (write_debt i d s) c =
       client_debt_total s c - (if client d0 = c then remaining_amount d0 else 0)
         + (if client d = c then remaining_amount d else 0)"
  by (simp add: client_debt_total_def sum_where_update_Some)

lemma debt_paid_total_write_payment_new:
  "map_of (payments s) j = None \<Longrightarrow>
     debt_paid_total (write_payment j p s) i =
       debt_paid_total s i + (if debt p = i then amount p else 0)"
  by (simp add: debt_paid_total_def sum_where_update_None)

lemma debt_paid_total_write_payment_old:
  "distinct (map fst (payments s)) \<Longrightarrow> map_of (payments s) j = Some p0 \<Longrightarrow>
     debt_paid_total (write_payment j p s) i =
       debt_paid_total s i - (if debt p0 = i then amount p0 else 0)
         + (if debt p = i then amount p else 0)"
  by (simp add: debt_paid_total_def sum_where_update_Some)

lemma client_debt_total_seq [simp]:
  "client_debt_total (s\<lparr>debt_seq := n\<rparr>) = client_debt_total s"
  "client_debt_total (s\<lparr>payment_seq := n\<rparr>) = client_debt_total s"
  "client_debt_total (s\<lparr>client_seq := n\<rparr>) = client_debt_total s"
  by (simp_all add: client_debt_total_def fun_eq_iff)

lemma debt_paid_total_seq [simp]:
  "debt_paid_total (s\<lparr>debt_seq := n\<rparr>) = debt_paid_total s"
  "debt_paid_total (s\<lparr>payment_seq := n\<rparr>) = debt_paid_total s"
  "debt_paid_total (s\<lparr>client_seq := n\<rparr>) = debt_paid_total s"
  by (simp_all add: debt_paid_total_def fun_eq_iff)

lemma ledger_inv_empty_db: "ledger_inv empty_db"
  by (simp add: ledger_inv_defs empty_db_def fresh_keys_def)

lemma ledger_inv_sample_db: "ledger_inv sample_db"
  by (simp add: ledger_inv_defs sample_db_def empty_db_def fresh_keys_def client_debt_total_def)

lemma debt_paid_total_fresh:
  assumes "refs_inv s" and "map_of (debts s) i = None"
  shows "debt_paid_total s i = 0"
  unfolding debt_paid_total_def
proof (rule sum_where_all_false)
  fix j p assume "(j, p) \<in> set (payments s)"
  with assms(1) have "map_of (debts s) (debt p) \<noteq> None" by (auto simp: refs_inv_def)
  with assms(2) show "\<not> debt p = i" by auto
qed

lemma ledger_inv_balance:
  assumes "ledger_inv s" and "map_of (clients s) c = Some cl"
  shows "balanse cl = client_debt_total s c"
proof -
  from assms(2) have "(c, cl) \<in> set (clients s)" by (rule map_of_SomeD)
  with assms(1) show ?thesis by (auto simp: ledger_inv_def balance_inv_def)
qed

end
