(* ===== verification/Debts.thy ===== *)
theory Debts
  imports Ledger_Inv
begin

text \<open>
  The debt component: \<open>Debt.save\<close> (\<open>debts/models.py\<close>), \<open>DebtSerializer.validate\<close>
  and its scoped client field (\<open>debts/serializers.py\<close>), and the views of
  \<open>debts/views.py\<close>: creation (\<open>DebtListCreateView.post\<close>), update and deletion
  (\<open>DebtDetailView\<close>) and the listing with its \<open>all\<close>/\<open>overdue\<close> filter. Each
  view is one function from the request's arguments and the database to an error or
  the new database, with the serializer's checks as its early returns.
\<close>

text \<open>Lines 23--24 of \<open>Debt.save\<close>: the paid flag is set, never cleared.\<close>

definition mark_paid :: "debt \<Rightarrow> debt" where
  "mark_paid d = (if remaining_amount d = 0 then d\<lparr>is_paid := True\<rparr> else d)"

text \<open>
  \<open>Debt.save\<close>: an object without an id is new; then the remaining amount is set to
  the total, the client object's balance is increased and the client saved, before the
  row is inserted with the next AutoField id. An object with an id only has its row
  rewritten. The client object is the one the debt refers to (\<open>self.client\<close>).
\<close>

definition debt_save :: "debt_id option \<Rightarrow> debt \<Rightarrow> client \<Rightarrow> db \<Rightarrow> db \<times> debt_id \<times> debt" where
  "debt_save oid d cl s =
     (case oid of
        None \<Rightarrow>
          let d1 = d\<lparr>remaining_amount := total_amount d\<rparr>;
              s1 = write_client (client d) (cl\<lparr>balanse := balanse cl + total_amount d\<rparr>) s;
              d2 = mark_paid d1;
              r = insert_debt d2 s1
          in (fst r, snd r, d2)
      | Some i \<Rightarrow>
          let d2 = mark_paid d in (write_debt i d2 s, i, d2))"

text \<open>
  The \<open>client\<close> field of \<open>DebtSerializer\<close>: a primary key looked up in
  \<open>Client.objects.filter(company=request.user.company)\<close>. Django turns
  \<open>company=None\<close> into \<open>company IS NULL\<close>, which is the equality of options.
\<close>

definition scoped_client :: "user \<Rightarrow> db \<Rightarrow> client_id \<Rightarrow> client option" where
  "scoped_client u s c =
     (case map_of (clients s) c of
        None \<Rightarrow> None
      | Some cl \<Rightarrow> if client_company cl = user_company u then Some cl else None)"

text \<open>
  \<open>DebtSerializer.validate\<close>: \<open>attrs.get('total_amount') < 0\<close> compares \<open>None\<close>
  with \<open>0\<close> when the field is absent (a partial update), which raises
  \<open>TypeError\<close>; a supplied due date must be later than today.
\<close>

definition validate_debt :: "day \<Rightarrow> money option \<Rightarrow> day option \<Rightarrow> error + unit" where
  "validate_debt today t dd =
     (case t of
        None \<Rightarrow> Inl (ServerError NoneComparison)
      | Some a \<Rightarrow>
          if a < 0 then Inl (ValidationError NegativeDebt)
          else (case dd of
                  None \<Rightarrow> Inr ()
                | Some dday \<Rightarrow> if dday \<le> today then Inl (ValidationError DueDateNotFuture)
                              else Inr ()))"

text \<open>
  \<open>DebtListCreateView.post\<close>: field validation (the scoped client key, the digits of
  the amount), \<open>validate\<close>, then \<open>Debt.objects.create\<close>, which runs
  \<open>Debt.save\<close> on a new object. Its \<open>remaining_amount\<close> has no default and is
  overwritten by \<open>save\<close>; \<open>is_paid\<close> defaults to \<open>False\<close>; an omitted due date
  is \<open>default_due_date\<close>.
\<close>

definition create_debt ::
  "day \<Rightarrow> user \<Rightarrow> client_id \<Rightarrow> money \<Rightarrow> day option \<Rightarrow> db \<Rightarrow> error + db \<times> debt_id \<times> debt" where
  "create_debt today u c t dd s =
     (case scoped_client u s c of
        None \<Rightarrow> Inl (ValidationError InvalidPk)
      | Some cl \<Rightarrow>
          if \<not> decimal_ok t then Inl (ValidationError MaxDigits)
          else (case validate_debt today (Some t) dd of
                  Inl e \<Rightarrow> Inl e
                | Inr _ \<Rightarrow>
                    Inr (debt_save None
                          \<lparr>client = c, total_amount = t, remaining_amount = 0,
                           due_date = (case dd of None \<Rightarrow> default_due_date today | Some x \<Rightarrow> x),
                           is_paid = False\<rparr> cl s)))"

text \<open>
  The queryset of \<open>DebtDetailView\<close> (and the join \<open>client__company\<close>): debts whose
  client belongs to the caller's company; nothing for a caller without a company.
\<close>

definition debt_company :: "db \<Rightarrow> debt \<Rightarrow> company_id option" where
  "debt_company s d = (case map_of (clients s) (client d) of None \<Rightarrow> None | Some cl \<Rightarrow> client_company cl)"

definition scoped_debt :: "user \<Rightarrow> db \<Rightarrow> debt_id \<Rightarrow> (debt \<times> client) option" where
  "scoped_debt u s i =
     (case user_company u of
        None \<Rightarrow> None
      | Some co \<Rightarrow>
          (case load_debt s i of
             None \<Rightarrow> None
           | Some (d, cl) \<Rightarrow> if client_company cl = Some co then Some (d, cl) else None))"

text \<open>The writable fields of \<open>DebtSerializer\<close> in a PUT or PATCH body.\<close>

record debt_input =
  in_client :: "client_id option"
  in_total :: "money option"
  in_due :: "day option"

text \<open>
  \<open>DebtDetailView\<close> PUT (\<open>partial = False\<close>) and PATCH (\<open>partial = True\<close>): the
  object from the scoped queryset or 404; a PUT without \<open>client\<close> or
  \<open>total_amount\<close> is rejected as required; the given fields are validated, set on
  the object (\<open>ModelSerializer.update\<close>), and \<open>Debt.save\<close> runs on an object
  that has an id. The client object is the one the updated debt refers to.
\<close>

definition update_debt ::
  "day \<Rightarrow> user \<Rightarrow> debt_id \<Rightarrow> bool \<Rightarrow> debt_input \<Rightarrow> db \<Rightarrow> error + db \<times> debt_id \<times> debt" where
  "update_debt today u i partial inp s =
     (case scoped_debt u s i of
        None \<Rightarrow> Inl NotFound
      | Some (d, cl) \<Rightarrow>
          if \<not> partial \<and> (in_client inp = None \<or> in_total inp = None)
          then Inl (ValidationError FieldRequired)
          else if (case in_client inp of None \<Rightarrow> False | Some c \<Rightarrow> scoped_client u s c = None)
          then Inl (ValidationError InvalidPk)
          else if (case in_total inp of None \<Rightarrow> False | Some t \<Rightarrow> \<not> decimal_ok t)
          then Inl (ValidationError MaxDigits)
          else (case validate_debt today (in_total inp) (in_due inp) of
                  Inl e \<Rightarrow> Inl e
                | Inr _ \<Rightarrow>
                    let d' = d\<lparr>client := (case in_client inp of None \<Rightarrow> client d | Some c \<Rightarrow> c),
                               total_amount := (case in_total inp of None \<Rightarrow> total_amount d | Some t \<Rightarrow> t),
                               due_date := (case in_due inp of None \<Rightarrow> due_date d | Some x \<Rightarrow> x)\<rparr>;
                        cl' = (case in_client inp of
                                 None \<Rightarrow> cl
                               | Some c \<Rightarrow> (case scoped_client u s c of None \<Rightarrow> cl | Some x \<Rightarrow> x))
                    in Inr (debt_save (Some i) d' cl' s)))"

text \<open>
  \<open>DebtDetailView\<close> DELETE: the row and, by \<open>on_delete=CASCADE\<close>, its payments are
  deleted. Nothing adjusts the client's balance.
\<close>

definition delete_debt :: "user \<Rightarrow> debt_id \<Rightarrow> db \<Rightarrow> error + db" where
  "delete_debt u i s =
     (case scoped_debt u s i of
        None \<Rightarrow> Inl NotFound
      | Some _ \<Rightarrow> Inr (s\<lparr>payments := filter (\<lambda>(j, p). debt p \<noteq> i) (payments s),
                         debts := AList.delete i (debts s)\<rparr>))"

text \<open>
  \<open>DebtListCreateView.get_queryset\<close>: the \<open>filter\<close> query parameter defaults to
  \<open>all\<close>; \<open>overdue\<close> keeps the unpaid debts due before today; any other value, and a
  caller without a company, give the empty queryset.
\<close>

definition list_debts :: "day \<Rightarrow> user \<Rightarrow> string option \<Rightarrow> db \<Rightarrow> (debt_id, debt) table" where
  "list_debts today u flt s =
     (case user_company u of
        None \<Rightarrow> []
      | Some co \<Rightarrow>
          (let f = (case flt of None \<Rightarrow> ''all'' | Some x \<Rightarrow> x) in
           if f = ''all'' then filter (\<lambda>(i, d). debt_company s d = Some co) (debts s)
           else if f = ''overdue'' then
             filter (\<lambda>(i, d). debt_company s d = Some co \<and> due_date d < today \<and> \<not> is_paid d) (debts s)
           else []))"

subsection \<open>Behaviour of \<open>Debt.save\<close>\<close>

lemma debt_save_new:
  "debt_save None d cl s =
     (let d2 = mark_paid (d\<lparr>remaining_amount := total_amount d\<rparr>) in
      (write_debt (debt_seq s) d2
         (write_client (client d) (cl\<lparr>balanse := balanse cl + total_amount d\<rparr>) s\<lparr>debt_seq := Suc (debt_seq s)\<rparr>),
       debt_seq s, d2))"
  by (simp add: debt_save_def insert_debt_def Let_def write_client_def)

lemma debt_save_old:
  "debt_save (Some i) d cl s = (write_debt i (mark_paid d) s, i, mark_paid d)"
  by (simp add: debt_save_def Let_def)

lemma mark_paid_fields [simp]:
  "client (mark_paid d) = client d"
  "total_amount (mark_paid d) = total_amount d"
  "remaining_amount (mark_paid d) = remaining_amount d"
  "due_date (mark_paid d) = due_date d"
  "is_paid (mark_paid d) = (is_paid d \<or> remaining_amount d = 0)"
  by (simp_all add: mark_paid_def)

lemma scoped_client_Some:
  "scoped_client u s c = Some cl \<longleftrightarrow>
     map_of (clients s) c = Some cl \<and> client_company cl = user_company u"
  by (auto simp: scoped_client_def split: option.splits)

lemma scoped_debt_Some:
  "scoped_debt u s i = Some (d, cl) \<longleftrightarrow>
     (\<exists>co. user_company u = Some co \<and> client_company cl = Some co) \<and> load_debt s i = Some (d, cl)"
  by (auto simp: scoped_debt_def split: option.splits)


subsection \<open>Creation, re-save and listing\<close>

lemma debt_save_new_inv:
  assumes inv: "ledger_inv s" and cl: "map_of (clients s) (client d) = Some cl"
    and t: "0 \<le> total_amount d" and np: "\<not> is_paid d"
  shows "ledger_inv (fst (debt_save None d cl s))"
proof -
  let ?n = "debt_seq s" and ?c = "client d" and ?t = "total_amount d"
  let ?cl = "cl\<lparr>balanse := balanse cl + ?t\<rparr>"
  let ?d = "mark_paid (d\<lparr>remaining_amount := ?t\<rparr>)"
  let ?S = "write_debt ?n ?d (write_client ?c ?cl s\<lparr>debt_seq := Suc ?n\<rparr>)"
  have S: "fst (debt_save None d cl s) = ?S" by (simp add: debt_save_new Let_def)
  from inv have ki: "keys_inv s" by (simp add: ledger_inv_def)
  then have new: "map_of (debts s) ?n = None" by (simp add: keys_inv_def)
  from inv have ri: "refs_inv s" by (simp add: ledger_inv_def)
  have kS: "keys_inv ?S"
    using ki cl by (auto simp: keys_inv_def)
  have tot: "client_debt_total ?S x = client_debt_total s x + (if ?c = x then ?t else 0)" for x
    using new by (simp add: client_debt_total_write_debt_new)
  from inv ki have bal: "map_of (clients s) x = Some y \<Longrightarrow> balanse y = client_debt_total s x" for x y
    by (simp add: ledger_inv_def balance_inv_map)
  have "balance_inv ?S"
    unfolding balance_inv_map [OF kS]
  proof (intro allI impI)
    fix x y assume "map_of (clients ?S) x = Some y"
    then show "balanse y = client_debt_total ?S x"
      using bal [OF cl] bal new by (cases "x = ?c") (auto simp: client_debt_total_write_debt_new)
  qed
  moreover have "bounds_inv ?S"
    using inv ki kS t by (auto simp: bounds_inv_map ledger_inv_def map_of_update_eq_Some)
  moreover have "paid_flag_inv ?S"
    using inv ki kS np by (auto simp: paid_flag_inv_map ledger_inv_def mark_paid_def map_of_update_eq_Some)
  moreover have "payments_inv ?S"
    using inv ki kS new debt_paid_total_fresh [OF ri new]
    by (auto simp: payments_inv_map ledger_inv_def map_of_update_eq_Some)
  moreover have "refs_inv ?S"
    using inv ki kS cl new by (auto simp: refs_inv_map ledger_inv_def update_conv')
  ultimately show ?thesis using S kS by (simp add: ledger_inv_def)
qed

lemma create_debt_Inr:
  "create_debt today u c t dd s = Inr r \<longleftrightarrow>
     (\<exists>cl. scoped_client u s c = Some cl \<and> decimal_ok t \<and> 0 \<le> t \<and>
        (case dd of None \<Rightarrow> True | Some x \<Rightarrow> today < x) \<and>
        r = debt_save None
              \<lparr>client = c, total_amount = t, remaining_amount = 0,
               due_date = (case dd of None \<Rightarrow> default_due_date today | Some x \<Rightarrow> x),
               is_paid = False\<rparr> cl s)"
  by (auto simp: create_debt_def validate_debt_def split: option.splits sum.splits if_splits)

lemma create_debt_Inr_save:
  assumes "create_debt today u c t dd s = Inr r"
  shows "\<exists>cl d. scoped_client u s c = Some cl \<and> 0 \<le> t \<and> client d = c \<and> total_amount d = t \<and>
           \<not> is_paid d \<and> r = debt_save None d cl s"
  using assms unfolding create_debt_Inr
  by (metis debt.select_convs(1) debt.select_convs(2) debt.select_convs(5))

text \<open>
  C5. Creating a debt (\<open>DebtListCreateView.post\<close> with \<open>Debt.save\<close> on a new object) preserves the whole ledger invariant.
\<close>

theorem create_debt_preserves_inv:
  assumes "ledger_inv s" and "create_debt today u c t dd s = Inr (s', i, d)"
  shows "ledger_inv s'"
proof -
  from create_debt_Inr_save [OF assms(2)] obtain cl d0 where cl: "scoped_client u s c = Some cl"
    and d0: "0 \<le> total_amount d0" "client d0 = c" "\<not> is_paid d0"
    and r: "(s', i, d) = debt_save None d0 cl s" by auto
  from cl d0 have "map_of (clients s) (client d0) = Some cl" by (simp add: scoped_client_Some)
  with assms(1) d0 have "ledger_inv (fst (debt_save None d0 cl s))" by (intro debt_save_new_inv)
  with r show ?thesis by (metis fst_conv)
qed

text \<open>
  C7. A created debt is stored under the next AutoField id with \<open>remaining_amount = total_amount\<close>, paid exactly when the total is zero, and its client's balance is increased by the total; no other client changes (spec 4.1).
\<close>

theorem create_debt_effect:
  assumes "create_debt today u c t dd s = Inr (s', i, d)"
  shows "map_of (debts s') i = Some d \<and> i = debt_seq s \<and> client d = c \<and> total_amount d = t \<and>
         remaining_amount d = t \<and> is_paid d = (t = 0) \<and>
         (\<exists>cl. map_of (clients s) c = Some cl \<and>
              map_of (clients s') c = Some (cl\<lparr>balanse := balanse cl + t\<rparr>)) \<and>
         (\<forall>c'. c' \<noteq> c \<longrightarrow> map_of (clients s') c' = map_of (clients s) c')"
  using assms by (auto simp: create_debt_Inr debt_save_new scoped_client_Some Let_def)

text \<open>
  C10. Creating a debt fails exactly on these paths, in the order DRF runs the checks: a
  client key outside the caller's company (\<open>InvalidPk\<close>), a total of more than ten
  digits (\<open>MaxDigits\<close>), a negative total and a supplied due date that is not after
  today (both from \<open>validate\<close>, spec 4.1 and 8, item 10).
\<close>

theorem create_debt_errors:
  "create_debt today u c t dd s = Inl e \<longleftrightarrow>
     (if scoped_client u s c = None then e = ValidationError InvalidPk
      else if \<not> decimal_ok t then e = ValidationError MaxDigits
      else if t < 0 then e = ValidationError NegativeDebt
      else (case dd of None \<Rightarrow> False | Some x \<Rightarrow> x \<le> today \<and> e = ValidationError DueDateNotFuture))"
  by (auto simp: create_debt_def validate_debt_def split: option.splits)

lemma debt_save_existing_clients:
  "clients (fst (debt_save (Some i) d cl s)) = clients s"
  by (simp add: debt_save_old)

text \<open>
  C11. Re-saving an existing debt (PUT or PATCH on \<open>DebtDetailView\<close>) never changes any client row, in particular no balance (spec 4.1 and 8, item 5).
\<close>

theorem update_debt_keeps_clients:
  "update_debt today u i partial inp s = Inr (s', r) \<Longrightarrow> clients s' = clients s"
  by (auto simp: update_debt_def debt_save_old Let_def split: option.splits sum.splits if_splits)

text \<open>
  C21. A PATCH of a debt that omits \<open>total_amount\<close> crashes: \<open>validate\<close> compares \<open>None < 0\<close>, a \<open>TypeError\<close> (HTTP 500).
\<close>

theorem update_debt_patch_without_total:
  "scoped_debt u s i \<noteq> None \<Longrightarrow> in_client inp = None \<Longrightarrow> in_total inp = None \<Longrightarrow>
     update_debt today u i True inp s = Inl (ServerError NoneComparison)"
  by (auto simp: update_debt_def validate_debt_def)

text \<open>
  C22. Every debt the list view returns belongs to a client of the caller's company, and a
  caller without a company sees nothing; the \<open>overdue\<close> filter returns exactly the debts
  of the unfiltered list that are due before today and not paid (spec 4.3).
\<close>

theorem list_debts_scoped:
  "((i, d) \<in> set (list_debts today u flt s) \<longrightarrow>
      (\<exists>co. user_company u = Some co \<and> debt_company s d = Some co \<and> (i, d) \<in> set (debts s))) \<and>
   ((i, d) \<in> set (list_debts today u (Some ''overdue'') s) \<longleftrightarrow>
      (i, d) \<in> set (list_debts today u None s) \<and> due_date d < today \<and> \<not> is_paid d)"
proof
  show "(i, d) \<in> set (list_debts today u flt s) \<longrightarrow>
      (\<exists>co. user_company u = Some co \<and> debt_company s d = Some co \<and> (i, d) \<in> set (debts s))"
    by (cases "user_company u") (auto simp: list_debts_def Let_def split: if_splits)
  show "(i, d) \<in> set (list_debts today u (Some ''overdue'') s) \<longleftrightarrow>
      (i, d) \<in> set (list_debts today u None s) \<and> due_date d < today \<and> \<not> is_paid d"
    by (auto simp: list_debts_def split: option.splits)
qed


end
