(* ===== verification/Payments.thy ===== *)
theory Payments
  imports Debts
begin

text \<open>
  The payment component: \<open>Payment.save\<close> (\<open>payments/models.py\<close>), which calls
  \<open>Debt.save\<close> of \<open>Debts\<close>; \<open>PaymentSerializer.create\<close>
  (\<open>payments/serializers.py\<close>); and the views of \<open>payments/views.py\<close>
  (\<open>PaymentListCreateView\<close>, \<open>PaymentDetailView\<close>) with the read-only
  \<open>DebtDetailPaymentView\<close> of \<open>debts/views.py\<close>.
\<close>

text \<open>
  \<open>Payment.save\<close>: the only check is \<open>remaining_amount >= amount\<close>, else a
  \<open>ValueError\<close> before anything is written. The debt and client objects are
  decremented in memory, then three rows are written in order: the payment
  (\<open>super().save()\<close>), the debt (\<open>self.debt.save()\<close>, an object with an id) and
  the client (\<open>self.debt.client.save()\<close>). It runs on every save of a payment,
  not only on its creation.
\<close>

definition payment_save :: "payment_id \<Rightarrow> payment \<Rightarrow> debt \<Rightarrow> client \<Rightarrow> db \<Rightarrow> error + db" where
  "payment_save j p d cl s =
     (if amount p \<le> remaining_amount d then
        let d' = d\<lparr>remaining_amount := remaining_amount d - amount p\<rparr>;
            cl' = cl\<lparr>balanse := balanse cl - amount p\<rparr>;
            s1 = write_payment j p s;
            s2 = fst (debt_save (Some (debt p)) d' cl' s1)
        in Inr (write_client (client d') cl' s2)
      else Inl (ServerError PaymentExceedsRemaining))"

text \<open>
  \<open>PaymentListCreateView.post\<close>: the \<open>debt\<close> field is a primary key of
  \<open>Debt.objects.all()\<close> (no company scope), the amount has only the digit check;
  \<open>perform_create\<close> passes \<open>user=request.user\<close>, and \<open>PaymentSerializer.create\<close>
  sets the same user again when the companies agree, so its comparison has no effect.
  The new payment gets a fresh \<open>uuid4\<close> key.
\<close>

definition create_payment ::
  "user_id \<Rightarrow> user \<Rightarrow> debt_id \<Rightarrow> money \<Rightarrow> db \<Rightarrow> error + db \<times> payment_id" where
  "create_payment uid u di a s =
     (case load_debt s di of
        None \<Rightarrow> Inl (ValidationError InvalidPk)
      | Some (d, cl) \<Rightarrow>
          if \<not> decimal_ok a then Inl (ValidationError MaxDigits)
          else
            let p0 = \<lparr>debt = di, amount = a, user = uid\<rparr>;
                p = (if user_company u = client_company cl then p0\<lparr>user := uid\<rparr> else p0);
                j = payment_seq s
            in (case payment_save j p d cl (s\<lparr>payment_seq := Suc j\<rparr>) of
                  Inl e \<Rightarrow> Inl e
                | Inr s' \<Rightarrow> Inr (s', j)))"

text \<open>
  The queryset of \<open>PaymentDetailView\<close>: payments whose debt's client belongs to the
  caller's company.
\<close>

definition scoped_payment :: "user \<Rightarrow> db \<Rightarrow> payment_id \<Rightarrow> payment option" where
  "scoped_payment u s j =
     (case user_company u of
        None \<Rightarrow> None
      | Some co \<Rightarrow>
          (case map_of (payments s) j of
             None \<Rightarrow> None
           | Some p \<Rightarrow>
               (case load_debt s (debt p) of
                  None \<Rightarrow> None
                | Some (d, cl) \<Rightarrow> if client_company cl = Some co then Some p else None)))"

text \<open>
  \<open>PaymentDetailView\<close> PUT/PATCH: \<open>ModelSerializer.update\<close> sets the given
  \<open>debt\<close> and \<open>amount\<close> on the stored payment and saves it, so \<open>Payment.save\<close>
  subtracts the (new) amount from the (new) debt once more; the earlier deduction is
  never undone. A new debt key is looked up in all debts; reading the unchanged debt of
  the payment cannot fail while foreign keys are intact.
\<close>

definition update_payment ::
  "user \<Rightarrow> payment_id \<Rightarrow> bool \<Rightarrow> debt_id option \<Rightarrow> money option \<Rightarrow> db \<Rightarrow> error + db" where
  "update_payment u j partial di a s =
     (case scoped_payment u s j of
        None \<Rightarrow> Inl NotFound
      | Some p \<Rightarrow>
          if \<not> partial \<and> (di = None \<or> a = None) then Inl (ValidationError FieldRequired)
          else if (case di of None \<Rightarrow> False | Some k \<Rightarrow> load_debt s k = None)
          then Inl (ValidationError InvalidPk)
          else if (case a of None \<Rightarrow> False | Some x \<Rightarrow> \<not> decimal_ok x)
          then Inl (ValidationError MaxDigits)
          else
            let p' = p\<lparr>debt := (case di of None \<Rightarrow> debt p | Some k \<Rightarrow> k),
                       amount := (case a of None \<Rightarrow> amount p | Some x \<Rightarrow> x)\<rparr>
            in (case load_debt s (debt p') of
                  None \<Rightarrow> Inl (ServerError KeyMissing)
                | Some (d, cl) \<Rightarrow> payment_save j p' d cl s))"

text \<open>\<open>PaymentDetailView\<close> DELETE: the row goes; nothing is given back to the debt.\<close>

definition delete_payment :: "user \<Rightarrow> payment_id \<Rightarrow> db \<Rightarrow> error + db" where
  "delete_payment u j s =
     (case scoped_payment u s j of
        None \<Rightarrow> Inl NotFound
      | Some _ \<Rightarrow> Inr (s\<lparr>payments := AList.delete j (payments s)\<rparr>))"

text \<open>\<open>PaymentListCreateView.get_queryset\<close>.\<close>

definition list_payments :: "user \<Rightarrow> db \<Rightarrow> (payment_id, payment) table" where
  "list_payments u s =
     (case user_company u of
        None \<Rightarrow> []
      | Some co \<Rightarrow>
          filter (\<lambda>(j, p). case map_of (debts s) (debt p) of
                             None \<Rightarrow> False
                           | Some d \<Rightarrow> debt_company s d = Some co) (payments s))"

text \<open>
  \<open>DebtDetailPaymentView.get_queryset\<close>: an unknown debt, a caller without a company
  and a debt of another company all give the empty list.
\<close>

definition debt_payments :: "user \<Rightarrow> debt_id \<Rightarrow> db \<Rightarrow> (payment_id, payment) table" where
  "debt_payments u i s =
     (case map_of (debts s) i of
        None \<Rightarrow> []
      | Some d \<Rightarrow>
          (case user_company u of
             None \<Rightarrow> []
           | Some co \<Rightarrow>
               if debt_company s d \<noteq> Some co then []
               else filter (\<lambda>(j, p). debt p = i) (payments s)))"

subsection \<open>Behaviour of \<open>Payment.save\<close>\<close>

lemma payment_save_Inr:
  "payment_save j p d cl s = Inr s' \<longleftrightarrow>
     amount p \<le> remaining_amount d \<and>
     s' = write_client (client d) (cl\<lparr>balanse := balanse cl - amount p\<rparr>)
            (write_debt (debt p) (mark_paid (d\<lparr>remaining_amount := remaining_amount d - amount p\<rparr>))
              (write_payment j p s))"
  by (auto simp: payment_save_def debt_save_old Let_def)

lemma payment_save_overdraw:
  "remaining_amount d < amount p \<Longrightarrow>
     payment_save j p d cl s = Inl (ServerError PaymentExceedsRemaining)"
  by (simp add: payment_save_def)

lemma create_payment_Inr:
  "create_payment uid u di a s = Inr (s', j) \<longleftrightarrow>
     (\<exists>d cl. load_debt s di = Some (d, cl) \<and> decimal_ok a \<and> j = payment_seq s \<and>
        payment_save j \<lparr>debt = di, amount = a, user = uid\<rparr> d cl (s\<lparr>payment_seq := Suc j\<rparr>) = Inr s')"
  by (auto simp: create_payment_def Let_def split: option.splits sum.splits if_splits)


subsection \<open>Invariant preservation and effect of a new payment\<close>

lemma payment_save_new_inv:
  assumes inv: "ledger_inv s" and ld: "load_debt s (debt p) = Some (d, cl)"
    and j: "j = payment_seq s" and a: "0 \<le> amount p"
    and ok: "payment_save j p d cl (s\<lparr>payment_seq := Suc j\<rparr>) = Inr s'"
  shows "ledger_inv s'"
proof -
  let ?i = "debt p" and ?c = "client d" and ?a = "amount p"
  let ?cl = "cl\<lparr>balanse := balanse cl - ?a\<rparr>"
  let ?d = "mark_paid (d\<lparr>remaining_amount := remaining_amount d - ?a\<rparr>)"
  from ld have md: "map_of (debts s) ?i = Some d" and mc: "map_of (clients s) ?c = Some cl"
    by (simp_all add: load_debt_Some)
  from ok have le: "?a \<le> remaining_amount d"
    and S: "s' = write_client ?c ?cl (write_debt ?i ?d (write_payment j p (s\<lparr>payment_seq := Suc j\<rparr>)))"
    by (simp_all add: payment_save_Inr)
  from inv have ki: "keys_inv s" by (simp add: ledger_inv_def)
  then have new: "map_of (payments s) j = None" and dd: "distinct (map fst (debts s))"
    by (auto simp: keys_inv_def j)
  have kS: "keys_inv s'"
    using ki md mc by (auto simp: S keys_inv_def j)
  from inv ki have bal: "map_of (clients s) x = Some y \<Longrightarrow> balanse y = client_debt_total s x" for x y
    by (simp add: ledger_inv_def balance_inv_map)
  from inv ki md have bd: "0 \<le> remaining_amount d" "remaining_amount d \<le> total_amount d"
    by (auto simp: ledger_inv_def bounds_inv_map)
  from inv ki md have pf: "is_paid d = (remaining_amount d = 0)"
    by (auto simp: ledger_inv_def paid_flag_inv_map)
  from inv ki md have pt: "debt_paid_total s ?i = total_amount d - remaining_amount d"
    by (auto simp: ledger_inv_def payments_inv_map)
  have "balance_inv s'"
    unfolding balance_inv_map [OF kS]
  proof (intro allI impI)
    fix x y assume "map_of (clients s') x = Some y"
    then show "balanse y = client_debt_total s' x"
      using bal [OF mc] bal dd md by (cases "x = ?c") (auto simp: S client_debt_total_write_debt_old)
  qed
  moreover have "bounds_inv s'"
    using inv ki kS bd le a by (auto simp: S bounds_inv_map ledger_inv_def map_of_update_eq_Some)
  moreover have "paid_flag_inv s'"
    using inv ki kS pf le a by (auto simp: S paid_flag_inv_map ledger_inv_def map_of_update_eq_Some)
  moreover have "payments_inv s'"
    using inv ki kS pt new by (auto simp: S debt_paid_total_write_payment_new payments_inv_map ledger_inv_def map_of_update_eq_Some)
  moreover have "refs_inv s'"
    using inv ki kS md mc by (auto simp: S refs_inv_map ledger_inv_def update_conv')
  ultimately show ?thesis using kS by (simp add: ledger_inv_def)
qed

text \<open>
  C6. Recording a payment of a non-negative amount (\<open>PaymentListCreateView.post\<close> with \<open>Payment.save\<close>) preserves the whole ledger invariant.
\<close>

theorem create_payment_preserves_inv:
  assumes "ledger_inv s" and "0 \<le> a" and "create_payment uid u di a s = Inr (s', j)"
  shows "ledger_inv s'"
proof -
  from assms(3) obtain d cl where ld: "load_debt s di = Some (d, cl)" and j: "j = payment_seq s"
    and ok: "payment_save j \<lparr>debt = di, amount = a, user = uid\<rparr> d cl (s\<lparr>payment_seq := Suc j\<rparr>) = Inr s'"
    by (auto simp: create_payment_Inr)
  show ?thesis
    by (rule payment_save_new_inv [OF assms(1) _ j _ ok]) (use ld assms(2) in simp_all)
qed

text \<open>
  C8. A recorded payment is stored with the caller as its user, and decreases the debt's remaining amount and its client's balance by the amount; the debt is marked paid when nothing remains (spec 4.2).
\<close>

theorem create_payment_effect:
  assumes "create_payment uid u di a s = Inr (s', j)"
  shows "\<exists>d cl. load_debt s di = Some (d, cl) \<and> a \<le> remaining_amount d \<and> j = payment_seq s \<and>
           map_of (payments s') j = Some \<lparr>debt = di, amount = a, user = uid\<rparr> \<and>
           map_of (debts s') di = Some (mark_paid (d\<lparr>remaining_amount := remaining_amount d - a\<rparr>)) \<and>
           map_of (clients s') (client d) = Some (cl\<lparr>balanse := balanse cl - a\<rparr>)"
  using assms by (auto simp: create_payment_Inr payment_save_Inr)

text \<open>
  C9. A payment larger than the remaining amount is refused before anything is written, with the \<open>ValueError\<close> of \<open>Payment.save\<close> (spec 8, item 4; an HTTP 500, not a dedicated error).
\<close>

theorem create_payment_overdraw:
  "load_debt s di = Some (d, cl) \<Longrightarrow> decimal_ok a \<Longrightarrow> remaining_amount d < a \<Longrightarrow>
     create_payment uid u di a s = Inl (ServerError PaymentExceedsRemaining)"
  by (simp add: create_payment_def payment_save_def Let_def)

text \<open>
  C20. Creating a payment does not depend on the caller's company at all: the company comparison in \<open>PaymentSerializer.create\<close> has no effect and the debt field is not scoped (spec 4.2 requires the debt to belong to the caller's company).
\<close>

theorem create_payment_ignores_company:
  "create_payment uid u di a s = create_payment uid u' di a s"
  by (simp add: create_payment_def Let_def split: option.splits)


end
