(* ===== verification/Clients.thy ===== *)
theory Clients
  imports Ledger_Inv
begin

text \<open>
  The client component: \<open>ClientSerializer.create\<close> (\<open>clients/serializers.py\<close>)
  with the field checks DRF derives from \<open>Client\<close> (\<open>clients/models.py\<close>) and the
  two unique constraints of its \<open>Meta\<close>, and the views of \<open>clients/views.py\<close>.
  \<open>ClientSerializer\<close> uses \<open>fields = '__all__'\<close> with only \<open>created_at\<close>
  read-only, so \<open>balanse\<close> is writable by the caller (default 0); the \<open>company\<close>
  input is overwritten with the caller's company.
\<close>

text \<open>
  \<open>ClientListCreateView.post\<close>: \<open>name\<close> (at most 255 characters) and \<open>phone\<close>
  (at most 20) are required and not blank, \<open>balanse\<close> has the digit check; then
  \<open>create\<close> rejects a caller without a company, and the insert fails with an
  \<open>IntegrityError\<close> when the company already has a client of that name or phone.
  Whitespace trimming of DRF's \<open>CharField\<close> is not modelled.
\<close>

definition create_client ::
  "user \<Rightarrow> string \<Rightarrow> string \<Rightarrow> money option \<Rightarrow> db \<Rightarrow> error + db \<times> client_id" where
  "create_client u n ph b s =
     (let bal = (case b of None \<Rightarrow> 0 | Some x \<Rightarrow> x) in
      if n = [] \<or> ph = [] then Inl (ValidationError BlankField)
      else if 255 < length n \<or> 20 < length ph then Inl (ValidationError MaxLength)
      else if \<not> decimal_ok bal then Inl (ValidationError MaxDigits)
      else (case user_company u of
              None \<Rightarrow> Inl (ValidationError NoCompany)
            | Some co \<Rightarrow>
                if list_ex (\<lambda>(c, cl). client_company cl = Some co \<and> (name cl = n \<or> phone cl = ph))
                     (clients s)
                then Inl (ServerError IntegrityError)
                else
                  let c = client_seq s in
                  Inr (write_client c \<lparr>name = n, phone = ph, balanse = bal, client_company = Some co\<rparr>
                         (s\<lparr>client_seq := Suc c\<rparr>), c)))"

text \<open>
  \<open>ClientListCreateView.get_queryset\<close>: a caller without a company makes it raise
  \<open>ValueError\<close>, which is an HTTP 500.
\<close>

definition list_clients :: "user \<Rightarrow> db \<Rightarrow> error + (client_id, client) table" where
  "list_clients u s =
     (case user_company u of
        None \<Rightarrow> Inl (ServerError UserWithoutCompany)
      | Some co \<Rightarrow> Inr (filter (\<lambda>(c, cl). client_company cl = Some co) (clients s)))"

text \<open>
  \<open>ClientListDebtsView.get\<close>: \<open>get_object_or_404\<close>, then \<open>PermissionDenied\<close> when
  the client's company is not the caller's (both absent counts as equal), else the
  client and \<open>client.debts.all()\<close>.
\<close>

definition client_debts ::
  "user \<Rightarrow> client_id \<Rightarrow> db \<Rightarrow> error + client \<times> (debt_id, debt) table" where
  "client_debts u c s =
     (case map_of (clients s) c of
        None \<Rightarrow> Inl NotFound
      | Some cl \<Rightarrow>
          if client_company cl \<noteq> user_company u then Inl PermissionDenied
          else Inr (cl, filter (\<lambda>(i, d). client d = c) (debts s)))"

text \<open>
  The two \<open>UniqueConstraint\<close>s: within one company no two clients share a name or a
  phone. A client without a company is not constrained (SQL \<open>NULL\<close> is distinct).
\<close>

definition client_unique_inv :: "db \<Rightarrow> bool" where
  "client_unique_inv s \<longleftrightarrow>
     (\<forall>(c1, x) \<in> set (clients s). \<forall>(c2, y) \<in> set (clients s).
        c1 \<noteq> c2 \<and> client_company x \<noteq> None \<and> client_company x = client_company y \<longrightarrow>
        name x \<noteq> name y \<and> phone x \<noteq> phone y)"

subsection \<open>Creation\<close>

lemma create_client_Inr:
  "create_client u n ph b s = Inr (s', c) \<longleftrightarrow>
     (\<exists>co. user_company u = Some co \<and> n \<noteq> [] \<and> ph \<noteq> [] \<and> length n \<le> 255 \<and> length ph \<le> 20 \<and>
        decimal_ok (case b of None \<Rightarrow> 0 | Some x \<Rightarrow> x) \<and>
        \<not> list_ex (\<lambda>(c, cl). client_company cl = Some co \<and> (name cl = n \<or> phone cl = ph)) (clients s) \<and>
        c = client_seq s \<and>
        s' = write_client c \<lparr>name = n, phone = ph, balanse = (case b of None \<Rightarrow> 0 | Some x \<Rightarrow> x),
                             client_company = Some co\<rparr> (s\<lparr>client_seq := Suc c\<rparr>))"
  by (auto simp: create_client_def Let_def not_less split: option.splits if_splits)

lemma client_debt_total_fresh:
  assumes "refs_inv s" and "map_of (clients s) c = None"
  shows "client_debt_total s c = 0"
  unfolding client_debt_total_def
proof (rule sum_where_all_false)
  fix i d assume "(i, d) \<in> set (debts s)"
  with assms(1) have "map_of (clients s) (client d) \<noteq> None" by (auto simp: refs_inv_def)
  with assms(2) show "\<not> client d = c" by auto
qed

lemma create_client_preserves_inv:
  assumes inv: "ledger_inv s" and b: "b = None \<or> b = Some 0"
    and ok: "create_client u n ph b s = Inr (s', c)"
  shows "ledger_inv s'"
proof -
  from ok b obtain co where c: "c = client_seq s"
    and S: "s' = write_client c \<lparr>name = n, phone = ph, balanse = 0, client_company = Some co\<rparr>
                   (s\<lparr>client_seq := Suc c\<rparr>)"
    by (auto simp: create_client_Inr)
  from inv have ki: "keys_inv s" and ri: "refs_inv s" by (simp_all add: ledger_inv_def)
  then have new: "map_of (clients s) c = None" by (simp add: keys_inv_def c)
  have kS: "keys_inv s'" using ki by (auto simp: S c keys_inv_def)
  have "balance_inv s'"
    using inv ki kS client_debt_total_fresh [OF ri new]
    by (auto simp: S balance_inv_map ledger_inv_def map_of_update_eq_Some)
  moreover have "refs_inv s'"
    using inv ki kS by (auto simp: S refs_inv_map ledger_inv_def update_conv')
  ultimately show ?thesis
    using inv kS by (simp add: S ledger_inv_def bounds_inv_def paid_flag_inv_def payments_inv_def
      debt_paid_total_def)
qed


subsection \<open>Listing\<close>

lemma list_clients_scoped:
  "list_clients u s = Inr cs \<Longrightarrow> (c, cl) \<in> set cs \<Longrightarrow>
     (c, cl) \<in> set (clients s) \<and> user_company u \<noteq> None \<and> client_company cl = user_company u"
  by (auto simp: list_clients_def split: option.splits)

lemma client_debts_result:
  "client_debts u c s = Inr (cl, ds) \<longleftrightarrow>
     map_of (clients s) c = Some cl \<and> client_company cl = user_company u \<and>
     ds = filter (\<lambda>(i, d). client d = c) (debts s)"
  by (auto simp: client_debts_def split: option.splits if_splits)


end
