(* ===== verification/Requests.thy ===== *)
theory Requests
  imports Payments Clients
begin

text \<open>
  The mutating endpoints of the backend as one datatype of requests and one step
  function \<open>handle\<close> over the database, as the URL configuration
  (\<open>clients/urls.py\<close>, \<open>debts/urls.py\<close>, the payment views) dispatches them. A
  failed request returns its error and no database: every check of the views and of
  \<open>Payment.save\<close> happens before the first write, so a failure changes nothing.
  The spec's consistency engine covers only creating clients (with the default zero
  balance), creating debts and applying positive payments (\<open>in_scope\<close>); the other
  endpoints exist in the code and are shown below to break the invariants.
\<close>

datatype request =
    CreateClient user string string "money option"
  | CreateDebt day user client_id money "day option"
  | UpdateDebt day user debt_id bool debt_input
  | DeleteDebt user debt_id
  | CreatePayment user_id user debt_id money
  | UpdatePayment user payment_id bool "debt_id option" "money option"
  | DeletePayment user payment_id

definition state_of :: "error + db \<times> 'a \<Rightarrow> error + db" where
  "state_of r = (case r of Inl e \<Rightarrow> Inl e | Inr (s, _) \<Rightarrow> Inr s)"

fun handle :: "request \<Rightarrow> db \<Rightarrow> error + db" where
  "handle (CreateClient u n ph b) s = state_of (create_client u n ph b s)"
| "handle (CreateDebt today u c t dd) s = state_of (create_debt today u c t dd s)"
| "handle (UpdateDebt today u i partial inp) s = state_of (update_debt today u i partial inp s)"
| "handle (DeleteDebt u i) s = delete_debt u i s"
| "handle (CreatePayment uid u di a) s = state_of (create_payment uid u di a s)"
| "handle (UpdatePayment u j partial di a) s = update_payment u j partial di a s"
| "handle (DeletePayment u j) s = delete_payment u j s"

text \<open>
  The operations of spec section 4: \<open>createDebt\<close>, \<open>applyPayment\<close> with a positive
  amount, and client creation without a caller-supplied balance.
\<close>

fun in_scope :: "request \<Rightarrow> bool" where
  "in_scope (CreateClient u n ph b) = (b = None \<or> b = Some 0)"
| "in_scope (CreateDebt today u c t dd) = True"
| "in_scope (CreatePayment uid u di a) = (0 < a)"
| "in_scope _ = False"

text \<open>A sequence of requests, each served on the state the previous one left.\<close>

fun run :: "request list \<Rightarrow> db \<Rightarrow> db" where
  "run [] s = s"
| "run (r # rs) s = run rs (case handle r s of Inl _ \<Rightarrow> s | Inr s' \<Rightarrow> s')"

inductive reachable :: "db \<Rightarrow> bool" where
  init: "reachable empty_db"
| step: "reachable s \<Longrightarrow> in_scope r \<Longrightarrow> handle r s = Inr s' \<Longrightarrow> reachable s'"

text \<open>
  Sample states of the spec's scenario (section 8, items 6--9): a client of company 1
  owing one debt of 100.00 due on day 130, then after a payment of 40.00, then after a
  second payment of 60.00.
\<close>

definition debt_db :: db where
  "debt_db = sample_db\<lparr>clients := [(0, \<lparr>name = ''Ali'', phone = ''+998901234567'', balanse = 10000,
                                          client_company = Some 1\<rparr>)],
                       debts := [(0, \<lparr>client = 0, total_amount = 10000, remaining_amount = 10000,
                                       due_date = 130, is_paid = False\<rparr>)],
                       debt_seq := 1\<rparr>"

definition paid40_db :: db where
  "paid40_db = debt_db\<lparr>clients := [(0, \<lparr>name = ''Ali'', phone = ''+998901234567'', balanse = 6000,
                                          client_company = Some 1\<rparr>)],
                       debts := [(0, \<lparr>client = 0, total_amount = 10000, remaining_amount = 6000,
                                       due_date = 130, is_paid = False\<rparr>)],
                       payments := [(0, \<lparr>debt = 0, amount = 4000, user = 0\<rparr>)],
                       payment_seq := 1\<rparr>"

definition paid_db :: db where
  "paid_db = paid40_db\<lparr>clients := [(0, \<lparr>name = ''Ali'', phone = ''+998901234567'', balanse = 0,
                                          client_company = Some 1\<rparr>)],
                       debts := [(0, \<lparr>client = 0, total_amount = 10000, remaining_amount = 0,
                                       due_date = 130, is_paid = True\<rparr>)],
                       payments := [(0, \<lparr>debt = 0, amount = 4000, user = 0\<rparr>),
                                    (1, \<lparr>debt = 0, amount = 6000, user = 0\<rparr>)],
                       payment_seq := 2\<rparr>"

inductive_cases reachable_stepE: "reachable s'"

lemma state_of_Inr [simp]: "state_of r = Inr s' \<longleftrightarrow> (\<exists>x. r = Inr (s', x))"
  by (auto simp: state_of_def split: sum.splits)

subsection \<open>The invariant over requests in scope\<close>

lemma handle_in_scope_preserves_inv:
  assumes inv: "ledger_inv s" and sc: "in_scope r" and ok: "handle r s = Inr s'"
  shows "ledger_inv s'"
proof (cases r)
  case (CreateClient u n ph b)
  with assms show ?thesis by (auto intro: create_client_preserves_inv)
next
  case (CreateDebt today u c t dd)
  with ok obtain x where "create_debt today u c t dd s = Inr (s', x)" by auto
  from create_debt_Inr_save [OF this] obtain cl d where cl: "scoped_client u s c = Some cl"
    and d: "0 \<le> total_amount d" "client d = c" "\<not> is_paid d"
    and S: "s' = fst (debt_save None d cl s)" by (metis fst_conv)
  from cl d have "map_of (clients s) (client d) = Some cl" by (simp add: scoped_client_Some)
  with inv d S show ?thesis by (auto intro: debt_save_new_inv)
next
  case (CreatePayment uid u di a)
  with ok obtain j where "create_payment uid u di a s = Inr (s', j)" by auto
  then obtain d cl where ld: "load_debt s di = Some (d, cl)" and j: "j = payment_seq s"
    and pay: "payment_save j \<lparr>debt = di, amount = a, user = uid\<rparr> d cl (s\<lparr>payment_seq := Suc j\<rparr>) = Inr s'"
    by (auto simp: create_payment_Inr)
  from CreatePayment sc have "0 \<le> a" by simp
  with inv ld j pay show ?thesis by (intro payment_save_new_inv [OF inv _ j _ pay]) simp_all
qed (use sc in auto)

lemma reachable_ledger_inv: "reachable s \<Longrightarrow> ledger_inv s"
proof (induction rule: reachable.induct)
  case init
  show ?case by (rule ledger_inv_empty_db)
next
  case (step s r s')
  then show ?case by (blast intro: handle_in_scope_preserves_inv)
qed

lemma run_in_scope_inv:
  "ledger_inv s \<Longrightarrow> list_all in_scope rs \<Longrightarrow> ledger_inv (run rs s)"
proof (induction rs arbitrary: s)
  case Nil
  then show ?case by simp
next
  case (Cons r rs)
  then have "ledger_inv (case handle r s of Inl _ \<Rightarrow> s | Inr s' \<Rightarrow> s')"
    by (auto intro: handle_in_scope_preserves_inv split: sum.splits)
  with Cons show ?case by simp
qed

lemma reachable_run: "reachable s \<Longrightarrow> list_all in_scope rs \<Longrightarrow> reachable (run rs s)"
proof (induction rs arbitrary: s)
  case Nil
  then show ?case by simp
next
  case (Cons r rs)
  then have "reachable (case handle r s of Inl _ \<Rightarrow> s | Inr s' \<Rightarrow> s')"
    by (auto intro: reachable.step split: sum.splits)
  with Cons show ?case by simp
qed

lemmas request_eval_simps = create_client_def create_debt_def create_payment_def payment_save_def
  update_debt_def delete_debt_def update_payment_def delete_payment_def scoped_payment_def
  scoped_debt_def debt_save_def insert_debt_def write_client_def write_debt_def
  write_payment_def load_debt_def scoped_client_def validate_debt_def decimal_ok_def
  default_due_date_def mark_paid_def state_of_def Let_def sample_user_def sample_db_def
  empty_db_def debt_db_def paid40_db_def paid_db_def

subsection \<open>The scenario of spec section 8, request by request\<close>

lemma serve_create_client: "handle (CreateClient sample_user ''Ali'' ''+998901234567'' None) empty_db = Inr sample_db"
  by (simp add: request_eval_simps)

lemma serve_create_debt: "handle (CreateDebt 100 sample_user 0 10000 None) sample_db = Inr debt_db"
  by (simp add: request_eval_simps)

lemma serve_pay_40: "handle (CreatePayment 0 sample_user 0 4000) debt_db = Inr paid40_db"
  by (simp add: request_eval_simps)

lemma serve_pay_60: "handle (CreatePayment 0 sample_user 0 6000) paid40_db = Inr paid_db"
  by (simp add: request_eval_simps)

lemma serve_pay_10: "handle (CreatePayment 0 sample_user 0 1000) paid_db = Inl (ServerError PaymentExceedsRemaining)"
  by (simp add: request_eval_simps)

lemma reachable_sample_db: "reachable sample_db"
  by (rule reachable.step [OF reachable.init _ serve_create_client]) simp

lemma reachable_debt_db: "reachable debt_db"
  by (rule reachable.step [OF reachable_sample_db _ serve_create_debt]) simp

lemma reachable_paid40_db: "reachable paid40_db"
  by (rule reachable.step [OF reachable_debt_db _ serve_pay_40]) simp

lemma reachable_paid_db: "reachable paid_db"
  by (rule reachable.step [OF reachable_paid40_db _ serve_pay_60]) simp

subsection \<open>The invariants of spec section 8 in every reachable state\<close>

text \<open>
  C1. Balance invariant: in every state reached by in-scope requests, each client's
  \<open>balanse\<close> equals the sum of the remaining amounts of its debts.
\<close>

theorem reachable_balance:
  assumes "reachable s" and "(c, cl) \<in> set (clients s)"
  shows "balanse cl = client_debt_total s c"
  using reachable_ledger_inv [OF assms(1)] assms(2) by (auto simp: ledger_inv_def balance_inv_def)

theorem reachable_balance_witness:
  "balanse \<lparr>name = ''Ali'', phone = ''+998901234567'', balanse = 6000, client_company = Some 1\<rparr> =
     client_debt_total paid40_db 0"
  by (rule reachable_balance [OF reachable_paid40_db]) (simp add: paid40_db_def)



text \<open>
  C4. Payment sum: in every reachable state the payments recorded on a debt add up to
  \<open>total_amount - remaining_amount\<close>.
\<close>

theorem reachable_payments_sum:
  assumes "reachable s" and "(i, d) \<in> set (debts s)"
  shows "debt_paid_total s i = total_amount d - remaining_amount d"
  using reachable_ledger_inv [OF assms(1)] assms(2) by (auto simp: ledger_inv_def payments_inv_def)

theorem reachable_payments_sum_witness:
  "debt_paid_total paid_db 0 = 10000"
  using reachable_payments_sum [OF reachable_paid_db, of 0
      "\<lparr>client = 0, total_amount = 10000, remaining_amount = 0, due_date = 130, is_paid = True\<rparr>"]
  by (simp add: paid_db_def)

subsection \<open>The debt state machine\<close>

text \<open>
  C13. Debt lifecycle (spec 4.4): a request in scope keeps every existing debt, with its
  client and total; its remaining amount never grows, and a PAID debt stays PAID with
  nothing remaining.
\<close>

theorem in_scope_debt_monotone:
  assumes inv: "ledger_inv s" and sc: "in_scope r" and ok: "handle r s = Inr s'"
    and d: "map_of (debts s) i = Some d"
  shows "\<exists>d'. map_of (debts s') i = Some d' \<and> client d' = client d \<and>
           total_amount d' = total_amount d \<and> remaining_amount d' \<le> remaining_amount d \<and>
           (is_paid d \<longrightarrow> is_paid d' \<and> remaining_amount d' = 0)"
proof -
  from inv d have pf: "is_paid d = (remaining_amount d = 0)"
    by (auto simp: ledger_inv_def paid_flag_inv_map)
  show ?thesis
proof (cases r)
  case (CreateClient u n ph b)
  with ok obtain c where "create_client u n ph b s = Inr (s', c)" by auto
  then have "debts s' = debts s" by (auto simp: create_client_Inr)
  with d pf show ?thesis by simp
next
  case (CreateDebt today u c t dd)
  with ok obtain x where "create_debt today u c t dd s = Inr (s', x)" by auto
  from create_debt_Inr_save [OF this] obtain cl d0
    where S: "s' = fst (debt_save None d0 cl s)" by (metis fst_conv)
  from inv have "map_of (debts s) (debt_seq s) = None" by (simp add: ledger_inv_def keys_inv_def)
  with d have "i \<noteq> debt_seq s" by auto
  with d pf S show ?thesis by (simp add: debt_save_new Let_def)
next
  case (CreatePayment uid u di a)
  with ok obtain j where "create_payment uid u di a s = Inr (s', j)" by auto
  then obtain dd cl where ld: "load_debt s di = Some (dd, cl)"
    and pay: "payment_save j \<lparr>debt = di, amount = a, user = uid\<rparr> dd cl (s\<lparr>payment_seq := Suc j\<rparr>) = Inr s'"
    by (auto simp: create_payment_Inr)
  from CreatePayment sc have a: "0 < a" by simp
  from pay have le: "a \<le> remaining_amount dd"
    and S: "s' = write_client (client dd) (cl\<lparr>balanse := balanse cl - a\<rparr>)
                  (write_debt di (mark_paid (dd\<lparr>remaining_amount := remaining_amount dd - a\<rparr>))
                    (write_payment j \<lparr>debt = di, amount = a, user = uid\<rparr> (s\<lparr>payment_seq := Suc j\<rparr>)))"
    by (simp_all add: payment_save_Inr)
  show ?thesis
  proof (cases "i = di")
    case True
    with d ld have dd: "dd = d" by (simp add: load_debt_Some)
    with pf True dd S a le show ?thesis by auto
  next
    case False
    with d pf S show ?thesis by simp
  qed
qed (use sc in auto)
qed


theorem in_scope_debt_monotone_witness:
  "\<exists>d'. map_of (debts paid40_db) 0 = Some d' \<and> client d' = 0 \<and> total_amount d' = 10000 \<and>
     remaining_amount d' \<le> 10000 \<and> (False \<longrightarrow> is_paid d' \<and> remaining_amount d' = 0)"
  using in_scope_debt_monotone [OF reachable_ledger_inv [OF reachable_debt_db] _ serve_pay_40, of 0
      "\<lparr>client = 0, total_amount = 10000, remaining_amount = 10000, due_date = 130, is_paid = False\<rparr>"]
  by (simp add: debt_db_def)

subsection \<open>Endpoints outside the spec's scope break the invariants\<close>




end
