(* ===== verification/Concurrency.thy ===== *)
theory Concurrency
  imports Requests
begin

text \<open>
  Concurrent payment requests. A request of \<open>PaymentListCreateView.post\<close> runs as a
  sequence of database accesses: the serializer loads the debt row when it validates
  the \<open>debt\<close> key; \<open>Payment.save\<close> checks the amount against that in-memory debt,
  loads the client row lazily at \<open>self.debt.client\<close> (line 20) and then writes the
  payment, the debt and the client rows, each from its in-memory copy. No lock is taken
  (\<open>select_for_update\<close>) and no transaction spans the request, so the accesses of
  several requests interleave. \<open>thread_step\<close> is one access of a payment request.
  A request of \<open>DebtListCreateView.post\<close> is three accesses: the serializer loads the
  client row when it validates the \<open>client\<close> key, \<open>Debt.save\<close> writes the client
  row with the raised balance (\<open>self.client.save()\<close>) and then inserts the debt
  (\<open>debt_step\<close>). \<open>req_step\<close> lets any request take its next access.
\<close>

datatype phase =
    Start
  | Loaded debt
  | Checked debt client
  | PaymentSaved debt client
  | DebtSaved client_id client
  | Done
  | Refused

record pay_req =
  rq_user :: user_id
  rq_debt :: debt_id
  rq_amount :: money
  rq_phase :: phase

definition new_req :: "user_id \<Rightarrow> debt_id \<Rightarrow> money \<Rightarrow> pay_req" where
  "new_req uid di a = \<lparr>rq_user = uid, rq_debt = di, rq_amount = a, rq_phase = Start\<rparr>"

definition thread_step :: "db \<Rightarrow> pay_req \<Rightarrow> (db \<times> pay_req) option" where
  "thread_step s r =
     (case rq_phase r of
        Start \<Rightarrow>
          (case map_of (debts s) (rq_debt r) of
             None \<Rightarrow> Some (s, r\<lparr>rq_phase := Refused\<rparr>)
           | Some d \<Rightarrow> Some (s, r\<lparr>rq_phase := Loaded d\<rparr>))
      | Loaded d \<Rightarrow>
          if rq_amount r \<le> remaining_amount d then
            (case map_of (clients s) (client d) of
               None \<Rightarrow> Some (s, r\<lparr>rq_phase := Refused\<rparr>)
             | Some cl \<Rightarrow>
                 Some (s, r\<lparr>rq_phase := Checked (d\<lparr>remaining_amount := remaining_amount d - rq_amount r\<rparr>)
                                          (cl\<lparr>balanse := balanse cl - rq_amount r\<rparr>)\<rparr>))
          else Some (s, r\<lparr>rq_phase := Refused\<rparr>)
      | Checked d cl \<Rightarrow>
          let j = payment_seq s in
          Some (write_payment j \<lparr>debt = rq_debt r, amount = rq_amount r, user = rq_user r\<rparr>
                  (s\<lparr>payment_seq := Suc j\<rparr>), r\<lparr>rq_phase := PaymentSaved d cl\<rparr>)
      | PaymentSaved d cl \<Rightarrow>
          Some (write_debt (rq_debt r) (mark_paid d) s, r\<lparr>rq_phase := DebtSaved (client d) cl\<rparr>)
      | DebtSaved c cl \<Rightarrow> Some (write_client c cl s, r\<lparr>rq_phase := Done\<rparr>)
      | Done \<Rightarrow> None
      | Refused \<Rightarrow> None)"

datatype debt_phase =
    DStart
  | DLoaded client
  | DClientSaved debt
  | DDone
  | DRefused

record debt_req =
  dq_today :: day
  dq_user :: user
  dq_client :: client_id
  dq_total :: money
  dq_due :: "day option"
  dq_phase :: debt_phase

definition new_debt_req :: "day \<Rightarrow> user \<Rightarrow> client_id \<Rightarrow> money \<Rightarrow> day option \<Rightarrow> debt_req" where
  "new_debt_req today u c t dd =
     \<lparr>dq_today = today, dq_user = u, dq_client = c, dq_total = t, dq_due = dd, dq_phase = DStart\<rparr>"

text \<open>
  One access of a debt-creation request: the validation of \<open>create_debt\<close> on the
  client row it loads; then the two writes of \<open>debt_save\<close> on a new object, the
  client first, each from the in-memory copies.
\<close>

definition debt_step :: "db \<Rightarrow> debt_req \<Rightarrow> (db \<times> debt_req) option" where
  "debt_step s r =
     (case dq_phase r of
        DStart \<Rightarrow>
          (case scoped_client (dq_user r) s (dq_client r) of
             None \<Rightarrow> Some (s, r\<lparr>dq_phase := DRefused\<rparr>)
           | Some cl \<Rightarrow>
               if \<not> decimal_ok (dq_total r) then Some (s, r\<lparr>dq_phase := DRefused\<rparr>)
               else (case validate_debt (dq_today r) (Some (dq_total r)) (dq_due r) of
                       Inl _ \<Rightarrow> Some (s, r\<lparr>dq_phase := DRefused\<rparr>)
                     | Inr _ \<Rightarrow> Some (s, r\<lparr>dq_phase := DLoaded cl\<rparr>)))
      | DLoaded cl \<Rightarrow>
          let t = dq_total r;
              d = \<lparr>client = dq_client r, total_amount = t, remaining_amount = t,
                   due_date = (case dq_due r of None \<Rightarrow> default_due_date (dq_today r) | Some x \<Rightarrow> x),
                   is_paid = False\<rparr>
          in Some (write_client (dq_client r) (cl\<lparr>balanse := balanse cl + t\<rparr>) s,
                   r\<lparr>dq_phase := DClientSaved (mark_paid d)\<rparr>)
      | DClientSaved d \<Rightarrow> Some (fst (insert_debt d s), r\<lparr>dq_phase := DDone\<rparr>)
      | DDone \<Rightarrow> None
      | DRefused \<Rightarrow> None)"

text \<open>The requests that run concurrently, and one access of any of them.\<close>

datatype thread = Pay pay_req | NewDebt debt_req

definition any_step :: "db \<Rightarrow> thread \<Rightarrow> (db \<times> thread) option" where
  "any_step s t =
     (case t of
        Pay r \<Rightarrow> map_option (\<lambda>(s', r'). (s', Pay r')) (thread_step s r)
      | NewDebt r \<Rightarrow> map_option (\<lambda>(s', r'). (s', NewDebt r')) (debt_step s r))"

inductive req_step :: "db \<times> thread list \<Rightarrow> db \<times> thread list \<Rightarrow> bool" where
  step: "i < length ts \<Longrightarrow> any_step s (ts ! i) = Some (s', t') \<Longrightarrow>
           req_step (s, ts) (s', ts[i := t'])"

definition two_payments :: "thread list" where
  "two_payments = [Pay (new_req 0 0 6000), Pay (new_req 0 0 6000)]"

text \<open>One request on its own, access after access, with fuel.\<close>

fun thread_steps :: "nat \<Rightarrow> db \<Rightarrow> pay_req \<Rightarrow> db \<times> pay_req" where
  "thread_steps 0 s r = (s, r)"
| "thread_steps (Suc n) s r =
     (case thread_step s r of None \<Rightarrow> (s, r) | Some (s', r') \<Rightarrow> thread_steps n s' r')"

text \<open>A schedule: the sequence of requests (by index) that take a step.\<close>

fun run_schedule :: "nat list \<Rightarrow> db \<times> thread list \<Rightarrow> (db \<times> thread list) option" where
  "run_schedule [] c = Some c"
| "run_schedule (i # rest) (s, ts) =
     (if i < length ts then
        (case any_step s (ts ! i) of
           None \<Rightarrow> None
         | Some (s', t') \<Rightarrow> run_schedule rest (s', ts[i := t']))
      else None)"

lemmas schedule_eval_simps = any_step_def thread_step_def debt_step_def new_req_def new_debt_req_def
  scoped_client_def validate_debt_def decimal_ok_def default_due_date_def insert_debt_def
  mark_paid_def write_payment_def write_debt_def write_client_def debt_db_def sample_db_def
  sample_user_def empty_db_def

lemma run_schedule_steps:
  "run_schedule sch c = Some c' \<Longrightarrow> req_step\<^sup>*\<^sup>* c c'"
proof (induction sch c rule: run_schedule.induct)
  case (1 c)
  then show ?case by simp
next
  case (2 i rest s ts)
  from "2.prems" obtain s' t' where lt: "i < length ts"
    and st: "any_step s (ts ! i) = Some (s', t')"
    and rs: "run_schedule rest (s', ts[i := t']) = Some c'"
    by (auto split: if_splits option.splits)
  from lt st have "req_step (s, ts) (s', ts[i := t'])" by (rule req_step.step)
  moreover from lt st rs have "req_step\<^sup>*\<^sup>* (s', ts[i := t']) c'" by (intro "2.IH") auto
  ultimately show ?case by (rule converse_rtranclp_into_rtranclp)
qed

lemma schedule_reaches:
  assumes "run_schedule sch c = Some (s', ts')" and "P s' ts'"
  shows "\<exists>s' ts'. req_step\<^sup>*\<^sup>* c (s', ts') \<and> P s' ts'"
  using run_schedule_steps [OF assms(1)] assms(2) by blast

text \<open>
  Run alone, the accesses of a debt-creation request reach the database
  \<open>create_debt\<close> computes: the decomposition of \<open>Debt.save\<close> into its two writes
  is faithful.
\<close>

lemma serial_debt_creation:
  assumes "create_debt today u c t dd s = Inr (s', i, d)"
  shows "run_schedule [0, 0, 0] (s, [NewDebt (new_debt_req today u c t dd)]) =
           Some (s', [NewDebt ((new_debt_req today u c t dd)\<lparr>dq_phase := DDone\<rparr>)])"
proof -
  let ?due = "case dd of None \<Rightarrow> default_due_date today | Some x \<Rightarrow> x"
  from assms obtain cl where sc: "scoped_client u s c = Some cl" and ok: "decimal_ok t" "0 \<le> t"
    and due: "case dd of None \<Rightarrow> True | Some x \<Rightarrow> today < x"
    and r: "(s', i, d) = debt_save None
       \<lparr>client = c, total_amount = t, remaining_amount = 0, due_date = ?due, is_paid = False\<rparr> cl s"
    unfolding create_debt_Inr by blast
  have v: "validate_debt today (Some t) dd = Inr ()"
    using ok due by (cases dd) (simp_all add: validate_debt_def)
  show ?thesis
    using sc ok v r by (cases dd) (simp_all add: any_step_def debt_step_def new_debt_req_def
        debt_save_new Let_def insert_debt_def)
qed




end
