(* ===== verification/Interleaving.thy ===== *)
theory Interleaving
  imports Concurrency
begin

text \<open>
  What races cannot break. Every write of a payment or debt-creation request stores a
  whole row computed from the copies the request loaded, so a row it writes is
  consistent in itself even when other requests have changed the database since: the
  remaining amount stays within \<open>0 .. total_amount\<close>, the paid flag matches it, and
  the keys it writes under and refers to exist. \<open>row_inv\<close> collects the invariants of
  single rows; \<open>thread_ok\<close> says what a request in flight holds in memory. Both hold
  in every state of every interleaving (\<open>req_step\<close>), while the sums over rows,
  \<open>balance_inv\<close> and \<open>payments_inv\<close>, fail (\<open>Concurrency\<close>, C28 and C30).
\<close>

definition debt_ok :: "debt \<Rightarrow> bool" where
  "debt_ok d \<longleftrightarrow>
     0 \<le> remaining_amount d \<and> remaining_amount d \<le> total_amount d \<and> is_paid d = (remaining_amount d = 0)"

definition row_inv :: "db \<Rightarrow> bool" where
  "row_inv s \<longleftrightarrow> bounds_inv s \<and> paid_flag_inv s \<and> refs_inv s \<and> keys_inv s"

definition pay_ok :: "db \<Rightarrow> pay_req \<Rightarrow> bool" where
  "pay_ok s r \<longleftrightarrow> 0 \<le> rq_amount r \<and>
     (case rq_phase r of
        Loaded d \<Rightarrow> debt_ok d \<and> rq_debt r \<in> keys (debts s) \<and> client d \<in> keys (clients s)
      | Checked d cl \<Rightarrow> debt_ok (mark_paid d) \<and> rq_debt r \<in> keys (debts s) \<and> client d \<in> keys (clients s)
      | PaymentSaved d cl \<Rightarrow> debt_ok (mark_paid d) \<and> rq_debt r \<in> keys (debts s) \<and> client d \<in> keys (clients s)
      | DebtSaved c cl \<Rightarrow> c \<in> keys (clients s)
      | _ \<Rightarrow> True)"

definition new_debt_ok :: "db \<Rightarrow> debt_req \<Rightarrow> bool" where
  "new_debt_ok s r \<longleftrightarrow>
     (case dq_phase r of
        DLoaded cl \<Rightarrow> dq_client r \<in> keys (clients s) \<and> 0 \<le> dq_total r
      | DClientSaved d \<Rightarrow> debt_ok d \<and> client d \<in> keys (clients s)
      | _ \<Rightarrow> True)"

definition thread_ok :: "db \<Rightarrow> thread \<Rightarrow> bool" where
  "thread_ok s t = (case t of Pay r \<Rightarrow> pay_ok s r | NewDebt r \<Rightarrow> new_debt_ok s r)"

text \<open>A request that has not started: a payment of a non-negative amount, or a new debt.\<close>

definition fresh_thread :: "thread \<Rightarrow> bool" where
  "fresh_thread t =
     (case t of Pay r \<Rightarrow> rq_phase r = Start \<and> 0 \<le> rq_amount r | NewDebt r \<Rightarrow> dq_phase r = DStart)"

definition keys_grow :: "db \<Rightarrow> db \<Rightarrow> bool" where
  "keys_grow s s' \<longleftrightarrow> keys (debts s) \<subseteq> keys (debts s') \<and> keys (clients s) \<subseteq> keys (clients s')"

definition conc_inv :: "db \<times> thread list \<Rightarrow> bool" where
  "conc_inv c \<longleftrightarrow> row_inv (fst c) \<and> list_all (thread_ok (fst c)) (snd c)"

subsection \<open>Requests in flight\<close>

lemma thread_ok_mono:
  "thread_ok s t \<Longrightarrow> keys_grow s s' \<Longrightarrow> thread_ok s' t"
  by (auto simp: thread_ok_def pay_ok_def new_debt_ok_def keys_grow_def
      split: thread.splits phase.splits debt_phase.splits)

lemma fresh_thread_ok: "fresh_thread t \<Longrightarrow> thread_ok s t"
  by (auto simp: fresh_thread_def thread_ok_def pay_ok_def new_debt_ok_def split: thread.splits)

lemma row_inv_map:
  "row_inv s \<Longrightarrow> map_of (debts s) i = Some d \<Longrightarrow> debt_ok d \<and> client d \<in> keys (clients s)"
  by (auto simp: row_inv_def bounds_inv_map paid_flag_inv_map refs_inv_map debt_ok_def keys_map_of)

lemma keys_inv_write:
  "keys_inv s \<Longrightarrow> c \<in> keys (clients s) \<Longrightarrow> keys_inv (write_client c cl s)"
  "keys_inv s \<Longrightarrow> i \<in> keys (debts s) \<Longrightarrow> keys_inv (write_debt i d s)"
  by (auto simp: keys_inv_def)

lemma row_inv_write_client:
  assumes "row_inv s" and "c \<in> keys (clients s)"
  shows "row_inv (write_client c cl s)"
proof -
  from assms have k: "keys_inv (write_client c cl s)" by (simp add: row_inv_def keys_inv_write)
  from assms(2) have "map_of (clients s) x \<noteq> None \<Longrightarrow> map_of (AList.update c cl (clients s)) x \<noteq> None" for x
    by (simp add: update_conv')
  with assms(1) show ?thesis
    using k by (auto simp: row_inv_def bounds_inv_def paid_flag_inv_def refs_inv_def)
qed

lemma row_inv_write_debt:
  assumes inv: "row_inv s" and i: "i \<in> keys (debts s)" and d: "debt_ok d" and c: "client d \<in> keys (clients s)"
  shows "row_inv (write_debt i d s)"
proof -
  from inv have ki: "keys_inv s" by (simp add: row_inv_def)
  from inv i have k: "keys_inv (write_debt i d s)" by (simp add: row_inv_def keys_inv_write)
  have "bounds_inv (write_debt i d s)"
    using inv ki k d by (auto simp: row_inv_def bounds_inv_map debt_ok_def map_of_update_eq_Some)
  moreover have "paid_flag_inv (write_debt i d s)"
    using inv ki k d by (auto simp: row_inv_def paid_flag_inv_map debt_ok_def map_of_update_eq_Some)
  moreover have "refs_inv (write_debt i d s)"
    using inv ki k c i by (auto simp: row_inv_def refs_inv_map map_of_update_eq_Some update_conv' keys_map_of)
  ultimately show ?thesis using k by (simp add: row_inv_def)
qed

lemma row_inv_write_payment:
  assumes inv: "row_inv s" and i: "debt p \<in> keys (debts s)"
  shows "row_inv (write_payment (payment_seq s) p (s\<lparr>payment_seq := Suc (payment_seq s)\<rparr>))"
proof -
  let ?S = "write_payment (payment_seq s) p (s\<lparr>payment_seq := Suc (payment_seq s)\<rparr>)"
  from inv have ki: "keys_inv s" by (simp add: row_inv_def)
  then have k: "keys_inv ?S" by (auto simp: keys_inv_def)
  have "refs_inv ?S"
    using inv ki k i by (auto simp: row_inv_def refs_inv_map map_of_update_eq_Some keys_map_of)
  with inv k show ?thesis by (simp add: row_inv_def bounds_inv_def paid_flag_inv_def)
qed

lemma row_inv_insert_debt:
  assumes inv: "row_inv s" and d: "debt_ok d" and c: "client d \<in> keys (clients s)"
  shows "row_inv (fst (insert_debt d s))"
proof -
  let ?S = "fst (insert_debt d s)"
  from inv have ki: "keys_inv s" by (simp add: row_inv_def)
  then have k: "keys_inv ?S" by (auto simp: keys_inv_def insert_debt_def)
  have "bounds_inv ?S"
    using inv ki k d by (auto simp: insert_debt_def row_inv_def bounds_inv_map debt_ok_def map_of_update_eq_Some)
  moreover have "paid_flag_inv ?S"
    using inv ki k d by (auto simp: insert_debt_def row_inv_def paid_flag_inv_map debt_ok_def map_of_update_eq_Some)
  moreover have "refs_inv ?S"
    using inv ki k c by (auto simp: insert_debt_def row_inv_def refs_inv_map map_of_update_eq_Some update_conv' keys_map_of)
  ultimately show ?thesis using k by (simp add: row_inv_def)
qed

lemma debt_ok_pay:
  "debt_ok d \<Longrightarrow> 0 \<le> a \<Longrightarrow> a \<le> remaining_amount d \<Longrightarrow>
     debt_ok (mark_paid (d\<lparr>remaining_amount := remaining_amount d - a\<rparr>))"
  by (auto simp: debt_ok_def)

lemma keys_grow_refl [simp]: "keys_grow s s"
  by (simp add: keys_grow_def)

lemma keys_grow_writes [simp]:
  "keys_grow s (write_client c cl s)" "keys_grow s (write_debt i d s)"
  "keys_grow s (write_payment j p (s\<lparr>payment_seq := n\<rparr>))" "keys_grow s (fst (insert_debt d s))"
  by (auto simp: keys_grow_def insert_debt_def)

lemma pay_step_ok:
  assumes inv: "row_inv s" and ok: "pay_ok s r" and st: "thread_step s r = Some (s', r')"
  shows "row_inv s' \<and> pay_ok s' r' \<and> keys_grow s s'"
proof (cases "rq_phase r")
  case Start
  with st obtain d where "map_of (debts s) (rq_debt r) = Some d \<and> s' = s \<and> r' = r\<lparr>rq_phase := Loaded d\<rparr> \<or>
      s' = s \<and> r' = r\<lparr>rq_phase := Refused\<rparr>"
    by (auto simp: thread_step_def split: option.splits)
  with inv ok show ?thesis by (auto simp: pay_ok_def dest: row_inv_map)
next
  case (Loaded d)
  with ok have d: "debt_ok d" "client d \<in> keys (clients s)" and a: "0 \<le> rq_amount r"
    by (simp_all add: pay_ok_def)
  from st Loaded have "(rq_amount r \<le> remaining_amount d \<and> s' = s \<and>
      (\<exists>cl. r' = r\<lparr>rq_phase := Checked (d\<lparr>remaining_amount := remaining_amount d - rq_amount r\<rparr>)
                                (cl\<lparr>balanse := balanse cl - rq_amount r\<rparr>)\<rparr>)) \<or>
      (s' = s \<and> r' = r\<lparr>rq_phase := Refused\<rparr>)"
    by (auto simp: thread_step_def split: option.splits if_splits)
  with inv ok Loaded d a show ?thesis by (auto simp: pay_ok_def intro: debt_ok_pay)
next
  case (Checked d cl)
  with st have "s' = write_payment (payment_seq s) \<lparr>debt = rq_debt r, amount = rq_amount r, user = rq_user r\<rparr>
                  (s\<lparr>payment_seq := Suc (payment_seq s)\<rparr>)" and "r' = r\<lparr>rq_phase := PaymentSaved d cl\<rparr>"
    by (auto simp: thread_step_def Let_def)
  with inv ok Checked show ?thesis
    using row_inv_write_payment [OF inv, of "\<lparr>debt = rq_debt r, amount = rq_amount r, user = rq_user r\<rparr>"]
    by (simp add: pay_ok_def)
next
  case (PaymentSaved d cl)
  with st have "s' = write_debt (rq_debt r) (mark_paid d) s" and "r' = r\<lparr>rq_phase := DebtSaved (client d) cl\<rparr>"
    by (auto simp: thread_step_def)
  with inv ok PaymentSaved show ?thesis
    by (auto simp: pay_ok_def intro: row_inv_write_debt)
next
  case (DebtSaved c cl)
  with st have "s' = write_client c cl s" and "r' = r\<lparr>rq_phase := Done\<rparr>"
    by (auto simp: thread_step_def)
  with inv ok DebtSaved show ?thesis
    by (auto simp: pay_ok_def intro: row_inv_write_client)
qed (use st in \<open>simp_all add: thread_step_def\<close>)

lemma debt_step_ok:
  assumes inv: "row_inv s" and ok: "new_debt_ok s r" and st: "debt_step s r = Some (s', r')"
  shows "row_inv s' \<and> new_debt_ok s' r' \<and> keys_grow s s'"
proof (cases "dq_phase r")
  case DStart
  with st have "(\<exists>cl. scoped_client (dq_user r) s (dq_client r) = Some cl \<and> 0 \<le> dq_total r \<and>
        s' = s \<and> r' = r\<lparr>dq_phase := DLoaded cl\<rparr>) \<or> (s' = s \<and> r' = r\<lparr>dq_phase := DRefused\<rparr>)"
    by (auto simp: debt_step_def validate_debt_def split: option.splits if_splits sum.splits)
  with inv show ?thesis by (auto simp: new_debt_ok_def scoped_client_Some keys_map_of)
next
  case (DLoaded cl)
  let ?d = "\<lparr>client = dq_client r, total_amount = dq_total r, remaining_amount = dq_total r,
             due_date = (case dq_due r of None \<Rightarrow> default_due_date (dq_today r) | Some x \<Rightarrow> x),
             is_paid = False\<rparr>"
  from st DLoaded have S: "s' = write_client (dq_client r) (cl\<lparr>balanse := balanse cl + dq_total r\<rparr>) s"
    and R: "r' = r\<lparr>dq_phase := DClientSaved (mark_paid ?d)\<rparr>"
    by (auto simp: debt_step_def Let_def)
  from ok DLoaded have c: "dq_client r \<in> keys (clients s)" and t: "0 \<le> dq_total r"
    by (simp_all add: new_debt_ok_def)
  have "debt_ok (mark_paid ?d)" using t by (simp add: debt_ok_def)
  with inv c show ?thesis by (simp add: S R new_debt_ok_def row_inv_write_client)
next
  case (DClientSaved d)
  with st have "s' = fst (insert_debt d s)" and "r' = r\<lparr>dq_phase := DDone\<rparr>"
    by (auto simp: debt_step_def)
  with inv ok DClientSaved show ?thesis
    by (simp add: new_debt_ok_def row_inv_insert_debt)
qed (use st in \<open>simp_all add: debt_step_def\<close>)

lemma any_step_ok:
  assumes "row_inv s" and "thread_ok s t" and "any_step s t = Some (s', t')"
  shows "row_inv s' \<and> thread_ok s' t' \<and> keys_grow s s'"
proof (cases t)
  case (Pay r)
  with assms(3) obtain r' where st: "thread_step s r = Some (s', r')" and t': "t' = Pay r'"
    by (auto simp: any_step_def)
  from Pay assms(2) have "pay_ok s r" by (simp add: thread_ok_def)
  from pay_step_ok [OF assms(1) this st] t' show ?thesis by (simp add: thread_ok_def)
next
  case (NewDebt r)
  with assms(3) obtain r' where st: "debt_step s r = Some (s', r')" and t': "t' = NewDebt r'"
    by (auto simp: any_step_def)
  from NewDebt assms(2) have "new_debt_ok s r" by (simp add: thread_ok_def)
  from debt_step_ok [OF assms(1) this st] t' show ?thesis by (simp add: thread_ok_def)
qed

lemma req_step_conc_inv:
  assumes "req_step c c'" and "conc_inv c"
  shows "conc_inv c'"
  using assms
proof (induction rule: req_step.induct)
  case (step i ts s s' t')
  from step.prems have inv: "row_inv s" and all: "list_all (thread_ok s) ts"
    by (simp_all add: conc_inv_def)
  from all step.hyps(1) have "thread_ok s (ts ! i)" by (simp add: list_all_length)
  from any_step_ok [OF inv this step.hyps(2)]
  have inv': "row_inv s'" and t': "thread_ok s' t'" and g: "keys_grow s s'" by simp_all
  from all g have "list_all (thread_ok s') ts"
    by (auto simp: list_all_iff intro: thread_ok_mono)
  with t' have "list_all (thread_ok s') (ts[i := t'])"
    unfolding list_all_length by (metis length_list_update nth_list_update_eq nth_list_update_neq)
  with inv' show ?case by (simp add: conc_inv_def)
qed

lemma steps_conc_inv: "req_step\<^sup>*\<^sup>* c c' \<Longrightarrow> conc_inv c \<Longrightarrow> conc_inv c'"
  by (induction rule: rtranclp_induct) (auto intro: req_step_conc_inv)

lemma ledger_inv_row_inv: "ledger_inv s \<Longrightarrow> row_inv s"
  by (simp add: ledger_inv_def row_inv_def)

text \<open>
  C19. Races cannot corrupt a single row. From a database satisfying the ledger
  invariant, with any number of payment requests of non-negative amounts and
  debt-creation requests started concurrently, every state of every interleaving of
  their accesses keeps each debt's remaining amount within \<open>0 .. total_amount\<close>, its
  paid flag matching the remaining amount, every foreign key pointing to an existing row
  and every primary key fresh (contrast C28, where the sums over rows fail).
\<close>

theorem interleaving_keeps_rows:
  assumes inv: "ledger_inv s" and fresh: "list_all fresh_thread ts"
    and run: "req_step\<^sup>*\<^sup>* (s, ts) (s', ts')"
  shows "bounds_inv s' \<and> paid_flag_inv s' \<and> refs_inv s' \<and> keys_inv s'"
proof -
  have "conc_inv (s, ts)"
    using ledger_inv_row_inv [OF inv] fresh by (auto simp: conc_inv_def list_all_iff fresh_thread_ok)
  with run have "conc_inv (s', ts')" by (rule steps_conc_inv)
  then show ?thesis by (simp add: conc_inv_def row_inv_def)
qed

end
