(* ===== verification/Users.thy ===== *)
theory Users
  imports Models "HOL-Library.While_Combinator" "HOL-Library.Sublist"
begin

text \<open>
  The users component: \<open>users/models.py\<close> (\<open>User.save\<close> with \<open>clean\<close>,
  \<open>check_email\<close> and the \<open>check_username\<close> loop), \<open>users/serializers.py\<close>
  (registration, login and token-refresh validation, the user representation) and
  \<open>users/views.py\<close> (the register, login, token-refresh and profile views, dispatched
  as \<open>users/urls.py\<close> does by \<open>handle_user\<close>). Strings are lists of 8-bit
  characters read as Latin-1 code points; the Python string methods \<open>strip\<close> and
  \<open>lower\<close> are written out on that range. The JWT tokens of
  \<open>rest_framework_simplejwt\<close> are records of their claims (type, user, expiry);
  the library's encoding and signature check are parameters.
\<close>

subsection \<open>Python string methods on Latin-1\<close>

text \<open>\<open>str.isspace\<close> on the code points 0 to 255.\<close>

definition py_space :: "char \<Rightarrow> bool" where
  "py_space c \<longleftrightarrow> (of_char c :: nat) \<in> {9, 10, 11, 12, 13, 28, 29, 30, 31, 32, 133, 160}"

text \<open>\<open>str.strip()\<close>, used by DRF's \<open>CharField(trim_whitespace=True)\<close>.\<close>

definition py_strip :: "string \<Rightarrow> string" where
  "py_strip s = rev (dropWhile py_space (rev (dropWhile py_space s)))"

text \<open>
  \<open>str.lower()\<close> on Latin-1: the capital letters (code points 65--90 and 192--222
  except the multiplication sign 215) move up by 32.
\<close>

definition lower_char :: "char \<Rightarrow> char" where
  "lower_char c =
     (let n = (of_char c :: nat) in
      if 65 \<le> n \<and> n \<le> 90 \<or> 192 \<le> n \<and> n \<le> 222 \<and> n \<noteq> 215 then char_of (n + 32) else c)"

definition py_lower :: "string \<Rightarrow> string" where
  "py_lower s = map lower_char s"

text \<open>
  \<open>UnicodeUsernameValidator\<close> of \<open>AbstractUser.username\<close>: the regular expression
  \<open>^[\w.@+-]+\Z\<close>, where \<open>\w\<close> on Latin-1 is the digits, letters, the underscore and
  the numeric and alphabetic signs 170, 178, 179, 181, 185, 186, 188--190.
\<close>

definition word_char :: "char \<Rightarrow> bool" where
  "word_char c \<longleftrightarrow>
     (let n = (of_char c :: nat) in
      48 \<le> n \<and> n \<le> 57 \<or> 65 \<le> n \<and> n \<le> 90 \<or> n = 95 \<or> 97 \<le> n \<and> n \<le> 122 \<or>
      n \<in> {170, 178, 179, 181, 185, 186, 188, 189, 190} \<or>
      192 \<le> n \<and> n \<le> 255 \<and> n \<noteq> 215 \<and> n \<noteq> 247)"

definition username_valid :: "string \<Rightarrow> bool" where
  "username_valid s \<longleftrightarrow> s \<noteq> [] \<and> list_all (\<lambda>c. word_char c \<or> c \<in> set ''.@+-'') s"

subsection \<open>\<open>User.save\<close>\<close>

text \<open>
  \<open>check_username\<close>: a user saved without a username gets
  \<open>instagram-\<close> followed by the last group of a \<open>uuid4\<close> (the argument \<open>sfx\<close>);
  while a user with that name exists, a digit \<open>random.randint(0, 9)\<close> is appended.
  The random draws are the sequence \<open>rnd\<close> (read modulo 10, the range of
  \<open>randint\<close>), \<open>k\<close> counts them. The loop ends because each turn lengthens the
  candidate and no existing name is longer than the longest one.
\<close>

definition digit_char :: "nat \<Rightarrow> char" where
  "digit_char d = char_of (48 + d mod 10)"

definition longest_name :: "string list \<Rightarrow> nat" where
  "longest_name names = Max (insert 0 (length ` set names))"

function username_loop :: "string list \<Rightarrow> (nat \<Rightarrow> nat) \<Rightarrow> nat \<Rightarrow> string \<Rightarrow> string" where
  "username_loop names rnd k t =
     (if t \<in> set names then username_loop names rnd (Suc k) (t @ [digit_char (rnd k)]) else t)"
  by pat_completeness auto
termination
proof (relation "measure (\<lambda>(names, rnd, k, t). Suc (longest_name names) - length t)")
  fix names :: "string list" and rnd :: "nat \<Rightarrow> nat" and k :: nat and t :: string
  assume "t \<in> set names"
  then have "length t \<le> longest_name names"
    by (simp add: longest_name_def)
  then show "((names, rnd, Suc k, t @ [digit_char (rnd k)]), names, rnd, k, t)
      \<in> measure (\<lambda>(names, rnd, k, t). Suc (longest_name names) - length t)"
    by simp
qed simp

declare username_loop.simps [simp del]

text \<open>The \<open>while\<close> statement of \<open>check_username\<close> as it is written, over the pair of
  the draw counter and the candidate.\<close>

definition username_while :: "string list \<Rightarrow> (nat \<Rightarrow> nat) \<Rightarrow> string \<Rightarrow> (nat \<times> string) option" where
  "username_while names rnd t0 =
     while_option (\<lambda>(k, t). t \<in> set names) (\<lambda>(k, t). (Suc k, t @ [digit_char (rnd k)])) (0, t0)"

definition check_username :: "string list \<Rightarrow> (nat \<Rightarrow> nat) \<Rightarrow> string \<Rightarrow> user \<Rightarrow> user" where
  "check_username names rnd sfx u =
     (if username u = [] then u\<lparr>username := username_loop names rnd 0 (''instagram-'' @ sfx)\<rparr> else u)"

text \<open>\<open>check_email\<close>: a non-empty e-mail is lower-cased.\<close>

definition check_email :: "user \<Rightarrow> user" where
  "check_email u =
     (case email u of
        None \<Rightarrow> u
      | Some e \<Rightarrow> if e = [] then u else u\<lparr>email := Some (py_lower e)\<rparr>)"

text \<open>\<open>clean\<close>: \<open>check_email\<close> then \<open>check_username\<close> against the stored names.\<close>

definition user_clean :: "string list \<Rightarrow> (nat \<Rightarrow> nat) \<Rightarrow> string \<Rightarrow> user \<Rightarrow> user" where
  "user_clean names rnd sfx u = check_username names rnd sfx (check_email u)"

text \<open>
  The unique columns of the user table: \<open>username\<close> (of \<open>AbstractUser\<close>),
  \<open>email\<close> and \<open>phone_number\<close>, where \<open>NULL\<close> values never collide.
\<close>

definition user_conflict :: "user \<Rightarrow> user \<Rightarrow> bool" where
  "user_conflict u v \<longleftrightarrow>
     username u = username v \<or> (email u \<noteq> None \<and> email u = email v) \<or>
     (phone_number u \<noteq> None \<and> phone_number u = phone_number v)"

definition write_user :: "user_id \<Rightarrow> user \<Rightarrow> db \<Rightarrow> db" where
  "write_user i u s = s\<lparr>users := AList.update i u (users s)\<rparr>"

text \<open>
  \<open>User.save\<close>: \<open>clean()\<close>, then the row is written; a unique column already
  taken by another row raises \<open>IntegrityError\<close>. The result carries the saved
  object, which \<open>clean()\<close> has changed in place.
\<close>

definition user_save :: "(nat \<Rightarrow> nat) \<Rightarrow> string \<Rightarrow> user_id \<Rightarrow> user \<Rightarrow> db \<Rightarrow> error + db \<times> user" where
  "user_save rnd sfx uid u s =
     (let u' = user_clean (map (username \<circ> snd) (users s)) rnd sfx u in
      if list_ex (\<lambda>(k, v). k \<noteq> uid \<and> user_conflict u' v) (users s)
      then Inl (ServerError IntegrityError)
      else Inr (write_user uid u' s, u'))"

text \<open>
  Django's \<open>UserManager.create_user\<close> as the serializer calls it:
  \<open>normalize_email\<close> (\<open>None\<close> becomes the empty string; when the stripped
  address has an \<open>@\<close>, the part after the last one is lower-cased), the password
  hashed (the identity here), the role the given one or the model default
  \<open>SELLER\<close>, no company, and \<open>save()\<close> under a fresh key (a \<open>uuid4\<close>).
  An empty username raises \<open>ValueError\<close>, which registration never reaches.
\<close>

definition normalize_email :: "string option \<Rightarrow> string" where
  "normalize_email e =
     (let x = (case e of None \<Rightarrow> [] | Some v \<Rightarrow> v); t = py_strip x in
      if CHR ''@'' \<in> set t
      then rev (tl (dropWhile (\<lambda>c. c \<noteq> CHR ''@'') (rev t))) @ ''@'' @
           py_lower (rev (takeWhile (\<lambda>c. c \<noteq> CHR ''@'') (rev t)))
      else x)"

definition create_user ::
  "(nat \<Rightarrow> nat) \<Rightarrow> string \<Rightarrow> string \<Rightarrow> string option \<Rightarrow> string \<Rightarrow> role option \<Rightarrow> db \<Rightarrow>
   error + db \<times> user_id \<times> user" where
  "create_user rnd sfx un e pw r s =
     (if un = [] then Inl (ServerError UsernameNotSet)
      else
        let uid = user_seq s;
            u = \<lparr>username = un, first_name = [], last_name = [], email = Some (normalize_email e),
                 phone_number = None, user_company = None,
                 user_roles = (case r of None \<Rightarrow> SELLER | Some x \<Rightarrow> x), password = pw\<rparr>
        in (case user_save rnd sfx uid u (s\<lparr>user_seq := Suc uid\<rparr>) of
              Inl err \<Rightarrow> Inl err
            | Inr (s', u') \<Rightarrow> Inr (s', uid, u')))"

subsection \<open>DRF fields\<close>

text \<open>
  A field of a request body: missing, JSON \<open>null\<close>, or a string. The result of a
  field's validation is \<open>None\<close> when the field is left out of
  \<open>validated_data\<close>, \<open>Some None\<close> for a stored \<open>None\<close>.
\<close>

datatype field_in = Absent | Null | Given string

text \<open>
  \<open>CharField.run_validation\<close> (and \<open>EmailField\<close>, a \<open>CharField\<close>): a missing
  field is an error when required and skipped otherwise; \<open>null\<close> is kept only with
  \<open>allow_null\<close>; a string that is blank after stripping is the empty string with
  \<open>allow_blank\<close> (no validator runs) and an error otherwise; else the stripped
  string goes through \<open>MaxLengthValidator\<close>, \<open>ProhibitNullCharactersValidator\<close>
  and the field's own validators \<open>check\<close>.
\<close>

definition char_field ::
  "bool \<Rightarrow> bool \<Rightarrow> bool \<Rightarrow> nat option \<Rightarrow> (string \<Rightarrow> error option) \<Rightarrow> field_in \<Rightarrow>
   error + string option option" where
  "char_field required allow_null allow_blank max_len check x =
     (case x of
        Absent \<Rightarrow> if required then Inl (ValidationError FieldRequired) else Inr None
      | Null \<Rightarrow> if allow_null then Inr (Some None) else Inl (ValidationError NullField)
      | Given v \<Rightarrow>
          (let t = py_strip v in
           if t = [] then (if allow_blank then Inr (Some (Some [])) else Inl (ValidationError BlankField))
           else if (case max_len of None \<Rightarrow> False | Some m \<Rightarrow> m < length t)
           then Inl (ValidationError MaxLength)
           else if CHR 0x00 \<in> set t then Inl (ValidationError NullCharacter)
           else (case check t of None \<Rightarrow> Inr (Some (Some t)) | Some err \<Rightarrow> Inl err)))"

text \<open>
  The \<open>ChoiceField\<close> of \<open>user_roles\<close> (optional, the model has a default): the
  string is not stripped and must be one of the two choices.
\<close>

definition role_field :: "field_in \<Rightarrow> error + role option" where
  "role_field x =
     (case x of
        Absent \<Rightarrow> Inr None
      | Null \<Rightarrow> Inl (ValidationError NullField)
      | Given v \<Rightarrow>
          if v = ''seller'' then Inr (Some SELLER)
          else if v = ''manager'' then Inr (Some MANAGER)
          else Inl (ValidationError InvalidChoice))"

text \<open>
  \<open>UniqueValidator\<close> of a unique model field: an exact match of the value with a
  stored row. The repository has no settings module; the model takes the exact lookup
  and the unique index to compare strings exactly, as SQLite and PostgreSQL do.
\<close>

definition email_taken :: "db \<Rightarrow> string \<Rightarrow> bool" where
  "email_taken s e \<longleftrightarrow> list_ex (\<lambda>(k, u). email u = Some e) (users s)"

definition username_taken :: "db \<Rightarrow> string \<Rightarrow> bool" where
  "username_taken s n \<longleftrightarrow> list_ex (\<lambda>(k, u). username u = n) (users s)"

text \<open>
  The validators of the e-mail field: Django's \<open>EmailValidator\<close>, a regular
  expression of the library, is the parameter \<open>ev\<close>; then \<open>UniqueValidator\<close>.
\<close>

definition email_check :: "(string \<Rightarrow> bool) \<Rightarrow> db \<Rightarrow> string \<Rightarrow> error option" where
  "email_check ev s v =
     (if \<not> ev v then Some (ValidationError InvalidEmail)
      else if email_taken s v then Some (ValidationError NotUnique)
      else None)"

definition username_check :: "db \<Rightarrow> string \<Rightarrow> error option" where
  "username_check s v =
     (if \<not> username_valid v then Some (ValidationError InvalidUsername)
      else if username_taken s v then Some (ValidationError NotUnique)
      else None)"

subsection \<open>Registration\<close>

record reg_input =
  in_email :: field_in
  in_password :: field_in
  in_confirm :: field_in
  in_roles :: field_in
  in_username :: field_in

text \<open>\<open>validated_data\<close> of \<open>UserRegistrationSerializer\<close>, one entry per field.\<close>

record reg_data =
  d_email :: "string option option"
  d_password :: "string option option"
  d_confirm :: "string option option"
  d_roles :: "role option"
  d_username :: "string option option"

text \<open>
  The fields of \<open>UserRegistrationSerializer\<close> in the order of \<open>Meta.fields\<close>:
  \<open>email\<close> from the model's \<open>EmailField(null=True, blank=True, unique=True)\<close>
  (optional, nullable, blank allowed, at most 254 characters), the declared
  \<open>password\<close> and \<open>confirm_password\<close> (required; \<open>validate_password\<close> runs
  the validators of \<open>AUTH_PASSWORD_VALIDATORS\<close>, which the repository leaves at
  Django's empty default), \<open>user_roles\<close>, and \<open>username\<close> of \<open>AbstractUser\<close>
  (required, at most 150 characters, the username validator, unique). DRF reports
  every failing field; the model reports the first.
\<close>

definition reg_fields :: "(string \<Rightarrow> bool) \<Rightarrow> db \<Rightarrow> reg_input \<Rightarrow> error + reg_data" where
  "reg_fields ev s inp =
     (case char_field False True True (Some 254) (email_check ev s) (in_email inp) of
        Inl err \<Rightarrow> Inl err
      | Inr e \<Rightarrow>
     (case char_field True False False None (\<lambda>v. None) (in_password inp) of
        Inl err \<Rightarrow> Inl err
      | Inr p \<Rightarrow>
     (case char_field True False False None (\<lambda>v. None) (in_confirm inp) of
        Inl err \<Rightarrow> Inl err
      | Inr c \<Rightarrow>
     (case role_field (in_roles inp) of
        Inl err \<Rightarrow> Inl err
      | Inr r \<Rightarrow>
     (case char_field True False False (Some 150) (username_check s) (in_username inp) of
        Inl err \<Rightarrow> Inl err
      | Inr n \<Rightarrow>
          Inr \<lparr>d_email = e, d_password = p, d_confirm = c, d_roles = r, d_username = n\<rparr>)))))"

text \<open>
  \<open>UserRegistrationSerializer.validate\<close>: \<open>data['email'].lower()\<close> raises
  \<open>KeyError\<close> when the optional e-mail was left out and \<open>AttributeError\<close> when it
  is \<open>None\<close>; then the two passwords are compared.
\<close>

definition reg_validate :: "reg_data \<Rightarrow> error + reg_data" where
  "reg_validate d =
     (case d_email d of
        None \<Rightarrow> Inl (ServerError KeyMissing)
      | Some None \<Rightarrow> Inl (ServerError NoneAttribute)
      | Some (Some e) \<Rightarrow>
          (case (d_password d, d_confirm d) of
             (Some p, Some c) \<Rightarrow>
               if p \<noteq> c then Inl (ValidationError PasswordMismatch)
               else Inr (d\<lparr>d_email := Some (Some (py_lower e))\<rparr>)
           | _ \<Rightarrow> Inl (ServerError KeyMissing)))"

text \<open>
  \<open>UserRegistrationSerializer.create\<close>: \<open>confirm_password\<close> is popped and the
  rest passed to \<open>create_user\<close>. The last branch (a required field missing or
  \<open>None\<close>) cannot follow a successful validation.
\<close>

definition reg_create :: "(nat \<Rightarrow> nat) \<Rightarrow> string \<Rightarrow> reg_data \<Rightarrow> db \<Rightarrow> error + db \<times> user_id \<times> user" where
  "reg_create rnd sfx d s =
     (case (d_confirm d, d_username d, d_password d) of
        (None, _, _) \<Rightarrow> Inl (ServerError KeyMissing)
      | (Some _, Some (Some n), Some (Some p)) \<Rightarrow>
          create_user rnd sfx n (case d_email d of None \<Rightarrow> None | Some e \<Rightarrow> e) p (d_roles d) s
      | _ \<Rightarrow> Inl (ServerError UsernameNotSet))"

subsection \<open>The user representation\<close>

record user_view =
  v_id :: user_id
  v_email :: "string option"
  v_roles :: role
  v_full_name :: string

text \<open>
  \<open>UserSerializer\<close>: \<open>Meta.fields\<close> names \<open>full_name\<close>, which
  \<open>ModelSerializer\<close> reads from the model property \<open>User.full_name\<close>
  (first and last name joined by a space); the method \<open>get_full_name\<close>, which
  would strip the result, is not a \<open>SerializerMethodField\<close> and is never called.
\<close>

text \<open>The property \<open>User.full_name\<close>.\<close>

definition full_name :: "user \<Rightarrow> string" where
  "full_name u = first_name u @ '' '' @ last_name u"

definition user_data :: "user_id \<Rightarrow> user \<Rightarrow> user_view" where
  "user_data uid u =
     \<lparr>v_id = uid, v_email = email u, v_roles = user_roles u, v_full_name = full_name u\<rparr>"

definition get_full_name :: "user \<Rightarrow> string" where
  "get_full_name u = py_strip (full_name u)"

text \<open>
  \<open>UserRegistrationView.post\<close>: \<open>is_valid()\<close> (field validation, then
  \<open>validate\<close>; a \<open>ValidationError\<close> is the 400 response, any other exception
  propagates), \<open>save()\<close>, and the 201 response with the user's representation.
\<close>

definition register ::
  "(string \<Rightarrow> bool) \<Rightarrow> (nat \<Rightarrow> nat) \<Rightarrow> string \<Rightarrow> reg_input \<Rightarrow> db \<Rightarrow> error + db \<times> user_view" where
  "register ev rnd sfx inp s =
     (case reg_fields ev s inp of
        Inl err \<Rightarrow> Inl err
      | Inr d \<Rightarrow>
     (case reg_validate d of
        Inl err \<Rightarrow> Inl err
      | Inr d' \<Rightarrow>
     (case reg_create rnd sfx d' s of
        Inl err \<Rightarrow> Inl err
      | Inr (s', uid, u) \<Rightarrow> Inr (s', user_data uid u))))"

subsection \<open>Login and profile\<close>

text \<open>
  \<open>UserLoginSerializer.validate\<close>: both fields required and stripped, the e-mail
  through \<open>EmailValidator\<close>; the lower-cased address selects
  \<open>User.objects.filter(email=email).first()\<close>, the row of least key; no row or a
  wrong password is the same \<open>ValidationError\<close>. \<open>check_password\<close> of
  \<open>None\<close> is false.
\<close>

definition login_validate ::
  "(string \<Rightarrow> bool) \<Rightarrow> field_in \<Rightarrow> field_in \<Rightarrow> db \<Rightarrow> error + user_id \<times> user" where
  "login_validate ev em pw s =
     (case char_field True False False None
             (\<lambda>v. if ev v then None else Some (ValidationError InvalidEmail)) em of
        Inl err \<Rightarrow> Inl err
      | Inr e \<Rightarrow>
     (case char_field True False False None (\<lambda>v. None) pw of
        Inl err \<Rightarrow> Inl err
      | Inr p \<Rightarrow>
     (case e of
        None \<Rightarrow> Inl (ServerError KeyMissing)
      | Some None \<Rightarrow> Inl (ServerError NoneAttribute)
      | Some (Some x) \<Rightarrow>
          (case first_by_pk (\<lambda>u. email u = Some (py_lower x)) (users s) of
             None \<Rightarrow> Inl (ValidationError BadCredentials)
           | Some (uid, u) \<Rightarrow>
               (case p of
                  None \<Rightarrow> Inl (ServerError KeyMissing)
                | Some q \<Rightarrow>
                    if q = Some (password u) then Inr (uid, u)
                    else Inl (ValidationError BadCredentials))))))"

text \<open>
  The JWT tokens of \<open>rest_framework_simplejwt\<close>, a library the sources call: a token
  carries its type, the user's key (\<open>USER_ID_CLAIM\<close>) and its expiry in seconds.
  Signing and encoding are the parameter \<open>enc\<close>, decoding with the check of the
  signature the parameter \<open>dec\<close>. \<open>RefreshToken.for_user\<close> issues a refresh
  token that expires after \<open>REFRESH_TOKEN_LIFETIME\<close> (the default, one day);
  \<open>refresh.access_token\<close> copies its claims into an access token that expires after
  \<open>ACCESS_TOKEN_LIFETIME\<close> (five minutes) counted from the current time. The
  repository has no settings module, so the defaults hold.
\<close>

datatype token_type = AccessTok | RefreshTok

record jwt =
  tk_type :: token_type
  tk_user :: user_id
  tk_exp :: nat

definition for_user :: "nat \<Rightarrow> user_id \<Rightarrow> jwt" where
  "for_user now uid = \<lparr>tk_type = RefreshTok, tk_user = uid, tk_exp = now + 86400\<rparr>"

definition access_of :: "nat \<Rightarrow> jwt \<Rightarrow> jwt" where
  "access_of now r = r\<lparr>tk_type := AccessTok, tk_exp := now + 300\<rparr>"

text \<open>
  \<open>User.token\<close>, whose code \<open>UserLoginView.post\<close> repeats: the encoded access and
  refresh tokens of a new refresh token for the user.
\<close>

definition issue_tokens :: "(jwt \<Rightarrow> string) \<Rightarrow> nat \<Rightarrow> user_id \<Rightarrow> string \<times> string" where
  "issue_tokens enc now uid = (let r = for_user now uid in (enc (access_of now r), enc r))"

text \<open>
  \<open>UserLoginView.post\<close>: \<open>is_valid(raise_exception=True)\<close>, then the user's
  representation with the tokens of \<open>RefreshToken.for_user\<close>.
\<close>

definition login ::
  "(string \<Rightarrow> bool) \<Rightarrow> (jwt \<Rightarrow> string) \<Rightarrow> nat \<Rightarrow> field_in \<Rightarrow> field_in \<Rightarrow> db \<Rightarrow>
   error + user_view \<times> string \<times> string" where
  "login ev enc now em pw s =
     (case login_validate ev em pw s of
        Inl err \<Rightarrow> Inl err
      | Inr (uid, u) \<Rightarrow> Inr (user_data uid u, issue_tokens enc now uid))"

text \<open>
  \<open>TokenRefreshSerializer.validate\<close> with \<open>TokenRefreshView.post\<close> (no permission
  class: DRF's default \<open>AllowAny\<close>): the \<open>refresh\<close> field is a required,
  stripped \<open>CharField\<close>; \<open>RefreshToken(data['refresh'])\<close> decodes the string and
  verifies that it is a refresh token that has not expired (\<open>exp\<close> later than the
  current time); every exception in the \<open>try\<close> becomes the same
  \<open>ValidationError\<close>; the response is the encoded new access token.
\<close>

definition token_refresh ::
  "(string \<Rightarrow> jwt option) \<Rightarrow> (jwt \<Rightarrow> string) \<Rightarrow> nat \<Rightarrow> field_in \<Rightarrow> error + string" where
  "token_refresh dec enc now x =
     (case char_field True False False None (\<lambda>v. None) x of
        Inl err \<Rightarrow> Inl err
      | Inr (Some (Some t)) \<Rightarrow>
          (case dec t of
             None \<Rightarrow> Inl (ValidationError InvalidToken)
           | Some r \<Rightarrow>
               if tk_type r = RefreshTok \<and> now < tk_exp r then Inr (enc (access_of now r))
               else Inl (ValidationError InvalidToken))
      | Inr _ \<Rightarrow> Inl (ValidationError InvalidToken))"

text \<open>\<open>UserProfileView.get\<close>: \<open>IsAuthenticated\<close>, then the caller's representation.\<close>

definition profile :: "(user_id \<times> user) option \<Rightarrow> error + user_view" where
  "profile caller = (case caller of None \<Rightarrow> Inl NotAuthenticated | Some (uid, u) \<Rightarrow> Inr (user_data uid u))"

text \<open>
  \<open>users/urls.py\<close>: the four endpoints of the users component, with the response
  each view returns. Only registration writes.
\<close>

datatype user_request =
    Register reg_input
  | Login field_in field_in
  | TokenRefresh field_in
  | Me "(user_id \<times> user) option"

datatype user_response =
    RegisterResp user_view
  | LoginResp user_view string string
  | RefreshResp string
  | ProfileResp user_view

fun handle_user ::
  "(string \<Rightarrow> bool) \<Rightarrow> (nat \<Rightarrow> nat) \<Rightarrow> string \<Rightarrow> (string \<Rightarrow> jwt option) \<Rightarrow> (jwt \<Rightarrow> string) \<Rightarrow> nat \<Rightarrow>
   user_request \<Rightarrow> db \<Rightarrow> error + db \<times> user_response" where
  "handle_user ev rnd sfx dec enc now (Register inp) s =
     (case register ev rnd sfx inp s of Inl e \<Rightarrow> Inl e | Inr (s', v) \<Rightarrow> Inr (s', RegisterResp v))"
| "handle_user ev rnd sfx dec enc now (Login em pw) s =
     (case login ev enc now em pw s of Inl e \<Rightarrow> Inl e | Inr (v, a, r) \<Rightarrow> Inr (s, LoginResp v a r))"
| "handle_user ev rnd sfx dec enc now (TokenRefresh x) s =
     (case token_refresh dec enc now x of Inl e \<Rightarrow> Inl e | Inr a \<Rightarrow> Inr (s, RefreshResp a))"
| "handle_user ev rnd sfx dec enc now (Me caller) s =
     (case profile caller of Inl e \<Rightarrow> Inl e | Inr v \<Rightarrow> Inr (s, ProfileResp v))"

subsection \<open>The invariant of the user table\<close>

text \<open>
  Every row has a fresh key, a non-empty username and a lower-case e-mail, and no two
  rows collide on a unique column. \<open>User.save\<close> is the only writer of the table.
\<close>

definition users_inv :: "db \<Rightarrow> bool" where
  "users_inv s \<longleftrightarrow> fresh_keys (users s) (user_seq s) \<and>
     (\<forall>(k, u) \<in> set (users s). username u \<noteq> [] \<and> pred_option (\<lambda>e. py_lower e = e) (email u)) \<and>
     (\<forall>(k, u) \<in> set (users s). \<forall>(k', v) \<in> set (users s). k \<noteq> k' \<longrightarrow> \<not> user_conflict u v)"

text \<open>
  Sample data for the witnesses: an e-mail validator that asks for an \<open>@\<close>, a
  registration body, and the database and representation it produces.
\<close>

definition email_at :: "string \<Rightarrow> bool" where
  "email_at e \<longleftrightarrow> CHR ''@'' \<in> set e"

definition ali_input :: reg_input where
  "ali_input = \<lparr>in_email = Given ''Ali@Shop.uz'', in_password = Given ''s3cret'',
     in_confirm = Given ''s3cret'', in_roles = Absent, in_username = Given ''ali''\<rparr>"

definition ali_db :: db where
  "ali_db = empty_db\<lparr>users := [(0, \<lparr>username = ''ali'', first_name = [], last_name = [],
       email = Some ''ali@shop.uz'', phone_number = None, user_company = None,
       user_roles = SELLER, password = ''s3cret''\<rparr>)], user_seq := 1\<rparr>"

definition ali_view :: user_view where
  "ali_view = \<lparr>v_id = 0, v_email = Some ''ali@shop.uz'', v_roles = SELLER, v_full_name = '' ''\<rparr>"

lemmas users_eval_simps = register_def reg_fields_def char_field_def py_strip_def py_space_def
  email_check_def email_at_def email_taken_def username_check_def username_taken_def
  username_valid_def word_char_def role_field_def reg_validate_def reg_create_def create_user_def
  empty_db_def user_save_def user_clean_def check_email_def check_username_def normalize_email_def
  py_lower_def lower_char_def write_user_def user_data_def full_name_def login_def login_validate_def
  first_by_pk_def users_inv_def fresh_keys_def user_conflict_def ali_input_def ali_db_def
  ali_view_def Let_def char_of_def bit_0

subsection \<open>Strings\<close>

lemma of_char_lower_char:
  "(of_char (lower_char c) :: nat) =
     (let n = of_char c in if 65 \<le> n \<and> n \<le> 90 \<or> 192 \<le> n \<and> n \<le> 222 \<and> n \<noteq> 215 then n + 32 else n)"
  by (simp add: lower_char_def Let_def)

lemma lower_char_idem [simp]: "lower_char (lower_char c) = lower_char c"
  unfolding lower_char_def Let_def by simp

lemma py_lower_idem [simp]: "py_lower (py_lower s) = py_lower s"
  by (simp add: py_lower_def comp_def)

lemma py_space_lower_char [simp]: "py_space (lower_char c) = py_space c"
  unfolding py_space_def of_char_lower_char Let_def by auto

lemma dropWhile_py_space_lower:
  "dropWhile py_space (py_lower s) = py_lower (dropWhile py_space s)"
  by (induction s) (simp_all add: py_lower_def)

lemma py_lower_rev: "py_lower (rev s) = rev (py_lower s)"
  by (simp add: py_lower_def rev_map)

lemma py_strip_lower: "py_strip (py_lower s) = py_lower (py_strip s)"
  by (simp only: py_strip_def dropWhile_py_space_lower py_lower_rev [symmetric])

lemma dropWhile_rev_no_lead:
  assumes "dropWhile P y = y"
  shows "dropWhile P (rev (dropWhile P (rev y))) = rev (dropWhile P (rev y))"
proof (cases "dropWhile P (rev y) = []")
  case True
  show ?thesis unfolding True by simp
next
  case False
  have "rev y = takeWhile P (rev y) @ dropWhile P (rev y)"
    by simp
  then have y: "y = rev (dropWhile P (rev y)) @ rev (takeWhile P (rev y))"
    by (metis rev_append rev_rev_ident)
  from False have ne: "rev (dropWhile P (rev y)) \<noteq> []" by simp
  with y have "y \<noteq> []" by auto
  with assms have "\<not> P (hd y)"
    by (metis dropWhile_eq_self_iff)
  moreover from ne y have "hd y = hd (rev (dropWhile P (rev y)))"
    by (metis hd_append2)
  ultimately show ?thesis
    using ne by (simp add: dropWhile_eq_self_iff)
qed

lemma py_strip_idem [simp]: "py_strip (py_strip s) = py_strip s"
proof -
  let ?y = "dropWhile py_space s"
  have "dropWhile py_space ?y = ?y"
    by (simp add: dropWhile_idem)
  then have "dropWhile py_space (py_strip s) = py_strip s"
    unfolding py_strip_def by (rule dropWhile_rev_no_lead)
  then show ?thesis
    by (simp add: py_strip_def dropWhile_idem)
qed

lemma split_last_at:
  assumes "a \<in> set t"
  shows "rev (tl (dropWhile (\<lambda>c. c \<noteq> a) (rev t))) @ [a] @ rev (takeWhile (\<lambda>c. c \<noteq> a) (rev t)) = t"
proof -
  let ?D = "dropWhile (\<lambda>c. c \<noteq> a) (rev t)" and ?T = "takeWhile (\<lambda>c. c \<noteq> a) (rev t)"
  from assms have ne: "?D \<noteq> []"
    by (simp add: dropWhile_eq_Nil_conv)
  then have "hd ?D = a"
    using hd_dropWhile [OF ne] by simp
  with ne have d: "?D = a # tl ?D"
    by (metis list.collapse)
  have "rev t = ?T @ ?D"
    by simp
  also have "\<dots> = ?T @ a # tl ?D"
    using d by (rule arg_cong)
  finally have "rev (rev t) = rev (?T @ a # tl ?D)"
    by (rule arg_cong)
  then show ?thesis
    by simp
qed

subsection \<open>The \<open>check_username\<close> loop\<close>

lemma username_loop_taken [simp]:
  "t \<in> set names \<Longrightarrow>
     username_loop names rnd k t = username_loop names rnd (Suc k) (t @ [digit_char (rnd k)])"
  by (simp add: username_loop.simps)

lemma username_loop_free [simp]: "t \<notin> set names \<Longrightarrow> username_loop names rnd k t = t"
  by (simp add: username_loop.simps)

lemma username_loop_fresh: "username_loop names rnd k t \<notin> set names"
  by (induction names rnd k t rule: username_loop.induct) (metis username_loop_free username_loop_taken)

lemma username_loop_while:
  "\<exists>k'. while_option (\<lambda>(k, t). t \<in> set names) (\<lambda>(k, t). (Suc k, t @ [digit_char (rnd k)])) (k, t) =
         Some (k', username_loop names rnd k t)"
proof (induction names rnd k t rule: username_loop.induct)
  case (1 names rnd k t)
  show ?case
  proof (cases "t \<in> set names")
    case True
    with 1 show ?thesis
      by (subst while_option_unfold) simp
  next
    case False
    then show ?thesis
      by (subst while_option_unfold) simp
  qed
qed

lemma username_loop_prefix: "prefix t (username_loop names rnd k t)"
proof (induction names rnd k t rule: username_loop.induct)
  case (1 names rnd k t)
  then show ?case
    by (cases "t \<in> set names") (auto dest: append_prefixD)
qed

lemma username_loop_length:
  "length (username_loop names rnd k t) \<le> max (length t) (Suc (longest_name names))"
proof (induction names rnd k t rule: username_loop.induct)
  case (1 names rnd k t)
  show ?case
  proof (cases "t \<in> set names")
    case True
    then have "length t \<le> longest_name names"
      by (simp add: longest_name_def)
    with True 1 show ?thesis by simp
  next
    case False
    then show ?thesis by simp
  qed
qed

subsection \<open>\<open>User.save\<close> and registration\<close>



lemma py_lower_fixed_iff: "py_lower x = x \<longleftrightarrow> (\<forall>c \<in> set x. lower_char c = c)"
  unfolding py_lower_def by (metis map_idI map_ident map_eq_conv)

lemma normalize_email_fixed:
  assumes strip: "py_strip x = x" and low: "py_lower x = x"
  shows "normalize_email (Some x) = x"
proof (cases "CHR ''@'' \<in> set x")
  case True
  let ?T = "takeWhile (\<lambda>c. c \<noteq> CHR ''@'') (rev x)"
  have "set (rev ?T) \<subseteq> set x"
    by (auto dest: set_takeWhileD)
  with low have "py_lower (rev ?T) = rev ?T"
    by (auto simp: py_lower_fixed_iff)
  with True strip show ?thesis
    using split_last_at [OF True] by (simp add: normalize_email_def Let_def)
next
  case False
  with strip show ?thesis
    by (simp add: normalize_email_def Let_def)
qed

lemma registered_email:
  "normalize_email (Some (py_lower (py_strip e))) = py_lower (py_strip e)"
  by (rule normalize_email_fixed) (simp_all add: py_strip_lower)



lemma user_conflict_sym: "user_conflict u v \<longleftrightarrow> user_conflict v u"
  unfolding user_conflict_def by (metis (mono_tags))

lemma check_username_username_ne: "username (check_username names rnd sfx u) \<noteq> []"
proof (cases "username u = []")
  case True
  have "prefix (''instagram-'' @ sfx) (username_loop names rnd 0 (''instagram-'' @ sfx))"
    by (rule username_loop_prefix)
  then have "username_loop names rnd 0 (''instagram-'' @ sfx) \<noteq> []"
    by (metis Nil_is_append_conv list.distinct(1) prefix_Nil)
  with True show ?thesis
    by (simp add: check_username_def)
qed (simp add: check_username_def)

lemma check_username_fields [simp]:
  "email (check_username names rnd sfx u) = email u"
  "password (check_username names rnd sfx u) = password u"
  "phone_number (check_username names rnd sfx u) = phone_number u"
  "user_company (check_username names rnd sfx u) = user_company u"
  "user_roles (check_username names rnd sfx u) = user_roles u"
  by (simp_all add: check_username_def)

lemma check_email_fields [simp]:
  "username (check_email u) = username u"
  "password (check_email u) = password u"
  "phone_number (check_email u) = phone_number u"
  "user_company (check_email u) = user_company u"
  "user_roles (check_email u) = user_roles u"
  by (simp_all add: check_email_def split: option.splits)

lemma check_email_lower: "pred_option (\<lambda>e. py_lower e = e) (email (check_email u))"
  by (cases "email u") (auto simp: check_email_def py_lower_def)

lemma user_clean_wf:
  "username (user_clean names rnd sfx u) \<noteq> []"
  "pred_option (\<lambda>e. py_lower e = e) (email (user_clean names rnd sfx u))"
  by (simp_all add: user_clean_def check_username_username_ne check_email_lower)

lemma user_save_Inr:
  "user_save rnd sfx uid u s = Inr (s', u') \<longleftrightarrow>
     u' = user_clean (map (username \<circ> snd) (users s)) rnd sfx u \<and>
     (\<forall>(k, v) \<in> set (users s). k \<noteq> uid \<longrightarrow> \<not> user_conflict u' v) \<and>
     s' = write_user uid u' s"
  by (auto simp: user_save_def Let_def list_ex_iff)

lemma write_user_inv:
  assumes inv: "users_inv s" and uid: "uid < user_seq s"
    and u: "username u \<noteq> []" "pred_option (\<lambda>e. py_lower e = e) (email u)"
    and nc: "\<forall>(k, v) \<in> set (users s). k \<noteq> uid \<longrightarrow> \<not> user_conflict u v"
  shows "users_inv (write_user uid u s)"
proof -
  let ?s' = "write_user uid u s"
  from inv have fk: "fresh_keys (users s) (user_seq s)"
    by (simp add: users_inv_def)
  then have d: "distinct (map fst (users s))" ..
  have set': "set (users ?s') = insert (uid, u) {p \<in> set (users s). fst p \<noteq> uid}"
    by (simp add: write_user_def set_update_distinct [OF d])
  have "fresh_keys (users ?s') (user_seq ?s')"
    using fk uid by (simp add: write_user_def fresh_keys_update_less)
  moreover have "\<forall>(k, v) \<in> set (users ?s'). username v \<noteq> [] \<and> pred_option (\<lambda>e. py_lower e = e) (email v)"
    using inv u by (auto simp: set' users_inv_def)
  moreover have "\<forall>(k, x) \<in> set (users ?s'). \<forall>(k', y) \<in> set (users ?s'). k \<noteq> k' \<longrightarrow> \<not> user_conflict x y"
    using inv nc unfolding set' users_inv_def by (auto simp: user_conflict_sym)
  ultimately show ?thesis
    by (simp add: users_inv_def)
qed

lemma user_save_inv:
  assumes inv: "users_inv s" and uid: "uid < user_seq s"
    and save: "user_save rnd sfx uid u s = Inr (s', u')"
  shows "users_inv s'"
proof -
  from save have u': "username u' \<noteq> []" "pred_option (\<lambda>e. py_lower e = e) (email u')"
    and nc: "\<forall>(k, v) \<in> set (users s). k \<noteq> uid \<longrightarrow> \<not> user_conflict u' v"
    and s': "s' = write_user uid u' s"
    by (auto simp: user_save_Inr user_clean_wf)
  show ?thesis
    unfolding s' using inv uid u' nc by (rule write_user_inv)
qed

lemma users_inv_next_key: "users_inv s \<Longrightarrow> users_inv (s\<lparr>user_seq := Suc (user_seq s)\<rparr>)"
  by (auto simp: users_inv_def intro: fresh_keys_mono)

lemma char_field_Given:
  assumes "py_strip v \<noteq> []" and "case ml of None \<Rightarrow> True | Some m \<Rightarrow> length (py_strip v) \<le> m"
    and "CHR 0x00 \<notin> set (py_strip v)" and "chk (py_strip v) = None"
  shows "char_field req an ab ml chk (Given v) = Inr (Some (Some (py_strip v)))"
  using assms by (auto simp: char_field_def Let_def split: option.splits)

lemma char_field_Given_Inr:
  assumes "char_field req an ab ml chk (Given v) = Inr r" and "py_strip v \<noteq> []"
  shows "r = Some (Some (py_strip v)) \<and> CHR 0x00 \<notin> set (py_strip v) \<and> chk (py_strip v) = None \<and>
    (case ml of None \<Rightarrow> True | Some m \<Rightarrow> length (py_strip v) \<le> m)"
  using assms by (auto simp: char_field_def Let_def split: option.splits if_splits)

lemma char_field_required_Inr:
  "char_field True False False ml chk x = Inr r \<Longrightarrow> \<exists>v. x = Given v \<and> py_strip v \<noteq> [] \<and> r = Some (Some (py_strip v))"
  by (auto simp: char_field_def Let_def split: field_in.splits option.splits if_splits)

lemma register_Inr:
  "register ev rnd sfx inp s = Inr (s', v) \<longleftrightarrow>
     (\<exists>d d' uid u. reg_fields ev s inp = Inr d \<and> reg_validate d = Inr d' \<and>
        reg_create rnd sfx d' s = Inr (s', uid, u) \<and> v = user_data uid u)"
  by (auto simp: register_def split: sum.splits prod.splits)

lemma reg_validate_Inr:
  "reg_validate d = Inr d' \<longleftrightarrow>
     (\<exists>e p. d_email d = Some (Some e) \<and> d_password d = Some p \<and> d_confirm d = Some p \<and>
        d' = d\<lparr>d_email := Some (Some (py_lower e))\<rparr>)"
  by (auto simp: reg_validate_def split: option.splits prod.splits)

lemma reg_create_Inr:
  "reg_create rnd sfx d s = Inr r \<Longrightarrow>
     \<exists>c n p. d_confirm d = Some c \<and> d_username d = Some (Some n) \<and> d_password d = Some (Some p) \<and>
       create_user rnd sfx n (case d_email d of None \<Rightarrow> None | Some e \<Rightarrow> e) p (d_roles d) s = Inr r"
  by (auto simp: reg_create_def split: option.splits prod.splits)

lemma create_user_Inr:
  "create_user rnd sfx n e p r s = Inr (s', uid, u') \<longleftrightarrow>
     n \<noteq> [] \<and> uid = user_seq s \<and>
     user_save rnd sfx uid
       \<lparr>username = n, first_name = [], last_name = [], email = Some (normalize_email e),
        phone_number = None, user_company = None,
        user_roles = (case r of None \<Rightarrow> SELLER | Some x \<Rightarrow> x), password = p\<rparr>
       (s\<lparr>user_seq := Suc uid\<rparr>) = Inr (s', u')"
  by (auto simp: create_user_def Let_def split: sum.splits)

lemma create_user_inv:
  assumes "users_inv s" and "create_user rnd sfx n e p r s = Inr (s', uid, u')"
  shows "users_inv s'"
proof -
  from assms(1) have "users_inv (s\<lparr>user_seq := Suc (user_seq s)\<rparr>)"
    by (rule users_inv_next_key)
  with assms(2) show ?thesis
    by (auto simp: create_user_Inr intro: user_save_inv)
qed

lemma of_char_lower_char_nul: "(of_char (lower_char c) :: nat) = of_char (CHR 0x00) \<longleftrightarrow> (of_char c :: nat) = of_char (CHR 0x00)"
  by (simp add: of_char_lower_char Let_def)
lemma lower_char_nul: "lower_char c = CHR 0x00 \<longleftrightarrow> c = CHR 0x00"
  by (metis of_char_lower_char_nul of_char_eq_iff)
lemma nul_py_lower: "CHR 0x00 \<in> set (py_lower x) \<longleftrightarrow> CHR 0x00 \<in> set x"
  unfolding py_lower_def set_map image_iff by (metis lower_char_nul)

lemma reg_fields_Inr:
  "reg_fields ev s inp = Inr d \<Longrightarrow>
     char_field False True True (Some 254) (email_check ev s) (in_email inp) = Inr (d_email d) \<and>
     char_field True False False None (\<lambda>v. None) (in_password inp) = Inr (d_password d) \<and>
     char_field True False False None (\<lambda>v. None) (in_confirm inp) = Inr (d_confirm d) \<and>
     role_field (in_roles inp) = Inr (d_roles d) \<and>
     char_field True False False (Some 150) (username_check s) (in_username inp) = Inr (d_username d)"
  unfolding reg_fields_def by (auto split: sum.split_asm)


lemma users_inv_email_unique:
  assumes inv: "users_inv s" and u: "map_of (users s) uid = Some u" and e: "email u = Some x"
  shows "first_by_pk (\<lambda>w. email w = Some x) (users s) = Some (uid, u)"
proof (rule first_by_pk_unique)
  from inv show d: "distinct (map fst (users s))"
    by (auto simp: users_inv_def)
  show "map_of (users s) uid = Some u" by (rule u)
  show "email u = Some x" by (rule e)
  have uin: "(uid, u) \<in> set (users s)"
    using u by (rule map_of_SomeD)
  show "\<forall>(k', v') \<in> set (users s). email v' = Some x \<longrightarrow> k' = uid"
  proof clarify
    fix k' v' assume kv: "(k', v') \<in> set (users s)" and ev: "email v' = Some x"
    show "k' = uid"
    proof (rule ccontr)
      assume "k' \<noteq> uid"
      with inv uin kv have "\<not> user_conflict u v'"
        by (fastforce simp: users_inv_def)
      with e ev show False
        by (simp add: user_conflict_def)
    qed
  qed
qed


subsection \<open>Properties of the users component\<close>

text \<open>
  C31. The \<open>while\<close> loop of \<open>check_username\<close> terminates on every table of names
  and every sequence of random digits, and returns the candidate \<open>username_loop\<close>
  computes.
\<close>

theorem username_while_returns:
  "map_option snd (username_while names rnd t) = Some (username_loop names rnd 0 t)"
proof -
  obtain k' where "username_while names rnd t = Some (k', username_loop names rnd 0 t)"
    using username_loop_while [of names rnd 0 t] by (auto simp: username_while_def)
  then show ?thesis by simp
qed

text \<open>
  C32. A user saved without a username gets one that no stored user has, that starts
  with \<open>instagram-\<close> and the \<open>uuid4\<close> suffix, and that fits the 150 characters of
  \<open>AbstractUser.username\<close> when the suffix is the 12 hexadecimal digits of a
  \<open>uuid4\<close> group and every stored username is shorter than 150: the loop appends at
  most one digit past the longest stored name.
\<close>

theorem check_username_fresh:
  "username (check_username names rnd sfx (u\<lparr>username := []\<rparr>)) \<notin> set names \<and>
   prefix (''instagram-'' @ sfx) (username (check_username names rnd sfx (u\<lparr>username := []\<rparr>))) \<and>
   (length sfx = 12 \<longrightarrow> list_all (\<lambda>n. length n < 150) names \<longrightarrow>
      length (username (check_username names rnd sfx (u\<lparr>username := []\<rparr>))) \<le> 150)"
proof (intro conjI impI)
  show "username (check_username names rnd sfx (u\<lparr>username := []\<rparr>)) \<notin> set names"
    "prefix (''instagram-'' @ sfx) (username (check_username names rnd sfx (u\<lparr>username := []\<rparr>)))"
    by (simp_all add: check_username_def username_loop_fresh username_loop_prefix)
next
  assume "length sfx = 12" and "list_all (\<lambda>n. length n < 150) names"
  moreover from this(2) have "longest_name names < 150"
    by (simp add: longest_name_def list_all_iff)
  ultimately show "length (username (check_username names rnd sfx (u\<lparr>username := []\<rparr>))) \<le> 150"
    using username_loop_length [of names rnd 0 "''instagram-'' @ sfx"]
    by (simp add: check_username_def)
qed

text \<open>
  C33. Login and token refresh agree: the refresh token a login returns names the
  logged-in user; refreshing with it before it expires (one day after the login) returns
  an access token for that user valid for five minutes, and afterwards the refresh is
  refused with a validation error. The hypotheses are what the token library
  provides: decoding an encoded token gives it back, and an encoded token is a non-empty
  string without surrounding whitespace or NUL.
\<close>

theorem login_refresh:
  assumes lg: "login ev enc now em pw s = Inr (v, acc, rt)"
    and rd: "dec (enc (for_user now (v_id v))) = Some (for_user now (v_id v))"
    and ws: "py_strip (enc (for_user now (v_id v))) = enc (for_user now (v_id v))"
      "enc (for_user now (v_id v)) \<noteq> []" "CHR 0x00 \<notin> set (enc (for_user now (v_id v)))"
  shows "rt = enc (for_user now (v_id v)) \<and>
    (now' < now + 86400 \<longrightarrow>
       token_refresh dec enc now' (Given rt) =
         Inr (enc \<lparr>tk_type = AccessTok, tk_user = v_id v, tk_exp = now' + 300\<rparr>)) \<and>
    (now + 86400 \<le> now' \<longrightarrow> token_refresh dec enc now' (Given rt) = Inl (ValidationError InvalidToken))"
proof -
  from lg obtain uid u where "login_validate ev em pw s = Inr (uid, u)"
    and "v = user_data uid u" and t: "(acc, rt) = issue_tokens enc now uid"
    by (auto simp: login_def split: sum.splits)
  then have vid: "v_id v = uid" by (simp add: user_data_def)
  from t vid have rt: "rt = enc (for_user now (v_id v))"
    by (simp add: issue_tokens_def Let_def)
  have fld: "char_field True False False None (\<lambda>v. None) (Given rt) = Inr (Some (Some rt))"
    using char_field_Given [of rt None "\<lambda>v. None" True False False] ws rt by simp
  show ?thesis
    using rt fld rd by (simp add: token_refresh_def for_user_def access_of_def)
qed

text \<open>
  C34. Registration and login agree: after a successful registration with a non-blank
  e-mail, logging in with the same password and any spelling of the address that
  lower-cases to the same string returns the registered user and its representation.
\<close>

theorem register_login:
  assumes inv: "users_inv s" and reg: "register ev rnd sfx inp s = Inr (s', v)"
    and em: "in_email inp = Given e" and pw: "in_password inp = Given p"
    and ne: "py_strip e \<noteq> []"
    and e2: "py_lower (py_strip e2) = py_lower (py_strip e)" and ev2: "ev (py_strip e2)"
  shows "login ev enc now (Given e2) (Given p) s' = Inr (v, issue_tokens enc now (v_id v))"
proof -
  let ?x = "py_lower (py_strip e)"
  from reg obtain d d' uid u where f: "reg_fields ev s inp = Inr d" and val: "reg_validate d = Inr d'"
    and cr: "reg_create rnd sfx d' s = Inr (s', uid, u)" and v: "v = user_data uid u"
    by (auto simp: register_Inr)
  from reg_fields_Inr [OF f] em pw have
    fe: "char_field False True True (Some 254) (email_check ev s) (Given e) = Inr (d_email d)" and
    fp: "char_field True False False None (\<lambda>v. None) (Given p) = Inr (d_password d)"
    by simp_all
  from char_field_Given_Inr [OF fe ne] have de: "d_email d = Some (Some (py_strip e))"
    and nul_e: "CHR 0x00 \<notin> set (py_strip e)"
    by simp_all
  from char_field_required_Inr [OF fp] have pne: "py_strip p \<noteq> []" and dp: "d_password d = Some (Some (py_strip p))"
    by auto
  from char_field_Given_Inr [OF fp pne] have nul_p: "CHR 0x00 \<notin> set (py_strip p)"
    by simp
  from val de dp have d': "d' = d\<lparr>d_email := Some (Some ?x)\<rparr>"
    by (auto simp: reg_validate_Inr)
  from reg_create_Inr [OF cr] d' dp obtain n where
    cu: "create_user rnd sfx n (Some ?x) (py_strip p) (d_roles d) s = Inr (s', uid, u)"
    by auto
  then have save: "user_save rnd sfx uid
       \<lparr>username = n, first_name = [], last_name = [], email = Some ?x,
        phone_number = None, user_company = None,
        user_roles = (case d_roles d of None \<Rightarrow> SELLER | Some x \<Rightarrow> x), password = py_strip p\<rparr>
       (s\<lparr>user_seq := Suc uid\<rparr>) = Inr (s', u)"
    by (auto simp: create_user_Inr registered_email)
  then have uemail: "email u = Some ?x" and upw: "password u = py_strip p"
    and s': "s' = write_user uid u (s\<lparr>user_seq := Suc uid\<rparr>)"
    by (auto simp: user_save_Inr user_clean_def check_email_def)
  have inv': "users_inv s'"
    using inv cu by (rule create_user_inv)
  have "map_of (users s') uid = Some u"
    by (simp add: s' write_user_def)
  with inv' uemail e2 have first: "first_by_pk (\<lambda>w. email w = Some (py_lower (py_strip e2))) (users s') = Some (uid, u)"
    by (simp add: users_inv_email_unique)
  from ne e2 have ne2: "py_strip e2 \<noteq> []"
    by (auto simp: py_lower_def)
  from nul_e e2 have nul2: "CHR 0x00 \<notin> set (py_strip e2)"
    by (metis nul_py_lower)
  have "char_field True False False None (\<lambda>v. if ev v then None else Some (ValidationError InvalidEmail)) (Given e2) =
        Inr (Some (Some (py_strip e2)))"
    using ne2 nul2 ev2 by (simp add: char_field_Given)
  moreover have "char_field True False False None (\<lambda>v. None) (Given p) = Inr (Some (Some (py_strip p)))"
    using pne nul_p by (simp add: char_field_Given)
  ultimately have "login_validate ev (Given e2) (Given p) s' = Inr (uid, u)"
    using first upw by (simp add: login_validate_def)
  then show ?thesis
    by (simp add: login_def v user_data_def)
qed


lemma register_users_inv:
  assumes inv: "users_inv s" and reg: "register ev rnd sfx inp s = Inr (s', v)"
  shows "users_inv s'"
proof -
  from reg obtain n e p r uid u where "create_user rnd sfx n e p r s = Inr (s', uid, u)"
    by (auto simp: register_Inr dest!: reg_create_Inr)
  with inv show ?thesis by (rule create_user_inv)
qed

text \<open>
  C35. Every endpoint of the users component keeps the invariant of the user table:
  fresh keys, non-empty usernames, lower-case e-mails, and no two rows sharing a unique
  column. Registration is the only one that writes.
\<close>

theorem handle_user_preserves_users_inv:
  assumes "users_inv s" and "handle_user ev rnd sfx dec enc now r s = Inr (s', resp)"
  shows "users_inv s'"
  using assms by (cases r) (auto split: sum.splits prod.splits intro: register_users_inv)

text \<open>
  C36. A registration whose fields validate but whose two passwords differ after
  stripping is refused with the password-mismatch \<open>ValidationError\<close> (HTTP 400), and
  no user is created.
\<close>

theorem register_password_mismatch:
  assumes f: "reg_fields ev s inp = Inr d" and de: "d_email d = Some (Some e)"
    and p: "in_password inp = Given p" and c: "in_confirm inp = Given c"
    and neq: "py_strip p \<noteq> py_strip c"
  shows "register ev rnd sfx inp s = Inl (ValidationError PasswordMismatch)"
proof -
  from reg_fields_Inr [OF f] p c have
    "char_field True False False None (\<lambda>v. None) (Given p) = Inr (d_password d)"
    "char_field True False False None (\<lambda>v. None) (Given c) = Inr (d_confirm d)"
    by simp_all
  then have "d_password d = Some (Some (py_strip p))" "d_confirm d = Some (Some (py_strip c))"
    by (auto dest: char_field_required_Inr)
  with de neq have "reg_validate d = Inl (ValidationError PasswordMismatch)"
    by (simp add: reg_validate_def)
  with f show ?thesis
    by (simp add: register_def)
qed




subsection \<open>Further observations\<close>

text \<open>
  The e-mail is optional in \<open>UserRegistrationSerializer\<close> (the model field has
  \<open>null=True, blank=True\<close>), but \<open>validate\<close> reads \<open>data['email']\<close>: a body
  without it raises \<open>KeyError\<close> and one with \<open>null\<close> raises \<open>AttributeError\<close>,
  both HTTP 500.
\<close>

lemma register_email_required:
  "register ev rnd sfx (ali_input\<lparr>in_email := Absent\<rparr>) empty_db = Inl (ServerError KeyMissing) \<and>
   register ev rnd sfx (ali_input\<lparr>in_email := Null\<rparr>) empty_db = Inl (ServerError NoneAttribute)"
  by (simp add: users_eval_simps)

text \<open>
  The representation of a user without first and last name has the full name
  \<open>'' ''\<close>: \<open>UserSerializer\<close> reads the unstripped property, while its unused
  \<open>get_full_name\<close> would give the empty string.
\<close>

lemma registered_full_name:
  "(case map_of (users ali_db) 0 of
      None \<Rightarrow> False
    | Some u \<Rightarrow> profile (Some (0, u)) = Inr ali_view \<and> v_full_name ali_view = '' '' \<and> get_full_name u = [])"
  by (simp add: users_eval_simps profile_def get_full_name_def)

end
