(* ===== verification/Abstract_Ledger.thy ===== *)
theory Abstract_Ledger
  imports Requests "HOL-Library.Multiset"
begin

text \<open>
  The abstract ledger of spec sections 3 and 4: each debt is its client, its total, its
  due date and the multiset of the payments applied to it; the remaining amount, the
  paid status and a client's balance are derived from these. \<open>a_create_debt\<close> and
  \<open>a_apply_payment\<close> are the contracts \<open>createDebt\<close> and \<open>applyPayment\<close> of
  spec 4.1 and 4.2, failing (\<open>None\<close>) where the spec raises an error. The
  abstraction \<open>abs_ledger\<close> reads a database as an abstract ledger; the lemmas show
  that the stored \<open>remaining_amount\<close> and \<open>is_paid\<close> are the derived values, that
  \<open>create_debt\<close> and \<open>create_payment\<close> implement the two contracts, and that every
  open debt of a reachable database can be paid off.
\<close>

record adebt =
  a_client :: client_id
  a_total :: money
  a_due :: day
  a_paid :: "money multiset"

type_synonym aledger = "debt_id \<Rightarrow> adebt option"

definition a_remaining :: "adebt \<Rightarrow> money" where
  "a_remaining a = a_total a - sum_mset (a_paid a)"

text \<open>Spec 4.1: a debt of a non-negative total, due in the future or in 30 days.\<close>

definition a_create_debt ::
  "day \<Rightarrow> debt_id \<Rightarrow> client_id \<Rightarrow> money \<Rightarrow> day option \<Rightarrow> aledger \<Rightarrow> aledger option" where
  "a_create_debt today i c t dd A =
     (if t < 0 then None
      else if (case dd of None \<Rightarrow> False | Some x \<Rightarrow> x \<le> today) then None
      else Some (A(i \<mapsto> \<lparr>a_client = c, a_total = t,
                         a_due = (case dd of None \<Rightarrow> today + 30 | Some x \<Rightarrow> x), a_paid = {#}\<rparr>)))"

text \<open>Spec 4.2: a positive amount, at most what remains, is added to the debt's payments.\<close>

definition a_apply_payment :: "debt_id \<Rightarrow> money \<Rightarrow> aledger \<Rightarrow> aledger option" where
  "a_apply_payment i x A =
     (case A i of
        None \<Rightarrow> None
      | Some a \<Rightarrow>
          if 0 < x \<and> x \<le> a_remaining a then Some (A(i \<mapsto> a\<lparr>a_paid := add_mset x (a_paid a)\<rparr>))
          else None)"

text \<open>The abstraction: the amounts of the payments recorded on each debt.\<close>

definition paid_mset :: "db \<Rightarrow> debt_id \<Rightarrow> money multiset" where
  "paid_mset s i = mset (map (amount \<circ> snd) (filter ((\<lambda>p. debt p = i) \<circ> snd) (payments s)))"

definition adebt_of :: "db \<Rightarrow> debt_id \<Rightarrow> debt \<Rightarrow> adebt" where
  "adebt_of s i d =
     \<lparr>a_client = client d, a_total = total_amount d, a_due = due_date d, a_paid = paid_mset s i\<rparr>"

definition abs_ledger :: "db \<Rightarrow> aledger" where
  "abs_ledger s i = map_option (adebt_of s i) (map_of (debts s) i)"

subsection \<open>The abstraction under the writes\<close>

lemma paid_mset_writes [simp]:
  "paid_mset (write_client c cl s) = paid_mset s"
  "paid_mset (write_debt i d s) = paid_mset s"
  "paid_mset (s\<lparr>payment_seq := n\<rparr>) = paid_mset s"
  "paid_mset (s\<lparr>debt_seq := n\<rparr>) = paid_mset s"
  by (simp_all add: paid_mset_def fun_eq_iff)

lemma paid_mset_write_payment_new:
  "map_of (payments s) j = None \<Longrightarrow>
     paid_mset (write_payment j p s) i =
       (if debt p = i then add_mset (amount p) (paid_mset s i) else paid_mset s i)"
  by (simp add: paid_mset_def update_new)

lemma sum_paid_mset: "sum_mset (paid_mset s i) = debt_paid_total s i"
  unfolding paid_mset_def debt_paid_total_def sum_where_def by (rule sum_mset_sum_list)

lemma paid_mset_fresh:
  assumes "refs_inv s" and "map_of (debts s) i = None"
  shows "paid_mset s i = {#}"
proof -
  have "\<forall>(j, p) \<in> set (payments s). debt p \<noteq> i"
    using assms by (fastforce simp: refs_inv_def)
  then have "filter ((\<lambda>p. debt p = i) \<circ> snd) (payments s) = []"
    by (auto simp: filter_empty_conv)
  then show ?thesis
    by (simp add: paid_mset_def)
qed

lemma adebt_of_writes [simp]:
  "adebt_of (write_client c cl s) = adebt_of s"
  "adebt_of (write_debt i d s) = adebt_of s"
  "adebt_of (s\<lparr>payment_seq := n\<rparr>) = adebt_of s"
  "adebt_of (s\<lparr>debt_seq := n\<rparr>) = adebt_of s"
  by (simp_all add: adebt_of_def fun_eq_iff)

lemma abs_ledger_writes [simp]:
  "abs_ledger (write_client c cl s) = abs_ledger s"
  "abs_ledger (s\<lparr>payment_seq := n\<rparr>) = abs_ledger s"
  "abs_ledger (s\<lparr>debt_seq := n\<rparr>) = abs_ledger s"
  by (simp_all add: abs_ledger_def adebt_of_def fun_eq_iff)

lemma abs_ledger_write_debt:
  "abs_ledger (write_debt i d s) = (abs_ledger s)(i \<mapsto> adebt_of s i d)"
  by (simp add: abs_ledger_def adebt_of_def fun_eq_iff map_of_update_eq_Some)


lemma abs_ledger_write_payment_new:
  "map_of (payments s) j = None \<Longrightarrow>
     abs_ledger (write_payment j p s) =
       (\<lambda>k. map_option (\<lambda>a. if k = debt p then a\<lparr>a_paid := add_mset (amount p) (a_paid a)\<rparr> else a)
              (abs_ledger s k))"
proof (rule ext)
  fix k assume fresh: "map_of (payments s) j = None"
  show "abs_ledger (write_payment j p s) k =
    map_option (\<lambda>a. if k = debt p then a\<lparr>a_paid := add_mset (amount p) (a_paid a)\<rparr> else a)
      (abs_ledger s k)"
    by (cases "map_of (debts s) k")
       (simp_all add: abs_ledger_def adebt_of_def paid_mset_write_payment_new [OF fresh])
qed

lemma create_payment_ok:
  assumes "load_debt s di = Some (d, cl)" and "decimal_ok a" and "a \<le> remaining_amount d"
  shows "create_payment uid u di a s =
    Inr (write_client (client d) (cl\<lparr>balanse := balanse cl - a\<rparr>)
      (write_debt di (mark_paid (d\<lparr>remaining_amount := remaining_amount d - a\<rparr>))
        (write_payment (payment_seq s) \<lparr>debt = di, amount = a, user = uid\<rparr>
          (s\<lparr>payment_seq := Suc (payment_seq s)\<rparr>))), payment_seq s)"
  using assms by (simp add: create_payment_def payment_save_def debt_save_old Let_def)

lemma load_debt_inv:
  assumes "ledger_inv s" and "map_of (debts s) i = Some d"
  obtains cl where "load_debt s i = Some (d, cl)"
proof -
  from assms(1) have "keys_inv s" and "refs_inv s" by (simp_all add: ledger_inv_def)
  with assms(2) have "map_of (clients s) (client d) \<noteq> None"
    by (simp add: refs_inv_map)
  then obtain cl where "map_of (clients s) (client d) = Some cl"
    by auto
  with assms(2) have "load_debt s i = Some (d, cl)"
    by (simp add: load_debt_def)
  then show ?thesis ..
qed

text \<open>
  The representation: in a database satisfying the ledger invariant, the stored
  \<open>remaining_amount\<close> of a debt is the abstract remaining amount, and \<open>is_paid\<close>
  says that nothing remains.
\<close>

lemma abs_ledger_represents:
  assumes inv: "ledger_inv s" and d: "map_of (debts s) i = Some d"
  shows "abs_ledger s i = Some (adebt_of s i d)"
    and "a_remaining (adebt_of s i d) = remaining_amount d"
    and "is_paid d \<longleftrightarrow> a_remaining (adebt_of s i d) = 0"
proof -
  show "abs_ledger s i = Some (adebt_of s i d)"
    using d by (simp add: abs_ledger_def)
  from inv have k: "keys_inv s" by (simp add: ledger_inv_def)
  from inv d k have "debt_paid_total s i = total_amount d - remaining_amount d"
    by (simp add: ledger_inv_def payments_inv_map)
  then show rem: "a_remaining (adebt_of s i d) = remaining_amount d"
    by (simp add: a_remaining_def adebt_of_def sum_paid_mset)
  from inv d k have "is_paid d = (remaining_amount d = 0)"
    by (simp add: ledger_inv_def paid_flag_inv_map)
  with rem show "is_paid d \<longleftrightarrow> a_remaining (adebt_of s i d) = 0"
    by simp
qed


subsection \<open>Refinement\<close>

text \<open>
  C38. \<open>create_debt\<close> implements \<open>createDebt\<close> of spec 4.1 on the abstract ledger:
  for a client in the caller's company and an amount of at most ten digits, it fails
  exactly when the abstract operation does (a negative total, a due date not in the
  future), and otherwise its database abstracts to the ledger with a new debt under
  the fresh key \<open>debt_seq\<close>, with no payments.
\<close>

theorem create_debt_refines:
  assumes inv: "ledger_inv s" and sc: "scoped_client u s c \<noteq> None" and dig: "decimal_ok t"
  shows "(case create_debt today u c t dd s of Inl _ \<Rightarrow> None | Inr (s', i, d) \<Rightarrow> Some (abs_ledger s')) =
         a_create_debt today (debt_seq s) c t dd (abs_ledger s)"
proof -
  from sc obtain cl where cl: "scoped_client u s c = Some cl" by auto
  show ?thesis
  proof (cases "t < 0 \<or> (case dd of None \<Rightarrow> False | Some x \<Rightarrow> x \<le> today)")
    case True
    with cl dig show ?thesis
      by (auto simp: create_debt_def validate_debt_def a_create_debt_def split: option.splits)
  next
    case False
    let ?n = "debt_seq s"
    let ?due = "case dd of None \<Rightarrow> default_due_date today | Some x \<Rightarrow> x"
    let ?d = "\<lparr>client = c, total_amount = t, remaining_amount = t, due_date = ?due, is_paid = False\<rparr>"
    from inv have k: "keys_inv s" and r: "refs_inv s" by (simp_all add: ledger_inv_def)
    then have new: "map_of (debts s) ?n = None"
      by (simp add: keys_inv_def)
    with r have pm: "paid_mset s ?n = {#}"
      by (rule paid_mset_fresh)
    from False cl dig have "create_debt today u c t dd s = Inr (debt_save None
        \<lparr>client = c, total_amount = t, remaining_amount = 0, due_date = ?due, is_paid = False\<rparr> cl s)"
      by (auto simp: create_debt_def validate_debt_def split: option.splits)
    then have "(case create_debt today u c t dd s of Inl _ \<Rightarrow> None | Inr (s', i, d) \<Rightarrow> Some (abs_ledger s')) =
        Some ((abs_ledger s)(?n \<mapsto> adebt_of s ?n (mark_paid ?d)))"
      by (simp add: debt_save_new Let_def abs_ledger_write_debt)
    also have "adebt_of s ?n (mark_paid ?d) =
        \<lparr>a_client = c, a_total = t, a_due = (case dd of None \<Rightarrow> today + 30 | Some x \<Rightarrow> x), a_paid = {#}\<rparr>"
      by (simp add: adebt_of_def pm default_due_date_def split: option.splits)
    finally show ?thesis
      using False by (auto simp: a_create_debt_def fun_eq_iff)
  qed
qed

text \<open>
  C39. \<open>create_payment\<close> implements \<open>applyPayment\<close> of spec 4.2 on the abstract
  ledger: for a positive amount of at most ten digits, it fails exactly when the
  abstract operation does (no such debt, an amount above what remains), and otherwise
  its database abstracts to the ledger with the amount added to the debt's payments.
\<close>

theorem create_payment_refines:
  assumes inv: "ledger_inv s" and pos: "0 < a" and dig: "decimal_ok a"
  shows "(case create_payment uid u di a s of Inl _ \<Rightarrow> None | Inr (s', j) \<Rightarrow> Some (abs_ledger s')) =
         a_apply_payment di a (abs_ledger s)"
proof (cases "map_of (debts s) di")
  case None
  then show ?thesis
    by (simp add: create_payment_def load_debt_def a_apply_payment_def abs_ledger_def)
next
  case (Some d)
  from inv have k: "keys_inv s" by (simp add: ledger_inv_def)
  from inv Some obtain cl where ld: "load_debt s di = Some (d, cl)"
    by (rule load_debt_inv)
  have A: "abs_ledger s di = Some (adebt_of s di d)" and rem: "a_remaining (adebt_of s di d) = remaining_amount d"
    using abs_ledger_represents [OF inv Some] by simp_all
  show ?thesis
  proof (cases "a \<le> remaining_amount d")
    case True
    let ?j = "payment_seq s" and ?p = "\<lparr>debt = di, amount = a, user = uid\<rparr>"
    let ?d' = "mark_paid (d\<lparr>remaining_amount := remaining_amount d - a\<rparr>)"
    have fresh: "map_of (payments s) ?j = None"
      using k by (simp add: keys_inv_def)
    note create_payment_ok [OF ld dig True, of uid u]
    moreover have "abs_ledger (write_debt di ?d' (write_payment ?j ?p (s\<lparr>payment_seq := Suc ?j\<rparr>))) =
        (abs_ledger s)(di \<mapsto> (adebt_of s di d)\<lparr>a_paid := add_mset a (a_paid (adebt_of s di d))\<rparr>)"
      using fresh by (simp add: abs_ledger_write_debt abs_ledger_write_payment_new fun_eq_iff
          adebt_of_def paid_mset_write_payment_new option.map_ident)
    ultimately show ?thesis
      using A rem True pos by (simp add: a_apply_payment_def)
  next
    case False
    then have "create_payment uid u di a s = Inl (ServerError PaymentExceedsRemaining)"
      using ld dig by (simp add: create_payment_def payment_save_overdraw Let_def)
    then show ?thesis
      using A rem False by (simp add: a_apply_payment_def)
  qed
qed


subsection \<open>Progress of a debt\<close>

text \<open>
  C40. Spec 4.4: an open debt of a reachable database can always reach \<open>PAID\<close>. A
  payment of exactly its remaining amount is a request in scope that succeeds; the
  database it leaves is reachable, stores the debt as paid with nothing remaining, and
  abstracts to a ledger in which nothing remains of that debt.
\<close>

theorem open_debt_can_be_paid:
  assumes reach: "reachable s" and d: "map_of (debts s) i = Some d"
    and op: "0 < remaining_amount d" and dig: "decimal_ok (remaining_amount d)"
  shows "\<exists>s'. handle (CreatePayment uid u i (remaining_amount d)) s = Inr s' \<and> reachable s' \<and>
           (\<exists>d'. map_of (debts s') i = Some d' \<and> is_paid d' \<and> remaining_amount d' = 0 \<and>
                 abs_ledger s' i = Some (adebt_of s' i d') \<and> a_remaining (adebt_of s' i d') = 0)"
proof -
  let ?r = "CreatePayment uid u i (remaining_amount d)"
  have inv: "ledger_inv s"
    using reach by (rule reachable_ledger_inv)
  then obtain cl where ld: "load_debt s i = Some (d, cl)"
    using d by (rule load_debt_inv)
  let ?d' = "mark_paid (d\<lparr>remaining_amount := remaining_amount d - remaining_amount d\<rparr>)"
  let ?s' = "write_client (client d) (cl\<lparr>balanse := balanse cl - remaining_amount d\<rparr>)
      (write_debt i ?d' (write_payment (payment_seq s) \<lparr>debt = i, amount = remaining_amount d, user = uid\<rparr>
        (s\<lparr>payment_seq := Suc (payment_seq s)\<rparr>)))"
  have h: "handle ?r s = Inr ?s'"
    using create_payment_ok [OF ld dig order_refl, of uid u] by (simp add: state_of_def)
  have d': "map_of (debts ?s') i = Some ?d'"
    by simp
  have r': "reachable ?s'"
    using reach _ h by (rule reachable.step) (simp add: op)
  then have "ledger_inv ?s'"
    by (rule reachable_ledger_inv)
  note rep = abs_ledger_represents [OF this d']
  have "is_paid ?d' \<and> remaining_amount ?d' = 0"
    by simp
  with h r' d' rep(1,2) show ?thesis
    by (intro exI [of _ ?s'] conjI exI [of _ ?d']) simp_all
qed

end
