(* ===== verification/Migrations.thy ===== *)
theory Migrations
  imports Models
begin

text \<open>
  The database schema, for the one migration in the sources
  (\<open>payments/migrations/0001_initial.py\<close>) and for the models it should match. A column
  is a name and its field type; \<open>shared/models.py\<close> contributes the three columns of
  \<open>BaseModel\<close>. The lemmas compare the table the migration creates with the row
  \<open>Payment.save\<close> inserts.
\<close>

datatype column =
    UUIDKey
  | CreatedAt
  | UpdatedAt
  | DecimalCol nat nat
  | ForeignKeyCascade string

text \<open>\<open>BaseModel\<close>: a \<open>uuid4\<close> primary key and the two timestamps.\<close>

definition base_fields :: "(string \<times> column) list" where
  "base_fields = [(''id'', UUIDKey), (''created_at'', CreatedAt), (''updated_at'', UpdatedAt)]"

text \<open>\<open>Payment\<close> of \<open>payments/models.py\<close>: the base columns, then its own fields.\<close>

definition payment_fields :: "(string \<times> column) list" where
  "payment_fields = base_fields @
     [(''debt'', ForeignKeyCascade ''debts.debt''), (''amount'', DecimalCol 10 2),
      (''user'', ForeignKeyCascade ''users.user'')]"

text \<open>The \<open>CreateModel\<close> operation of \<open>0001_initial\<close>.\<close>

definition payments_0001 :: "(string \<times> column) list" where
  "payments_0001 =
     [(''id'', UUIDKey), (''created_at'', CreatedAt), (''updated_at'', UpdatedAt),
      (''amount'', DecimalCol 10 2), (''debt'', ForeignKeyCascade ''debts.debt'')]"

text \<open>The columns of a model that a table lacks or declares with another type.\<close>

definition missing_columns :: "(string \<times> column) list \<Rightarrow> (string \<times> column) list \<Rightarrow> string list" where
  "missing_columns model table = [n. (n, c) \<leftarrow> model, map_of table n \<noteq> Some c]"

text \<open>
  The migration agrees with the model on every column it creates, but it has no
  \<open>user\<close> column: the insert of \<open>Payment.save\<close>, which writes every field of the
  \<open>payment\<close> record (\<open>debt\<close>, \<open>amount\<close>, \<open>user\<close>), fails on a database built by this
  migration alone.
\<close>

lemma payments_0001_user_missing:
  "missing_columns payment_fields payments_0001 = [''user'']"
  by (simp add: missing_columns_def payment_fields_def base_fields_def payments_0001_def)

lemma payments_0001_agrees:
  "missing_columns payments_0001 payment_fields = []"
  by (simp add: missing_columns_def payment_fields_def base_fields_def payments_0001_def)

text \<open>
  The \<open>amount\<close> column is \<open>DecimalField(max_digits=10, decimal_places=2)\<close> in both,
  which is what \<open>decimal_ok\<close> checks on a value in cents.
\<close>

lemma payments_0001_amount: "map_of payments_0001 ''amount'' = Some (DecimalCol 10 2)"
  by (simp add: payments_0001_def)

end
