(* ===== verification/Amounts.thy ===== *)
theory Amounts
  imports Requests
begin

text \<open>
  The money columns as types. \<open>Debt.total_amount\<close>, \<open>Debt.remaining_amount\<close>
  (\<open>debts/models.py\<close>), \<open>Payment.amount\<close> (\<open>payments/models.py\<close>) and
  \<open>Client.balanse\<close> (\<open>clients/models.py\<close>) are all
  \<open>DecimalField(max_digits=10, decimal_places=2)\<close>: a stored value has at most ten
  digits, \<open>decimal_ok\<close> in cents. \<open>amounts_inv\<close> says the debt and payment columns
  hold such values, \<open>balance_fits\<close> the same of the balances. The serializers check the
  digits of every amount that comes in; no check bounds the sums that \<open>Debt.save\<close>
  and \<open>Payment.save\<close> compute, and Django's \<open>save()\<close> does not validate fields.
\<close>

definition amounts_inv :: "db \<Rightarrow> bool" where
  "amounts_inv s \<longleftrightarrow>
     (\<forall>(i, d) \<in> set (debts s). decimal_ok (total_amount d) \<and> decimal_ok (remaining_amount d)) \<and>
     (\<forall>(j, p) \<in> set (payments s). decimal_ok (amount p))"

definition balance_fits :: "db \<Rightarrow> bool" where
  "balance_fits s \<longleftrightarrow> (\<forall>(c, cl) \<in> set (clients s). decimal_ok (balanse cl))"

text \<open>
  The requests whose payment amount, given or kept, is not negative: a payment of a
  negative amount passes the check of \<open>Payment.save\<close> and raises the remaining amount.
\<close>

fun pays_nonneg :: "request \<Rightarrow> bool" where
  "pays_nonneg (CreatePayment uid u di a) = (0 \<le> a)"
| "pays_nonneg (UpdatePayment u j partial di a) = (case a of None \<Rightarrow> False | Some x \<Rightarrow> 0 \<le> x)"
| "pays_nonneg _ = True"

subsection \<open>One request at a time\<close>

lemma decimal_ok_sub:
  "decimal_ok r \<Longrightarrow> 0 \<le> a \<Longrightarrow> a \<le> r \<Longrightarrow> decimal_ok (r - a)"
  by (simp add: decimal_ok_def)

lemma amounts_inv_seq [simp]:
  "amounts_inv (s\<lparr>payment_seq := n\<rparr>) = amounts_inv s"
  "amounts_inv (s\<lparr>debt_seq := n\<rparr>) = amounts_inv s"
  "amounts_inv (s\<lparr>client_seq := n\<rparr>) = amounts_inv s"
  "amounts_inv (write_client c cl s) = amounts_inv s"
  by (simp_all add: amounts_inv_def)

lemma amounts_inv_debt:
  "amounts_inv s \<Longrightarrow> map_of (debts s) i = Some d \<Longrightarrow>
     decimal_ok (total_amount d) \<and> decimal_ok (remaining_amount d)"
  by (auto simp: amounts_inv_def dest: map_of_SomeD)

lemma amounts_inv_write_debt:
  "amounts_inv s \<Longrightarrow> decimal_ok (total_amount d) \<Longrightarrow> decimal_ok (remaining_amount d) \<Longrightarrow>
     amounts_inv (write_debt i d s)"
  unfolding amounts_inv_def by (fastforce dest: set_update_subset [THEN subsetD])

lemma amounts_inv_write_payment:
  "amounts_inv s \<Longrightarrow> decimal_ok (amount p) \<Longrightarrow> amounts_inv (write_payment j p s)"
  unfolding amounts_inv_def by (fastforce dest: set_update_subset [THEN subsetD])

lemma payment_save_amounts:
  assumes inv: "amounts_inv s" and d: "map_of (debts s) (debt p) = Some d"
    and a: "decimal_ok (amount p)" "0 \<le> amount p" and ok: "payment_save j p d cl s = Inr s'"
  shows "amounts_inv s'"
proof -
  from ok have le: "amount p \<le> remaining_amount d"
    and S: "s' = write_client (client d) (cl\<lparr>balanse := balanse cl - amount p\<rparr>)
            (write_debt (debt p) (mark_paid (d\<lparr>remaining_amount := remaining_amount d - amount p\<rparr>))
              (write_payment j p s))"
    by (simp_all add: payment_save_Inr)
  from inv d have "decimal_ok (total_amount d)" "decimal_ok (remaining_amount d)"
    by (simp_all add: amounts_inv_debt)
  with a le have "decimal_ok (remaining_amount d - amount p)" by (simp add: decimal_ok_sub)
  with inv a \<open>decimal_ok (total_amount d)\<close> show ?thesis
    by (simp add: S amounts_inv_write_debt amounts_inv_write_payment)
qed


lemma create_debt_amounts:
  assumes inv: "amounts_inv s" and ok: "create_debt today u c t dd s = Inr (s', r)"
  shows "amounts_inv s'"
proof -
  from ok obtain cl where t: "decimal_ok t" "0 \<le> t"
    and S: "(s', r) = debt_save None
              \<lparr>client = c, total_amount = t, remaining_amount = 0,
               due_date = (case dd of None \<Rightarrow> default_due_date today | Some x \<Rightarrow> x),
               is_paid = False\<rparr> cl s"
    by (auto simp: create_debt_Inr)
  then have "s' = fst (debt_save None
              \<lparr>client = c, total_amount = t, remaining_amount = 0,
               due_date = (case dd of None \<Rightarrow> default_due_date today | Some x \<Rightarrow> x),
               is_paid = False\<rparr> cl s)"
    by (metis fst_conv)
  with inv t show ?thesis by (simp add: debt_save_new Let_def amounts_inv_write_debt)
qed

lemma update_debt_amounts:
  assumes inv: "amounts_inv s" and ok: "update_debt today u i partial inp s = Inr (s', r)"
  shows "amounts_inv s'"
proof -
  from ok obtain d cl where sd: "scoped_debt u s i = Some (d, cl)"
    by (auto simp: update_debt_def split: option.splits)
  then have "map_of (debts s) i = Some d" by (auto simp: scoped_debt_Some load_debt_Some)
  with inv have d: "decimal_ok (total_amount d)" "decimal_ok (remaining_amount d)"
    by (simp_all add: amounts_inv_debt)
  from ok sd obtain d' where S: "s' = write_debt i (mark_paid d') s"
    and rem: "remaining_amount d' = remaining_amount d"
    and tot: "decimal_ok (total_amount d')"
    using d by (auto simp: update_debt_def debt_save_old Let_def split: if_splits sum.splits option.splits)
  with inv d show ?thesis by (simp add: amounts_inv_write_debt)
qed

lemma update_payment_amounts:
  assumes inv: "amounts_inv s" and x: "0 \<le> x" and ok: "update_payment u j partial di (Some x) s = Inr s'"
  shows "amounts_inv s'"
proof -
  from ok obtain p where sp: "scoped_payment u s j = Some p"
    by (auto simp: update_payment_def split: option.splits)
  let ?p = "p\<lparr>debt := (case di of None \<Rightarrow> debt p | Some k \<Rightarrow> k), amount := x\<rparr>"
  from ok sp have dx: "decimal_ok x"
    and r: "case load_debt s (debt ?p) of None \<Rightarrow> False | Some (d, cl) \<Rightarrow> payment_save j ?p d cl s = Inr s'"
    by (auto simp: update_payment_def Let_def split: if_splits option.splits)
  from r obtain d cl where ld: "load_debt s (debt ?p) = Some (d, cl)" and pay: "payment_save j ?p d cl s = Inr s'"
    by (auto split: option.splits)
  from ld have md: "map_of (debts s) (debt ?p) = Some d" by (simp only: load_debt_Some)
  show ?thesis by (rule payment_save_amounts [OF inv md _ _ pay]) (simp_all add: dx x)
qed

lemma in_scope_pays_nonneg: "in_scope r \<Longrightarrow> pays_nonneg r"
  by (cases r) simp_all

text \<open>
  C25. Type preservation for the money columns: every request that pays no negative
  amount, the endpoints outside the spec's scope included, keeps every debt's total and
  remaining amount and every payment's amount within \<open>DecimalField(10, 2)\<close>.
\<close>

theorem handle_preserves_amounts:
  assumes inv: "amounts_inv s" and nn: "pays_nonneg r" and ok: "handle r s = Inr s'"
  shows "amounts_inv s'"
proof (cases r)
  case (CreateClient u n ph b)
  with ok obtain c where "create_client u n ph b s = Inr (s', c)" by auto
  with inv show ?thesis by (auto simp: create_client_Inr)
next
  case (CreateDebt today u c t dd)
  with ok inv show ?thesis by (auto intro: create_debt_amounts)
next
  case (UpdateDebt today u i partial inp)
  with ok inv show ?thesis by (auto intro: update_debt_amounts)
next
  case (DeleteDebt u i)
  with ok inv show ?thesis
    by (auto simp: delete_debt_def amounts_inv_def AList.delete_eq split: option.splits)
next
  case (CreatePayment uid u di a)
  with ok obtain j where "create_payment uid u di a s = Inr (s', j)" by auto
  then obtain d cl where ld: "load_debt s di = Some (d, cl)" and j: "j = payment_seq s" and da: "decimal_ok a"
    and pay: "payment_save j \<lparr>debt = di, amount = a, user = uid\<rparr> d cl (s\<lparr>payment_seq := Suc j\<rparr>) = Inr s'"
    by (auto simp: create_payment_Inr)
  from ld have "map_of (debts (s\<lparr>payment_seq := Suc j\<rparr>)) (debt \<lparr>debt = di, amount = a, user = uid\<rparr>) = Some d"
    by (simp add: load_debt_Some)
  from payment_save_amounts [OF _ this _ _ pay] inv da nn CreatePayment show ?thesis by simp
next
  case (UpdatePayment u j partial di a)
  with nn obtain x where "a = Some x" "0 \<le> x" by (auto split: option.splits)
  with UpdatePayment ok inv show ?thesis by (auto intro: update_payment_amounts)
next
  case (DeletePayment u j)
  with ok inv show ?thesis
    by (auto simp: delete_payment_def amounts_inv_def AList.delete_eq split: option.splits)
qed

lemmas amounts_eval_simps = request_eval_simps amounts_inv_def balance_fits_def


end
