(* ===== verification/Responses.thy ===== *)
theory Responses
  imports Requests
begin

text \<open>
  The response bodies of the read views: the two that nest rows of other tables,
  \<open>ClientListDebtsView.get\<close> (\<open>clients/views.py\<close>), which returns the client with
  \<open>ClientSerializer\<close> and its debts with the \<open>DebtSerializer\<close> of
  \<open>clients/serializers.py\<close> (each debt with its client nested), and
  \<open>DebtDetailPaymentView\<close> (\<open>debts/views.py\<close>), which lists a debt's payments with
  the \<open>PaymentSerializer\<close> of \<open>debts/serializers.py\<close> (each payment with the
  total of its debt and the e-mail of its user); and the list and detail GETs of the
  debt and payment views with their plain serializers (\<open>debt_repr\<close>,
  \<open>payment_repr\<close>). A representation is a record with one
  field per serialized field; money stays in cents (DRF renders it as a string with two
  decimals) and the timestamps \<open>created_at\<close> and \<open>updated_at\<close> are left out. Reading
  a foreign key (\<open>debt.client\<close>, \<open>payment.debt\<close>, \<open>payment.user\<close>) is a query
  by key; a missing row would raise \<open>DoesNotExist\<close>, here \<open>ServerError KeyMissing\<close>.
\<close>

text \<open>\<open>ClientSerializer\<close>: \<open>fields = '__all__'\<close>, the company as its key.\<close>

record client_out =
  co_id :: client_id
  co_name :: string
  co_phone :: string
  co_balanse :: money
  co_company :: "company_id option"

definition client_repr :: "client_id \<Rightarrow> client \<Rightarrow> client_out" where
  "client_repr c cl = \<lparr>co_id = c, co_name = name cl, co_phone = phone cl, co_balanse = balanse cl,
                       co_company = client_company cl\<rparr>"

text \<open>
  The \<open>DebtSerializer\<close> of \<open>clients/serializers.py\<close>: all fields of \<open>Debt\<close>, the
  declared \<open>client = ClientSerializer()\<close> nested (its \<open>validate\<close> is never called:
  the serializer is only used for output).
\<close>

record nested_debt_out =
  nd_id :: debt_id
  nd_client :: client_out
  nd_total :: money
  nd_remaining :: money
  nd_due :: day
  nd_is_paid :: bool

definition nested_debt_repr :: "db \<Rightarrow> debt_id \<times> debt \<Rightarrow> nested_debt_out option" where
  "nested_debt_repr s r =
     (case r of (i, d) \<Rightarrow>
        (case map_of (clients s) (client d) of
           None \<Rightarrow> None
         | Some cl \<Rightarrow> Some \<lparr>nd_id = i, nd_client = client_repr (client d) cl, nd_total = total_amount d,
                           nd_remaining = remaining_amount d, nd_due = due_date d, nd_is_paid = is_paid d\<rparr>))"

text \<open>
  \<open>ClientListDebtsView.get\<close>: the checks of \<open>client_debts\<close> (404, 403), then
  \<open>{"client": ClientSerializer(client).data, "debts": DebtSerializer(debts, many=True).data}\<close>.
\<close>

definition client_debts_response ::
  "user \<Rightarrow> client_id \<Rightarrow> db \<Rightarrow> error + client_out \<times> nested_debt_out list" where
  "client_debts_response u c s =
     (case client_debts u c s of
        Inl e \<Rightarrow> Inl e
      | Inr (cl, ds) \<Rightarrow>
          (case those (map (nested_debt_repr s) ds) of
             None \<Rightarrow> Inl (ServerError KeyMissing)
           | Some rows \<Rightarrow> Inr (client_repr c cl, rows)))"

text \<open>
  The \<open>PaymentSerializer\<close> of \<open>debts/serializers.py\<close>: the read-only
  \<open>debt_total_amount\<close> (source \<open>debt.total_amount\<close>) and \<open>user_email\<close> (source
  \<open>user.email\<close>, \<open>null\<close> for a user without e-mail), then all fields of
  \<open>Payment\<close>. Its \<open>create\<close> is never called: the view only lists.
\<close>

record debt_payment_out =
  dp_id :: payment_id
  dp_debt_total :: money
  dp_user_email :: "string option"
  dp_amount :: money
  dp_debt :: debt_id
  dp_user :: user_id

definition debt_payment_repr :: "db \<Rightarrow> payment_id \<times> payment \<Rightarrow> debt_payment_out option" where
  "debt_payment_repr s r =
     (case r of (j, p) \<Rightarrow>
        (case map_of (debts s) (debt p) of
           None \<Rightarrow> None
         | Some d \<Rightarrow>
             (case map_of (users s) (user p) of
                None \<Rightarrow> None
              | Some us \<Rightarrow> Some \<lparr>dp_id = j, dp_debt_total = total_amount d, dp_user_email = email us,
                                 dp_amount = amount p, dp_debt = debt p, dp_user = user p\<rparr>)))"

text \<open>\<open>DebtDetailPaymentView\<close>: the queryset \<open>debt_payments\<close>, serialized row by row.\<close>

definition debt_payments_response :: "user \<Rightarrow> debt_id \<Rightarrow> db \<Rightarrow> error + debt_payment_out list" where
  "debt_payments_response u i s =
     (case those (map (debt_payment_repr s) (debt_payments u i s)) of
        None \<Rightarrow> Inl (ServerError KeyMissing)
      | Some rows \<Rightarrow> Inr rows)"

text \<open>Payments whose user row exists, as the foreign key of \<open>Payment.user\<close> ensures.\<close>

definition users_refs :: "db \<Rightarrow> bool" where
  "users_refs s \<longleftrightarrow> (\<forall>(j, p) \<in> set (payments s). map_of (users s) (user p) \<noteq> None)"

text \<open>
  The \<open>DebtSerializer\<close> of \<open>debts/serializers.py\<close>: all fields of \<open>Debt\<close>; the
  declared \<open>client\<close> field is a primary key, so \<open>depth = 1\<close> nests nothing.
\<close>

record debt_out =
  do_id :: debt_id
  do_client :: client_id
  do_total :: money
  do_remaining :: money
  do_due :: day
  do_is_paid :: bool

definition debt_repr :: "debt_id \<Rightarrow> debt \<Rightarrow> debt_out" where
  "debt_repr i d = \<lparr>do_id = i, do_client = client d, do_total = total_amount d,
                     do_remaining = remaining_amount d, do_due = due_date d, do_is_paid = is_paid d\<rparr>"

text \<open>\<open>DebtListCreateView.get\<close>: the queryset \<open>list_debts\<close>, serialized row by row.\<close>

definition list_debts_response :: "day \<Rightarrow> user \<Rightarrow> string option \<Rightarrow> db \<Rightarrow> debt_out list" where
  "list_debts_response today u flt s = map (\<lambda>(i, d). debt_repr i d) (list_debts today u flt s)"

text \<open>\<open>DebtDetailView.get\<close>: the object of the scoped queryset or 404.\<close>

definition retrieve_debt :: "user \<Rightarrow> debt_id \<Rightarrow> db \<Rightarrow> error + debt_out" where
  "retrieve_debt u i s = (case scoped_debt u s i of None \<Rightarrow> Inl NotFound | Some (d, _) \<Rightarrow> Inr (debt_repr i d))"

text \<open>\<open>payments/serializers.py\<close> \<open>PaymentSerializer\<close>: all fields of \<open>Payment\<close>.\<close>

record payment_out =
  po_id :: payment_id
  po_debt :: debt_id
  po_amount :: money
  po_user :: user_id

definition payment_repr :: "payment_id \<Rightarrow> payment \<Rightarrow> payment_out" where
  "payment_repr j p = \<lparr>po_id = j, po_debt = debt p, po_amount = amount p, po_user = user p\<rparr>"

text \<open>\<open>PaymentListCreateView.get\<close> and \<open>PaymentDetailView.get\<close>.\<close>

definition list_payments_response :: "user \<Rightarrow> db \<Rightarrow> payment_out list" where
  "list_payments_response u s = map (\<lambda>(j, p). payment_repr j p) (list_payments u s)"

definition retrieve_payment :: "user \<Rightarrow> payment_id \<Rightarrow> db \<Rightarrow> error + payment_out" where
  "retrieve_payment u j s = (case scoped_payment u s j of None \<Rightarrow> Inl NotFound | Some p \<Rightarrow> Inr (payment_repr j p))"

subsection \<open>The rows of the responses\<close>

lemma nested_debt_repr_Some:
  "map_of (clients s) (client d) = Some cl \<Longrightarrow>
     nested_debt_repr s (i, d) = Some \<lparr>nd_id = i, nd_client = client_repr (client d) cl,
       nd_total = total_amount d, nd_remaining = remaining_amount d, nd_due = due_date d,
       nd_is_paid = is_paid d\<rparr>"
  by (simp add: nested_debt_repr_def)

lemma client_debts_rows:
  assumes cl: "map_of (clients s) c = Some cl" and co: "client_company cl = user_company u"
  shows "client_debts_response u c s =
           Inr (client_repr c cl, map (the \<circ> nested_debt_repr s) (filter (\<lambda>(i, d). client d = c) (debts s)))"
proof -
  have "\<forall>x \<in> set (filter (\<lambda>(i, d). client d = c) (debts s)). nested_debt_repr s x \<noteq> None"
    using cl by (auto simp: nested_debt_repr_def)
  then show ?thesis
    using cl co by (simp add: client_debts_response_def client_debts_def those_map_Some)
qed

lemma debt_payments_rows:
  assumes md: "map_of (debts s) i = Some d" and co: "user_company u = Some co" "debt_company s d = Some co"
    and ur: "users_refs s"
  shows "debt_payments_response u i s =
           Inr (map (the \<circ> debt_payment_repr s) (filter (\<lambda>(j, p). debt p = i) (payments s)))"
proof -
  have "\<forall>x \<in> set (filter (\<lambda>(j, p). debt p = i) (payments s)). debt_payment_repr s x \<noteq> None"
    using md ur by (auto simp: debt_payment_repr_def users_refs_def)
  then show ?thesis
    using md co by (simp add: debt_payments_response_def debt_payments_def those_map_Some)
qed

lemma client_debts_rows_repr:
  assumes cl: "map_of (clients s) c = Some cl"
    and x: "x \<in> set (filter (\<lambda>(i, d). client d = c) (debts s))"
  shows "nd_client ((the \<circ> nested_debt_repr s) x) = client_repr c cl \<and>
         nd_remaining ((the \<circ> nested_debt_repr s) x) = (remaining_amount \<circ> snd) x \<and>
         nd_id ((the \<circ> nested_debt_repr s) x) = fst x"
  using assms by (cases x) (auto simp: nested_debt_repr_def)

text \<open>
  C16. What the client-debts view shows is consistent: for a client of the caller's
  company in a database satisfying the ledger invariant, the view answers with the
  client and exactly the client's debts, every debt with that same client nested, and
  the balance shown is the sum of the remaining amounts shown (spec 3).
\<close>

theorem client_debts_response_consistent:
  assumes inv: "ledger_inv s" and cl: "map_of (clients s) c = Some cl"
    and co: "client_company cl = user_company u"
  shows "\<exists>rows. client_debts_response u c s = Inr (client_repr c cl, rows) \<and>
           map nd_id rows = map fst (filter (\<lambda>(i, d). client d = c) (debts s)) \<and>
           (\<forall>r \<in> set rows. nd_client r = client_repr c cl) \<and>
           co_balanse (client_repr c cl) = sum_list (map nd_remaining rows)"
proof -
  let ?F = "filter (\<lambda>(i, d). client d = c) (debts s)"
  let ?rows = "map (the \<circ> nested_debt_repr s) ?F"
  have ids: "map nd_id ?rows = map fst ?F"
    using client_debts_rows_repr [OF cl] by simp
  have nest: "\<forall>r \<in> set ?rows. nd_client r = client_repr c cl"
    using client_debts_rows_repr [OF cl] by auto
  have "map nd_remaining ?rows = map (remaining_amount \<circ> snd) ?F"
    using client_debts_rows_repr [OF cl] by simp
  then have "sum_list (map nd_remaining ?rows) = sum_list (map (remaining_amount \<circ> snd) ?F)"
    by (rule arg_cong)
  also have "\<dots> = client_debt_total s c"
    by (simp only: client_debt_total_def sum_where_filter)
  also have "\<dots> = balanse cl"
    using ledger_inv_balance [OF inv cl] by simp
  finally have bal: "co_balanse (client_repr c cl) = sum_list (map nd_remaining ?rows)"
    by (simp add: client_repr_def)
  show ?thesis
    using client_debts_rows [OF cl co] ids nest bal by blast
qed

lemma debt_payments_rows_repr:
  assumes md: "map_of (debts s) i = Some d" and ur: "users_refs s"
    and x: "x \<in> set (filter (\<lambda>(j, p). debt p = i) (payments s))"
  shows "dp_debt ((the \<circ> debt_payment_repr s) x) = i \<and>
         dp_debt_total ((the \<circ> debt_payment_repr s) x) = total_amount d \<and>
         dp_amount ((the \<circ> debt_payment_repr s) x) = (amount \<circ> snd) x"
  using assms by (cases x) (auto simp: debt_payment_repr_def users_refs_def split: option.splits)

text \<open>
  C18. What the debt-payments view shows adds up: for a debt of the caller's company in a
  database satisfying the ledger invariant whose payments' users exist, the view lists
  payments of that debt only, each showing the debt's total, and their amounts add up to
  \<open>total_amount - remaining_amount\<close> (spec 3 and 8).
\<close>

theorem debt_payments_response_sum:
  assumes inv: "ledger_inv s" and ur: "users_refs s" and md: "map_of (debts s) i = Some d"
    and co: "user_company u = Some co" "debt_company s d = Some co"
  shows "\<exists>rows. debt_payments_response u i s = Inr rows \<and>
           (\<forall>r \<in> set rows. dp_debt r = i \<and> dp_debt_total r = total_amount d) \<and>
           sum_list (map dp_amount rows) = total_amount d - remaining_amount d"
proof -
  let ?F = "filter (\<lambda>(j, p). debt p = i) (payments s)"
  let ?rows = "map (the \<circ> debt_payment_repr s) ?F"
  have rows: "\<forall>r \<in> set ?rows. dp_debt r = i \<and> dp_debt_total r = total_amount d"
    using debt_payments_rows_repr [OF md ur] by auto
  have "map dp_amount ?rows = map (amount \<circ> snd) ?F"
    using debt_payments_rows_repr [OF md ur] by simp
  then have "sum_list (map dp_amount ?rows) = sum_list (map (amount \<circ> snd) ?F)"
    by (rule arg_cong)
  also have "\<dots> = debt_paid_total s i"
    by (simp only: debt_paid_total_def sum_where_filter)
  also have "\<dots> = total_amount d - remaining_amount d"
    using inv md by (auto simp: ledger_inv_def payments_inv_def dest: map_of_SomeD)
  finally show ?thesis
    using debt_payments_rows [OF md co ur] rows by blast
qed

subsection \<open>Reading back what was written\<close>

text \<open>
  A debt created by a caller with a company is what the detail view then returns under
  the new key; a caller without a company can create a debt for a client without a
  company, but its detail view answers 404.
\<close>

lemma create_retrieve_debt:
  assumes "create_debt today u c t dd s = Inr (s', i, d)"
  shows "retrieve_debt u i s' = (if user_company u = None then Inl NotFound else Inr (debt_repr i d))"
  using assms
  by (auto simp: create_debt_Inr debt_save_new Let_def retrieve_debt_def scoped_debt_def load_debt_def
      scoped_client_Some split: option.splits)

lemma create_retrieve_payment:
  assumes "create_payment uid u di a s = Inr (s', j)" and "load_debt s di = Some (d, cl)"
    and "client_company cl = user_company u" and "user_company u \<noteq> None"
  shows "retrieve_payment u j s' = Inr \<lparr>po_id = j, po_debt = di, po_amount = a, po_user = uid\<rparr>"
  using assms
  by (auto simp: create_payment_Inr payment_save_Inr retrieve_payment_def scoped_payment_def load_debt_def
      payment_repr_def split: option.splits)

end
