(* ===== verification/Companies.thy ===== *)
theory Companies
  imports Requests Users
begin

text \<open>
  Companies and the Django admin. \<open>Company\<close> (\<open>companies/models.py\<close>) has a unique
  name of at most 255 characters; the backend's views only read a company key, and
  companies are written through the admin (\<open>companies/admin.py\<close>,
  \<open>users/admin.py\<close>). The admin's add form is a \<open>ModelForm\<close>: the name is stripped,
  required, at most 255 characters, free of NUL, and unique among the stored names.
  Deleting a row in the admin follows the \<open>on_delete=CASCADE\<close> of every foreign key
  to it: a company takes its users (\<open>User.company\<close>) and clients
  (\<open>Client.company\<close>), a client its debts (\<open>Debt.client\<close>), a debt its payments
  (\<open>Payment.debt\<close>), and a user the payments it recorded (\<open>Payment.user\<close>).
\<close>

definition create_company :: "string \<Rightarrow> db \<Rightarrow> error + db \<times> company_id" where
  "create_company n s =
     (let t = py_strip n in
      if t = [] then Inl (ValidationError FieldRequired)
      else if 255 < length t then Inl (ValidationError MaxLength)
      else if CHR 0x00 \<in> set t then Inl (ValidationError NullCharacter)
      else if list_ex (\<lambda>(k, c). company_name c = t) (companies s) then Inl (ValidationError NotUnique)
      else
        let k = company_seq s in
        Inr (s\<lparr>companies := AList.update k \<lparr>company_name = t\<rparr> (companies s), company_seq := Suc k\<rparr>, k))"

text \<open>The rows the deletion of company \<open>co\<close> removes, by key.\<close>

definition gone_user :: "company_id \<Rightarrow> db \<Rightarrow> user_id \<Rightarrow> bool" where
  "gone_user co s k = (case map_of (users s) k of None \<Rightarrow> False | Some u \<Rightarrow> user_company u = Some co)"

definition gone_client :: "company_id \<Rightarrow> db \<Rightarrow> client_id \<Rightarrow> bool" where
  "gone_client co s c = (case map_of (clients s) c of None \<Rightarrow> False | Some cl \<Rightarrow> client_company cl = Some co)"

definition gone_debt :: "company_id \<Rightarrow> db \<Rightarrow> debt_id \<Rightarrow> bool" where
  "gone_debt co s i = (case map_of (debts s) i of None \<Rightarrow> False | Some d \<Rightarrow> gone_client co s (client d))"

text \<open>The admin's delete of a company, with the cascade.\<close>

definition delete_company :: "company_id \<Rightarrow> db \<Rightarrow> db" where
  "delete_company co s =
     s\<lparr>companies := AList.delete co (companies s),
       users := filter (\<lambda>(k, u). user_company u \<noteq> Some co) (users s),
       clients := filter (\<lambda>(c, cl). client_company cl \<noteq> Some co) (clients s),
       debts := filter (\<lambda>(i, d). \<not> gone_client co s (client d)) (debts s),
       payments := filter (\<lambda>(j, p). \<not> gone_debt co s (debt p) \<and> \<not> gone_user co s (user p)) (payments s)\<rparr>"

text \<open>The admin's delete of a user: the payments it recorded go with it.\<close>

definition delete_user :: "user_id \<Rightarrow> db \<Rightarrow> db" where
  "delete_user k s =
     s\<lparr>users := AList.delete k (users s), payments := filter (\<lambda>(j, p). user p \<noteq> k) (payments s)\<rparr>"

text \<open>\<open>unique=True\<close> of \<open>Company.name\<close>.\<close>

definition companies_unique :: "db \<Rightarrow> bool" where
  "companies_unique s \<longleftrightarrow> distinct (map (company_name \<circ> snd) (companies s))"

text \<open>
  A payment recorded by a member of company \<open>co\<close> lies on a debt of a client of
  \<open>co\<close>: what the spec's scoping of payments (section 4.2) would give, and what
  \<open>create_payment\<close> does not enforce.
\<close>

definition own_payments :: "company_id \<Rightarrow> db \<Rightarrow> bool" where
  "own_payments co s \<longleftrightarrow> (\<forall>(j, p) \<in> set (payments s). gone_user co s (user p) \<longrightarrow> gone_debt co s (debt p))"

text \<open>
  A seller of company 2 who records a payment on the debt of company 1's client in
  \<open>debt_db\<close>: \<open>create_payment\<close> does not scope the debt (C20).
\<close>

definition cross_user :: user where
  "cross_user = sample_user\<lparr>user_company := Some 2\<rparr>"

definition two_companies :: "db \<Rightarrow> db" where
  "two_companies s = s\<lparr>companies := [(1, \<lparr>company_name = ''Shop''\<rparr>), (2, \<lparr>company_name = ''Market''\<rparr>)],
                        users := [(0, cross_user)], company_seq := 3\<rparr>"

subsection \<open>The admin's add form\<close>

lemma create_company_Inr:
  "create_company n s = Inr (s', k) \<longleftrightarrow>
     py_strip n \<noteq> [] \<and> length (py_strip n) \<le> 255 \<and> CHR 0x00 \<notin> set (py_strip n) \<and>
     \<not> list_ex (\<lambda>(k, c). company_name c = py_strip n) (companies s) \<and> k = company_seq s \<and>
     s' = s\<lparr>companies := AList.update k \<lparr>company_name = py_strip n\<rparr> (companies s), company_seq := Suc k\<rparr>"
  by (auto simp: create_company_def Let_def not_less)

lemma create_company_unique:
  assumes u: "companies_unique s" and f: "fresh_keys (companies s) (company_seq s)"
    and ok: "create_company n s = Inr (s', k)"
  shows "companies_unique s' \<and> fresh_keys (companies s') (company_seq s') \<and>
    map_of (companies s') k = Some \<lparr>company_name = py_strip n\<rparr>"
proof -
  from ok have k: "k = company_seq s" and nu: "\<not> list_ex (\<lambda>(k, c). company_name c = py_strip n) (companies s)"
    and S: "s' = s\<lparr>companies := AList.update k \<lparr>company_name = py_strip n\<rparr> (companies s), company_seq := Suc k\<rparr>"
    by (simp_all add: create_company_Inr)
  from f k have "AList.update k \<lparr>company_name = py_strip n\<rparr> (companies s) = companies s @ [(k, \<lparr>company_name = py_strip n\<rparr>)]"
    by (simp add: update_new)
  with u nu S have "companies_unique s'"
    by (auto simp: companies_unique_def list_ex_iff)
  moreover from f k S have "fresh_keys (companies s') (company_seq s')" by auto
  ultimately show ?thesis using S by simp
qed

subsection \<open>The cascade\<close>

lemma delete_company_simps [simp]:
  "clients (delete_company co s) = filter (\<lambda>(c, cl). client_company cl \<noteq> Some co) (clients s)"
  "debts (delete_company co s) = filter (\<lambda>(i, d). \<not> gone_client co s (client d)) (debts s)"
  "payments (delete_company co s) =
     filter (\<lambda>(j, p). \<not> gone_debt co s (debt p) \<and> \<not> gone_user co s (user p)) (payments s)"
  "client_seq (delete_company co s) = client_seq s" "debt_seq (delete_company co s) = debt_seq s"
  "payment_seq (delete_company co s) = payment_seq s"
  by (simp_all add: delete_company_def)

lemma gone_client_set:
  "distinct (map fst (clients s)) \<Longrightarrow> (c, cl) \<in> set (clients s) \<Longrightarrow>
     gone_client co s c \<longleftrightarrow> client_company cl = Some co"
  by (drule (1) map_of_is_SomeI) (simp add: gone_client_def)

lemma gone_debt_set:
  "distinct (map fst (debts s)) \<Longrightarrow> (i, d) \<in> set (debts s) \<Longrightarrow>
     gone_debt co s i \<longleftrightarrow> gone_client co s (client d)"
  by (drule (1) map_of_is_SomeI) (simp add: gone_debt_def)

lemma delete_company_keys:
  "keys_inv s \<Longrightarrow> keys_inv (delete_company co s)"
  by (auto simp: keys_inv_def)

lemma delete_company_clients_map:
  assumes "keys_inv s" and "map_of (clients s) c = Some cl" and "\<not> gone_client co s c"
  shows "map_of (clients (delete_company co s)) c = Some cl"
  using assms by (simp add: map_of_filter_value keys_inv_distinct gone_client_def)

lemma delete_company_debts_map:
  assumes "keys_inv s" and "map_of (debts s) i = Some d" and "\<not> gone_debt co s i"
  shows "map_of (debts (delete_company co s)) i = Some d"
  using assms by (simp add: map_of_filter_value keys_inv_distinct gone_debt_def)

lemma delete_company_balance:
  assumes inv: "ledger_inv s"
  shows "balance_inv (delete_company co s)"
  unfolding balance_inv_def
proof (clarify)
  fix c cl assume m: "(c, cl) \<in> set (clients (delete_company co s))"
  then have m0: "(c, cl) \<in> set (clients s)" and o: "client_company cl \<noteq> Some co" by auto
  from inv have ki: "keys_inv s" by (simp add: ledger_inv_def)
  from ki m0 o have g: "\<not> gone_client co s c" by (simp add: gone_client_set keys_inv_distinct)
  have "client_debt_total (delete_company co s) c = client_debt_total s c"
    unfolding client_debt_total_def delete_company_simps
    by (rule sum_where_filter_keep) (use g in auto)
  with inv m0 show "balanse cl = client_debt_total (delete_company co s) c"
    by (auto simp: ledger_inv_def balance_inv_def)
qed

lemma delete_company_payments:
  assumes inv: "ledger_inv s" and own: "own_payments co s"
  shows "payments_inv (delete_company co s)"
  unfolding payments_inv_def
proof (clarify)
  fix i d assume m: "(i, d) \<in> set (debts (delete_company co s))"
  then have m0: "(i, d) \<in> set (debts s)" and o: "\<not> gone_client co s (client d)" by auto
  from inv have ki: "keys_inv s" by (simp add: ledger_inv_def)
  from ki m0 o have g: "\<not> gone_debt co s i" by (simp add: gone_debt_set keys_inv_distinct)
  have "debt_paid_total (delete_company co s) i = debt_paid_total s i"
    unfolding debt_paid_total_def delete_company_simps
    by (rule sum_where_filter_keep) (use g own in \<open>auto simp: own_payments_def\<close>)
  with inv m0 show "debt_paid_total (delete_company co s) i = total_amount d - remaining_amount d"
    by (auto simp: ledger_inv_def payments_inv_def)
qed

lemma delete_company_refs:
  assumes inv: "ledger_inv s"
  shows "refs_inv (delete_company co s)"
proof -
  from inv have ki: "keys_inv s" and r: "refs_inv s" by (simp_all add: ledger_inv_def)
  have "map_of (clients (delete_company co s)) (client d) \<noteq> None"
    if "(i, d) \<in> set (debts (delete_company co s))" for i d
  proof -
    from that have "(i, d) \<in> set (debts s)" and g: "\<not> gone_client co s (client d)" by auto
    with r obtain cl where "map_of (clients s) (client d) = Some cl" by (auto simp: refs_inv_def)
    then have "map_of (clients (delete_company co s)) (client d) = Some cl"
      by (rule delete_company_clients_map [OF ki _ g])
    then show ?thesis by simp
  qed
  moreover have "map_of (debts (delete_company co s)) (debt p) \<noteq> None"
    if "(j, p) \<in> set (payments (delete_company co s))" for j p
  proof -
    from that have "(j, p) \<in> set (payments s)" and g: "\<not> gone_debt co s (debt p)" by auto
    with r obtain d where "map_of (debts s) (debt p) = Some d" by (auto simp: refs_inv_def)
    then have "map_of (debts (delete_company co s)) (debt p) = Some d"
      by (rule delete_company_debts_map [OF ki _ g])
    then show ?thesis by simp
  qed
  ultimately show ?thesis by (auto simp: refs_inv_def)
qed

text \<open>
  C3. Deleting a company in the admin keeps the ledger invariant when every payment
  recorded by a member of the company lies on one of the company's debts: the cascade
  takes each debt of a deleted client together with all its payments.
\<close>

theorem delete_company_preserves_inv:
  assumes "ledger_inv s" and "own_payments co s"
  shows "ledger_inv (delete_company co s)"
proof -
  from assms(1) have "bounds_inv (delete_company co s)" "paid_flag_inv (delete_company co s)"
    "keys_inv (delete_company co s)"
    by (auto simp: ledger_inv_def bounds_inv_def paid_flag_inv_def delete_company_keys)
  with assms show ?thesis
    by (simp add: ledger_inv_def delete_company_balance delete_company_payments delete_company_refs)
qed

lemma ledger_inv_two_companies [simp]: "ledger_inv (two_companies s) = ledger_inv s"
  by (simp add: two_companies_def ledger_inv_defs client_debt_total_def debt_paid_total_def)

lemma serve_cross_payment:
  "handle (CreatePayment 0 cross_user 0 4000) (two_companies debt_db) = Inr (two_companies paid40_db)"
  by (simp add: request_eval_simps two_companies_def cross_user_def)


end
