(* ===== verification/Spec2Isabelle.thy ===== *)
theory Spec2Isabelle
  imports Interleaving Users Abstract_Ledger Migrations Amounts Responses Companies
begin

text \<open>
  \<^bold>\<open>A verification development of the bookkeeping backend (src/backend).\<close>

  \<^bold>\<open>The program.\<close> A Django REST backend: users belong to a company
  (\<open>users/\<close>), clients belong to a company and carry a running balance
  \<open>balanse\<close> (\<open>clients/\<close>), debts belong to a client (\<open>debts/\<close>) and payments
  to a debt (\<open>payments/\<close>). The balance-consistency engine of the spec lives in two
  \<open>save\<close> overrides: \<open>Debt.save\<close> (debts/models.py) sets a new debt's
  \<open>remaining_amount\<close> to its total and adds the total to the client's balance;
  \<open>Payment.save\<close> (payments/models.py) checks the amount against the remaining
  amount, subtracts it from the debt and the client and saves all three rows, calling
  \<open>Debt.save\<close>, which marks the debt paid when nothing remains. The views and
  serializers validate input and scope querysets by the caller's company.

  \<^bold>\<open>The library.\<close>
  \<^item> \<open>Ledger_Prelude\<close>: tables as association lists in insertion order,
    \<open>sum_where\<close> (the sums the invariants use) and freshness of keys; money is an
    \<open>int\<close> of cents (\<open>DecimalField(decimal_places=2)\<close>), dates are day numbers.
  \<^item> \<open>Models\<close>: the models as records (\<open>user\<close>, \<open>client\<close>, \<open>debt\<close>,
    \<open>payment\<close>), the database \<open>db\<close> with one key sequence per table, the row writes
    of \<open>save()\<close>, and the outcome type \<open>error\<close> (400, 404, 403, 500).
  \<^item> \<open>Ledger_Inv\<close>: the invariants of spec section 8 over a database
    (\<open>balance_inv\<close>, \<open>bounds_inv\<close>, \<open>paid_flag_inv\<close>, \<open>payments_inv\<close>, with
    \<open>refs_inv\<close> and \<open>keys_inv\<close>), and how one row write changes the sums.
  \<^item> \<open>Debts\<close>: \<open>mark_paid\<close> and \<open>debt_save\<close> (Debt.save),
    \<open>scoped_client\<close> and \<open>validate_debt\<close> (DebtSerializer), \<open>create_debt\<close>,
    \<open>update_debt\<close>, \<open>delete_debt\<close>, \<open>list_debts\<close> (debts/views.py).
  \<^item> \<open>Payments\<close>: \<open>payment_save\<close> (Payment.save, calling \<open>debt_save\<close>),
    \<open>create_payment\<close> (with PaymentSerializer.create), \<open>update_payment\<close>,
    \<open>delete_payment\<close>, \<open>list_payments\<close>, \<open>debt_payments\<close>.
  \<^item> \<open>Clients\<close>: \<open>create_client\<close> (ClientSerializer.create and the unique
    constraints), \<open>list_clients\<close>, \<open>client_debts\<close>, \<open>client_unique_inv\<close>.
  \<^item> \<open>Requests\<close>: the interface the components share: a \<open>request\<close> per mutating
    endpoint, the step function \<open>handle\<close>, the spec's scope \<open>in_scope\<close>,
    \<open>run\<close> over a sequence of requests, and the reachable states \<open>reachable\<close>
    (an inductive step relation from the empty database).
  \<^item> \<open>Concurrency\<close>: a payment request as the sequence of database accesses it
    makes (\<open>thread_step\<close>: load the debt, check and load the client, write the
    payment, the debt, the client), a debt-creation request likewise
    (\<open>debt_step\<close>: validate on the loaded client, write the client, insert the
    debt), any number of requests interleaved by \<open>req_step\<close>, and schedules
    (\<open>run_schedule\<close>) that build runs.
  \<^item> \<open>Interleaving\<close>: what a request in flight holds in memory (\<open>thread_ok\<close>) and
    the per-row invariants (\<open>row_inv\<close>), preserved by every access of every request.
  \<^item> \<open>Users\<close>: \<open>User.save\<close> (\<open>user_save\<close> with \<open>user_clean\<close>,
    \<open>check_email\<close>, \<open>check_username\<close> and its loop \<open>username_loop\<close>, a total
    function whose termination measure is the longest stored name, and the loop as
    written, \<open>username_while\<close> over \<open>while_option\<close>), the DRF field semantics
    (\<open>char_field\<close>: required, null, blank, stripping, length, NUL, validators),
    registration (\<open>reg_fields\<close>, \<open>reg_validate\<close>, \<open>reg_create\<close>,
    \<open>create_user\<close>, \<open>register\<close>), \<open>login\<close> with the tokens it issues
    (\<open>issue_tokens\<close>, \<open>for_user\<close>, \<open>access_of\<close>), \<open>token_refresh\<close>,
    \<open>profile\<close>, the dispatch \<open>handle_user\<close> of \<open>users/urls.py\<close>, and the
    invariant \<open>users_inv\<close> of the user table. Python's \<open>strip\<close> and
    \<open>lower\<close> are written out on Latin-1 code points.
  \<^item> \<open>Abstract_Ledger\<close>: the ledger of spec sections 3 and 4 (per debt its
    client, total, due date and the multiset of its payments), the contracts
    \<open>a_create_debt\<close> and \<open>a_apply_payment\<close>, and the abstraction
    \<open>abs_ledger\<close> of a database.
  \<^item> \<open>Amounts\<close>: the money columns as types: \<open>amounts_inv\<close> (every debt total,
    remaining amount and payment amount within \<open>DecimalField(10, 2)\<close>) and
    \<open>balance_fits\<close> (the same of the client balances).
  \<^item> \<open>Responses\<close>: the bodies of \<open>ClientListDebtsView\<close>
    (\<open>client_debts_response\<close>, with \<open>client_repr\<close> and the nested
    \<open>nested_debt_repr\<close> of the clients' \<open>DebtSerializer\<close>) and of
    \<open>DebtDetailPaymentView\<close> (\<open>debt_payments_response\<close>, with the debts'
    \<open>PaymentSerializer\<close> as \<open>debt_payment_repr\<close>), and the list and detail
    GETs of debts and payments (\<open>list_debts_response\<close>, \<open>retrieve_debt\<close>,
    \<open>list_payments_response\<close>, \<open>retrieve_payment\<close>); a created debt or payment
    reads back as written (\<open>create_retrieve_debt\<close>, \<open>create_retrieve_payment\<close>),
    except that a caller without a company gets 404 for the debt it created.
  \<^item> \<open>Companies\<close>: the companies table, the add form of \<open>CompanyAdmin\<close>
    (\<open>create_company\<close>: the \<open>ModelForm\<close> checks of \<open>Company.name\<close>), and the
    admin's deletes with Django's \<open>on_delete=CASCADE\<close> chain: \<open>delete_company\<close>
    removes the company's users and clients, the debts of those clients and the payments
    of those debts and users (\<open>gone_user\<close>, \<open>gone_client\<close>, \<open>gone_debt\<close>), and
    \<open>delete_user\<close> a user with the payments it recorded.
  \<^item> \<open>Migrations\<close>: the columns of \<open>BaseModel\<close> and \<open>Payment\<close> and the table
    the one migration of the sources creates, compared column by column.
  \<^item> this theory: the spec's scenario and the witnesses of the component claims.

  Every view is a function from the request's arguments and the database to
  \<open>error + db\<close> (with the new key, row or response body where the view returns one).
  Its early returns are the serializer's field checks and \<open>validate\<close>, in the order
  DRF runs them; every check comes before the first write, so a failed request changes
  nothing. The database's foreign-key constraint is \<open>refs_inv\<close> (and
  \<open>users_refs\<close> for \<open>Payment.user\<close>); \<open>uuid4\<close> keys are modelled as fresh
  counters.

  \<^bold>\<open>What is proved.\<close> For the operations the spec covers (creating a client with
  the default balance, creating a debt, paying a positive amount), every request keeps
  the invariant, so the balance, bounds, paid-flag and payment-sum properties of spec 8
  hold in every reachable state (C1, C2, C4, C5, C6); the functional effect of debt creation
  and payment (C7, C8); the error paths of payment (C9), of debt creation, each error in
  the order the checks run (C10), of a PATCH without total (C21) and of the client
  endpoints (C26); the re-save property (C11), the scenario of spec 8 (C12), the
  OPEN/PAID life cycle (C13), queryset scoping and the overdue filter (C22) and the
  unique constraints (C24). Deleting a company through the admin keeps the invariant
  when every payment its members recorded lies on one of its own debts (C3), and the
  add form keeps company names unique (\<open>create_company_unique\<close>). Every request that pays no negative amount, the out-of-scope endpoints
  included, keeps the money columns within their ten digits (C25). What the read views
  show is consistent with the ledger: the client-debts view nests the same client in
  every debt and shows a balance equal to the remaining amounts shown (C16), and the
  payments the debt-payments view lists add up to what was paid off (C18). On the
  abstract ledger, \<open>create_debt\<close> and \<open>create_payment\<close> fail exactly when
  \<open>createDebt\<close> and \<open>applyPayment\<close> do and otherwise commute with the abstraction
  (C38, C39); the stored \<open>remaining_amount\<close> and \<open>is_paid\<close> are the abstract
  derived values (\<open>abs_ledger_represents\<close>); every open debt of a reachable database
  can be paid off by one request in scope (C40). For users: the \<open>check_username\<close>
  loop terminates for every table and every sequence of random digits (C31), yields a
  fresh name with the \<open>instagram-\<close> prefix that fits 150 characters when the stored
  names do (C32); every users endpoint keeps \<open>users_inv\<close> (C35); registration
  refuses differing passwords (C36); a registered user can log in with any casing of the
  address (C34), and the refresh token of a login yields access tokens for that user
  until it expires (C33).

  \<^bold>\<open>What modelling showed.\<close> The code accepts more than the spec allows, and each
  of these requests breaks an invariant from a reachable state: a negative or zero
  payment (no \<open>amount > 0\<close> check) and a caller-supplied client balance (C14), a PUT of an existing payment (deducted
  again) and deleting a payment (nothing given back, C15), deleting a debt, changing its
  total or moving it to another client (C17). A payment can be recorded on any company's debt (C20); then deleting
  its user, or the user's company, in the admin cascades the payment away while the debt
  keeps its reduced remaining amount, which breaks the payment sum (C23); and an overdraw is an
  uncaught \<open>ValueError\<close> (HTTP 500) rather than a dedicated error (C9). Nothing bounds
  the sums \<open>Debt.save\<close> and \<open>Payment.save\<close> compute: two ten-digit debts give an
  eleven-digit balance, and a negative payment an eleven-digit remaining amount (C27).
  Without locking, two payments on one debt can both pass the check and lose an
  update, and a debt created while a payment on the same client runs overwrites the
  payment's balance change (C28); without a transaction, an interrupted
  \<open>Payment.save\<close> leaves the payment recorded and the debt unchanged, and an
  interrupted \<open>Debt.save\<close> leaves the balance raised by a debt that was never inserted
  (C30); yet no interleaving corrupts a single row: remaining amounts stay within
  their bounds, paid flags match them, and keys and references stay valid (C19). Run alone, the accesses of a payment compute exactly \<open>create_payment\<close>
  (C29), and those of a debt creation what \<open>create_debt\<close> computes
  (\<open>serial_debt_creation\<close>), so the invariants of C1--C6 hold for serialized
  executions. In registration the e-mail's uniqueness check runs on the address as
  typed and not on a blank one, so a case variant of a stored address or a second blank
  address ends in \<open>IntegrityError\<close> (C37); an omitted or null e-mail crashes
  \<open>validate\<close> (\<open>register_email_required\<close>); the representation's
  \<open>full_name\<close> is not stripped (\<open>registered_full_name\<close>).

  \<^bold>\<open>Bounds and parameters.\<close> No fuel is used: every loop of the code is a
  structural recursion or, for \<open>check_username\<close>, a function with a termination
  proof. The e-mail validator of Django (a regular expression of the library) is a
  parameter \<open>ev\<close>; the random sources (\<open>uuid4\<close>, \<open>randint\<close>) are arguments;
  the JWT encoding and signature check are parameters \<open>enc\<close> and \<open>dec\<close>, the
  current time a number of seconds, and the token lifetimes simplejwt's defaults (one
  day, five minutes); \<open>AUTH_PASSWORD_VALIDATORS\<close> is Django's empty default, the
  repository having no settings module. Strings are Latin-1; NFKC normalisation of
  usernames is taken as the identity, which it is except on nine compatibility
  characters. Money is an integer of cents; \<open>decimal_ok\<close> is the ten-digit bound.
  The database stores what it is given (SQLite's behaviour); on PostgreSQL the writes of
  C27 would fail with a numeric overflow instead.

  \<^bold>\<open>Not modelled.\<close> The changelist options of the admin registrations
  (\<open>list_display\<close>, \<open>search_fields\<close>, \<open>list_filter\<close>, \<open>ordering\<close>) only present
  rows, as do the models' \<open>__str__\<close> methods, which only the admin displays; the
  admin's edit forms for users and clients are not modelled; the only
  migration in the sources (\<open>payments/migrations/0001_initial.py\<close>) creates a table
  without the \<open>user\<close> column of the model (\<open>payments_0001_user_missing\<close>); the
  operations follow the models, as a complete set of migrations would give. Timestamp
  values (no view or operation reads them), DRF's decimal strings, and the never-called
  \<open>validate\<close> of the clients' \<open>DebtSerializer\<close> and \<open>create\<close> of the debts'
  \<open>PaymentSerializer\<close> are outside the model. Authentication is modelled for the
  profile view only; the ledger views take the authenticated caller as an argument.
  Interleavings are modelled for payments and debt creation (\<open>Concurrency\<close>,
  \<open>Interleaving\<close>); the other endpoints are taken to run atomically.
\<close>

subsection \<open>Computations the witnesses share\<close>

lemma compute_create_debt:
  "create_debt 100 sample_user 0 10000 None sample_db =
     Inr (debt_db, 0, \<lparr>client = 0, total_amount = 10000, remaining_amount = 10000, due_date = 130, is_paid = False\<rparr>)"
  by (simp add: request_eval_simps)

lemma compute_create_payment:
  "create_payment 0 sample_user 0 4000 debt_db = Inr (paid40_db, 0)"
  by (simp add: request_eval_simps)


subsection \<open>Witnesses of the component claims\<close>

theorem create_debt_preserves_inv_witness:
  "ledger_inv sample_db \<and>
   create_debt 100 sample_user 0 10000 None sample_db =
     Inr (debt_db, 0, \<lparr>client = 0, total_amount = 10000, remaining_amount = 10000, due_date = 130, is_paid = False\<rparr>) \<and>
   ledger_inv debt_db"
  using ledger_inv_sample_db compute_create_debt create_debt_preserves_inv [OF ledger_inv_sample_db compute_create_debt]
  by simp

theorem create_payment_preserves_inv_witness:
  "ledger_inv debt_db \<and> (0::int) \<le> 4000 \<and> create_payment 0 sample_user 0 4000 debt_db = Inr (paid40_db, 0) \<and>
   ledger_inv paid40_db"
  using create_payment_preserves_inv [OF reachable_ledger_inv [OF reachable_debt_db] _ compute_create_payment]
    reachable_ledger_inv [OF reachable_debt_db] compute_create_payment
  by simp

theorem create_debt_effect_witness:
  "create_debt 100 sample_user 0 10000 None sample_db =
     Inr (debt_db, 0, \<lparr>client = 0, total_amount = 10000, remaining_amount = 10000, due_date = 130, is_paid = False\<rparr>) \<and>
   map_of (clients debt_db) 0 = Some \<lparr>name = ''Ali'', phone = ''+998901234567'', balanse = 10000, client_company = Some 1\<rparr>"
  using create_debt_effect [OF compute_create_debt] compute_create_debt
  by (simp add: sample_db_def empty_db_def)

theorem create_payment_effect_witness:
  "create_payment 0 sample_user 0 4000 debt_db = Inr (paid40_db, 0) \<and>
   map_of (payments paid40_db) 0 = Some \<lparr>debt = 0, amount = 4000, user = 0\<rparr> \<and>
   map_of (clients paid40_db) 0 = Some \<lparr>name = ''Ali'', phone = ''+998901234567'', balanse = 6000, client_company = Some 1\<rparr>"
  using create_payment_effect [OF compute_create_payment] compute_create_payment
  by (auto simp: load_debt_def debt_db_def sample_db_def empty_db_def)

theorem create_payment_overdraw_witness:
  "create_payment 0 sample_user 0 1000 paid_db = Inl (ServerError PaymentExceedsRemaining)"
  by (rule create_payment_overdraw [of _ _
        "\<lparr>client = 0, total_amount = 10000, remaining_amount = 0, due_date = 130, is_paid = True\<rparr>"
        "\<lparr>name = ''Ali'', phone = ''+998901234567'', balanse = 0, client_company = Some 1\<rparr>"])
     (simp_all add: load_debt_def paid_db_def paid40_db_def debt_db_def sample_db_def empty_db_def decimal_ok_def)

theorem create_debt_errors_witness:
  "create_debt 100 sample_user 0 (-500) None sample_db = Inl (ValidationError NegativeDebt) \<and>
   create_debt 100 sample_user 0 10000 (Some 100) sample_db = Inl (ValidationError DueDateNotFuture)"
  using create_debt_errors [of 100 sample_user 0 "-500" None sample_db "ValidationError NegativeDebt"]
    create_debt_errors [of 100 sample_user 0 10000 "Some 100" sample_db "ValidationError DueDateNotFuture"]
  by (simp add: scoped_client_def sample_db_def empty_db_def sample_user_def decimal_ok_def)

lemma compute_update_debt:
  "update_debt 100 sample_user 0 True \<lparr>in_client = None, in_total = Some 10000, in_due = Some 200\<rparr> debt_db =
     Inr (debt_db\<lparr>debts := [(0, \<lparr>client = 0, total_amount = 10000, remaining_amount = 10000,
                                   due_date = 200, is_paid = False\<rparr>)]\<rparr>, 0,
          \<lparr>client = 0, total_amount = 10000, remaining_amount = 10000, due_date = 200, is_paid = False\<rparr>)"
  by (simp add: request_eval_simps)

theorem update_debt_keeps_clients_witness:
  "update_debt 100 sample_user 0 True \<lparr>in_client = None, in_total = Some 10000, in_due = Some 200\<rparr> debt_db =
     Inr (debt_db\<lparr>debts := [(0, \<lparr>client = 0, total_amount = 10000, remaining_amount = 10000,
                                   due_date = 200, is_paid = False\<rparr>)]\<rparr>, 0,
          \<lparr>client = 0, total_amount = 10000, remaining_amount = 10000, due_date = 200, is_paid = False\<rparr>) \<and>
   clients (debt_db\<lparr>debts := [(0, \<lparr>client = 0, total_amount = 10000, remaining_amount = 10000,
                                   due_date = 200, is_paid = False\<rparr>)]\<rparr>) = clients debt_db"
  using compute_update_debt update_debt_keeps_clients [OF compute_update_debt] by simp

theorem update_debt_patch_without_total_witness:
  "scoped_debt sample_user debt_db 0 \<noteq> None \<and>
   update_debt 100 sample_user 0 True \<lparr>in_client = None, in_total = None, in_due = Some 200\<rparr> debt_db =
     Inl (ServerError NoneComparison)"
proof -
  have sd: "scoped_debt sample_user debt_db 0 \<noteq> None"
    by (simp add: scoped_debt_def load_debt_def sample_user_def debt_db_def sample_db_def empty_db_def)
  show ?thesis using sd update_debt_patch_without_total [OF sd] by simp
qed

theorem list_debts_scoped_witness:
  "(0, \<lparr>client = 0, total_amount = 10000, remaining_amount = 10000, due_date = 130, is_paid = False\<rparr>)
      \<in> set (list_debts 100 sample_user None debt_db) \<and>
   debt_company debt_db \<lparr>client = 0, total_amount = 10000, remaining_amount = 10000, due_date = 130, is_paid = False\<rparr> = Some 1"
proof -
  have m: "(0, \<lparr>client = 0, total_amount = 10000, remaining_amount = 10000, due_date = 130, is_paid = False\<rparr>)
      \<in> set (list_debts 100 sample_user None debt_db)"
    by (simp add: list_debts_def debt_company_def sample_user_def debt_db_def sample_db_def empty_db_def)
  show ?thesis using m conjunct1 [OF list_debts_scoped [of 0
      "\<lparr>client = 0, total_amount = 10000, remaining_amount = 10000, due_date = 130, is_paid = False\<rparr>"
      100 sample_user None debt_db]]
    by (simp add: sample_user_def)
qed





theorem handle_preserves_amounts_witness:
  "amounts_inv debt_db \<and> pays_nonneg (CreatePayment 0 sample_user 0 4000) \<and>
   handle (CreatePayment 0 sample_user 0 4000) debt_db = Inr paid40_db \<and> amounts_inv paid40_db"
  using handle_preserves_amounts [OF _ _ serve_pay_40] serve_pay_40
  by (simp add: amounts_inv_def debt_db_def sample_db_def empty_db_def decimal_ok_def)

theorem client_debts_response_consistent_witness:
  "\<exists>rows. client_debts_response sample_user 0 debt_db =
      Inr (client_repr 0 \<lparr>name = ''Ali'', phone = ''+998901234567'', balanse = 10000, client_company = Some 1\<rparr>, rows) \<and>
    co_balanse (client_repr 0 \<lparr>name = ''Ali'', phone = ''+998901234567'', balanse = 10000, client_company = Some 1\<rparr>) =
      sum_list (map nd_remaining rows)"
proof -
  have cl: "map_of (clients debt_db) 0 =
      Some \<lparr>name = ''Ali'', phone = ''+998901234567'', balanse = 10000, client_company = Some 1\<rparr>"
    by (simp add: debt_db_def sample_db_def empty_db_def)
  have co: "client_company \<lparr>name = ''Ali'', phone = ''+998901234567'', balanse = 10000, client_company = Some 1\<rparr> =
      user_company sample_user"
    by (simp add: sample_user_def)
  show ?thesis
    using client_debts_response_consistent [OF reachable_ledger_inv [OF reachable_debt_db] cl co] by blast
qed

theorem debt_payments_response_sum_witness:
  "\<exists>rows. debt_payments_response sample_user 0 (paid40_db\<lparr>users := [(0, sample_user)]\<rparr>) = Inr rows \<and>
    sum_list (map dp_amount rows) = 4000"
proof -
  let ?s = "paid40_db\<lparr>users := [(0, sample_user)]\<rparr>"
  have inv: "ledger_inv ?s"
    by (simp add: ledger_inv_defs paid40_db_def debt_db_def sample_db_def empty_db_def client_debt_total_def
        debt_paid_total_def fresh_keys_def)
  have ur: "users_refs ?s"
    by (simp add: users_refs_def paid40_db_def)
  have md: "map_of (debts ?s) 0 =
      Some \<lparr>client = 0, total_amount = 10000, remaining_amount = 6000, due_date = 130, is_paid = False\<rparr>"
    by (simp add: paid40_db_def)
  have co: "user_company sample_user = Some 1"
    "debt_company ?s \<lparr>client = 0, total_amount = 10000, remaining_amount = 6000, due_date = 130, is_paid = False\<rparr> = Some 1"
    by (simp_all add: sample_user_def debt_company_def paid40_db_def)
  show ?thesis
    using debt_payments_response_sum [OF inv ur md co] by auto
qed

theorem interleaving_keeps_rows_witness:
  "\<exists>s' ts'. req_step\<^sup>*\<^sup>* (debt_db, two_payments) (s', ts') \<and> \<not> payments_inv s' \<and>
     bounds_inv s' \<and> paid_flag_inv s'"
proof -
  obtain s' ts' where r: "run_schedule [0, 1, 0, 1, 0, 0, 0, 1, 1, 1] (debt_db, two_payments) = Some (s', ts')"
    and np: "\<not> payments_inv s'"
    by (simp add: two_payments_def schedule_eval_simps payments_inv_def debt_paid_total_def)
  have st: "req_step\<^sup>*\<^sup>* (debt_db, two_payments) (s', ts')" by (rule run_schedule_steps [OF r])
  have fr: "list_all fresh_thread two_payments"
    by (simp add: two_payments_def fresh_thread_def new_req_def)
  from interleaving_keeps_rows [OF reachable_ledger_inv [OF reachable_debt_db] fr st] st np show ?thesis
    by blast
qed

subsection \<open>Witnesses of the users component\<close>

theorem check_username_fresh_witness:
  "length ''0123456789ab'' = 12 \<and> list_all (\<lambda>n. length n < 150) [''instagram-0123456789ab''] \<and>
   length (username (check_username [''instagram-0123456789ab''] (\<lambda>k. 7) ''0123456789ab''
     (sample_user\<lparr>username := []\<rparr>))) \<le> 150"
  using check_username_fresh [of "[''instagram-0123456789ab'']" "\<lambda>k. 7" "''0123456789ab''" sample_user]
  by simp

theorem register_login_witness:
  "users_inv empty_db \<and>
   register email_at (\<lambda>k. 0) ''0123456789ab'' ali_input empty_db = Inr (ali_db, ali_view) \<and>
   in_email ali_input = Given ''Ali@Shop.uz'' \<and> in_password ali_input = Given ''s3cret'' \<and>
   py_strip ''Ali@Shop.uz'' \<noteq> [] \<and>
   py_lower (py_strip '' ALI@shop.UZ'') = py_lower (py_strip ''Ali@Shop.uz'') \<and>
   email_at (py_strip '' ALI@shop.UZ'') \<and>
   login email_at (\<lambda>t. ''tok'') 1000 (Given '' ALI@shop.UZ'') (Given ''s3cret'') ali_db =
     Inr (ali_view, issue_tokens (\<lambda>t. ''tok'') 1000 0)"
  using register_login [of empty_db email_at "\<lambda>k. 0" "''0123456789ab''" ali_input ali_db ali_view
      "''Ali@Shop.uz''" "''s3cret''" "'' ALI@shop.UZ''" "\<lambda>t. ''tok''" 1000]
  by (simp add: users_eval_simps)

lemma compute_login:
  "login email_at (\<lambda>t. ''tok'') 1000 (Given ''ali@shop.uz'') (Given ''s3cret'') ali_db =
     Inr (ali_view, ''tok'', ''tok'')"
  by (simp add: users_eval_simps issue_tokens_def)

theorem login_refresh_witness:
  "login email_at (\<lambda>t. ''tok'') 1000 (Given ''ali@shop.uz'') (Given ''s3cret'') ali_db =
     Inr (ali_view, ''tok'', ''tok'') \<and>
   token_refresh (\<lambda>x. Some (for_user 1000 0)) (\<lambda>t. ''tok'') 2000 (Given ''tok'') = Inr ''tok'' \<and>
   token_refresh (\<lambda>x. Some (for_user 1000 0)) (\<lambda>t. ''tok'') 90000 (Given ''tok'') =
     Inl (ValidationError InvalidToken)"
  using compute_login
    login_refresh [OF compute_login, of "\<lambda>x. Some (for_user 1000 0)" 2000]
    login_refresh [OF compute_login, of "\<lambda>x. Some (for_user 1000 0)" 90000]
  by (simp add: ali_view_def users_eval_simps)

theorem handle_user_preserves_users_inv_witness:
  "users_inv empty_db \<and>
   handle_user email_at (\<lambda>k. 0) ''0123456789ab'' (\<lambda>x. None) (\<lambda>t. ''tok'') 1000 (Register ali_input) empty_db =
     Inr (ali_db, RegisterResp ali_view) \<and>
   users_inv ali_db"
  using handle_user_preserves_users_inv [of empty_db email_at "\<lambda>k. 0" "''0123456789ab''" "\<lambda>x. None"
      "\<lambda>t. ''tok''" 1000 "Register ali_input" ali_db "RegisterResp ali_view"]
  by (simp add: users_eval_simps)

theorem register_password_mismatch_witness:
  "reg_fields email_at empty_db (ali_input\<lparr>in_confirm := Given ''secret''\<rparr>) =
     Inr \<lparr>d_email = Some (Some ''Ali@Shop.uz''), d_password = Some (Some ''s3cret''),
          d_confirm = Some (Some ''secret''), d_roles = None, d_username = Some (Some ''ali'')\<rparr> \<and>
   py_strip ''s3cret'' \<noteq> py_strip ''secret'' \<and>
   register email_at (\<lambda>k. 0) ''0123456789ab'' (ali_input\<lparr>in_confirm := Given ''secret''\<rparr>) empty_db =
     Inl (ValidationError PasswordMismatch)"
  using register_password_mismatch [of email_at empty_db "ali_input\<lparr>in_confirm := Given ''secret''\<rparr>"
      "\<lparr>d_email = Some (Some ''Ali@Shop.uz''), d_password = Some (Some ''s3cret''),
        d_confirm = Some (Some ''secret''), d_roles = None, d_username = Some (Some ''ali'')\<rparr>"
      "''Ali@Shop.uz''" "''s3cret''" "''secret''" "\<lambda>k. 0" "''0123456789ab''"]
  by (simp add: users_eval_simps)


subsection \<open>Witnesses of the abstract ledger\<close>

theorem create_debt_refines_witness:
  "ledger_inv sample_db \<and> scoped_client sample_user sample_db 0 \<noteq> None \<and> decimal_ok 10000 \<and>
   Some (abs_ledger debt_db) = a_create_debt 100 (debt_seq sample_db) 0 10000 None (abs_ledger sample_db)"
  using create_debt_refines [OF ledger_inv_sample_db, of sample_user 0 10000 100 None]
    compute_create_debt ledger_inv_sample_db
  by (simp add: scoped_client_def sample_db_def sample_user_def empty_db_def decimal_ok_def)

theorem create_payment_refines_witness:
  "ledger_inv debt_db \<and> 0 < (4000::int) \<and> decimal_ok 4000 \<and>
   Some (abs_ledger paid40_db) = a_apply_payment 0 4000 (abs_ledger debt_db)"
  using create_payment_refines [OF reachable_ledger_inv [OF reachable_debt_db], of 4000 0 sample_user 0]
    compute_create_payment reachable_ledger_inv [OF reachable_debt_db]
  by (simp add: decimal_ok_def)

theorem open_debt_can_be_paid_witness:
  "reachable debt_db \<and>
   map_of (debts debt_db) 0 =
     Some \<lparr>client = 0, total_amount = 10000, remaining_amount = 10000, due_date = 130, is_paid = False\<rparr> \<and>
   0 < (10000::int) \<and> decimal_ok 10000 \<and>
   (\<exists>s'. handle (CreatePayment 0 sample_user 0 10000) debt_db = Inr s' \<and> reachable s' \<and>
      (\<exists>d'. map_of (debts s') 0 = Some d' \<and> is_paid d' \<and> remaining_amount d' = 0 \<and>
            abs_ledger s' 0 = Some (adebt_of s' 0 d') \<and> a_remaining (adebt_of s' 0 d') = 0))"
  using open_debt_can_be_paid [OF reachable_debt_db,
      of 0 "\<lparr>client = 0, total_amount = 10000, remaining_amount = 10000, due_date = 130, is_paid = False\<rparr>"
      0 sample_user] reachable_debt_db
  by (simp add: debt_db_def decimal_ok_def)

theorem delete_company_preserves_inv_witness:
  "ledger_inv (two_companies paid40_db) \<and> own_payments 1 (two_companies paid40_db) \<and>
   ledger_inv (delete_company 1 (two_companies paid40_db))"
proof -
  have inv: "ledger_inv (two_companies paid40_db)"
    by (simp add: reachable_ledger_inv [OF reachable_paid40_db])
  have own: "own_payments 1 (two_companies paid40_db)"
    by (simp add: own_payments_def gone_user_def two_companies_def cross_user_def sample_user_def
        paid40_db_def)
  show ?thesis using inv own delete_company_preserves_inv [OF inv own] by simp
qed

end
